(* ===== verification/Prelude.thy ===== *)
theory Prelude
  imports Main "HOL-Library.Sublist"
begin

text \<open>
  Shared vocabulary of the development. Python's \<open>str\<close> is a sequence of Unicode
  code points, so a Python string is modelled as a list of naturals (\<open>pystr\<close>),
  not as HOL's byte-sized \<open>char\<close>; \<open>u\<close> turns an ASCII literal into one. The
  builtins the sources call (\<open>str.strip\<close>, \<open>str.split\<close>, \<open>str.join\<close>,
  \<open>str.lower\<close>/\<open>upper\<close>, \<open>in\<close> on strings, \<open>str(int)\<close>) are defined here, and
  a Python \<open>dict\<close>, whose iteration order is insertion order and whose assignment
  to an existing key keeps that key's position, is an association list updated by
  \<open>pd_set\<close>. The named collections gather the evaluation rules the component
  theories hand to \<open>simp\<close> when a witness is computed.
\<close>

named_theorems pystr_simps "evaluation rules of the Python string builtins"
named_theorems pydict_simps "rules of the insertion-ordered dictionary model"

type_synonym pystr = "nat list"

definition u :: "string \<Rightarrow> pystr" where
  "u s = map of_char s"

subsection \<open>Whitespace and stripping\<close>

text \<open>
  \<open>str.isspace\<close> (and the regex class \<open>\s\<close> on \<open>str\<close> patterns): the code
  points of bidirectional class WS, B or S or of category Zs.
\<close>

definition py_isspace :: "nat \<Rightarrow> bool" where
  "py_isspace c \<longleftrightarrow>
     (9 \<le> c \<and> c \<le> 13) \<or> (28 \<le> c \<and> c \<le> 32) \<or> c = 133 \<or> c = 160 \<or> c = 5760 \<or>
     (8192 \<le> c \<and> c \<le> 8202) \<or> c = 8232 \<or> c = 8233 \<or> c = 8239 \<or> c = 8287 \<or> c = 12288"

definition py_lstrip :: "pystr \<Rightarrow> pystr" where
  "py_lstrip s = dropWhile py_isspace s"

definition py_rstrip :: "pystr \<Rightarrow> pystr" where
  "py_rstrip s = rev (dropWhile py_isspace (rev s))"

definition py_strip :: "pystr \<Rightarrow> pystr" where
  "py_strip s = py_rstrip (py_lstrip s)"

subsection \<open>Splitting and joining\<close>

text \<open>
  \<open>split_when p s\<close> cuts \<open>s\<close> at every code point satisfying \<open>p\<close>, keeping
  empty pieces: \<open>s.split('\n')\<close> is \<open>split_when (\<lambda>c. c = 10) s\<close>. The argument-less
  \<open>s.split()\<close> splits at runs of whitespace and drops empty pieces.
\<close>

fun split_when :: "(nat \<Rightarrow> bool) \<Rightarrow> pystr \<Rightarrow> pystr list" where
  "split_when p [] = [[]]"
| "split_when p (c # s) =
     (if p c then [] # split_when p s
      else (case split_when p s of [] \<Rightarrow> [[c]] | w # ws \<Rightarrow> (c # w) # ws))"

definition py_split_sep :: "nat \<Rightarrow> pystr \<Rightarrow> pystr list" where
  "py_split_sep d s = split_when (\<lambda>c. c = d) s"

definition py_split_ws :: "pystr \<Rightarrow> pystr list" where
  "py_split_ws s = filter (\<lambda>w. w \<noteq> []) (split_when py_isspace s)"

fun py_join :: "pystr \<Rightarrow> pystr list \<Rightarrow> pystr" where
  "py_join sep [] = []"
| "py_join sep [w] = w"
| "py_join sep (w # ws) = w @ sep @ py_join sep ws"

subsection \<open>Case mapping, containment, integers as text\<close>

text \<open>
  \<open>str.lower\<close> and \<open>str.upper\<close> on the ASCII letters; other code points are left
  as they are (the full Unicode case tables are not modelled).
\<close>

definition py_lower_c :: "nat \<Rightarrow> nat" where
  "py_lower_c c = (if 65 \<le> c \<and> c \<le> 90 then c + 32 else c)"

definition py_upper_c :: "nat \<Rightarrow> nat" where
  "py_upper_c c = (if 97 \<le> c \<and> c \<le> 122 then c - 32 else c)"

definition py_lower :: "pystr \<Rightarrow> pystr" where
  "py_lower s = map py_lower_c s"

definition py_upper :: "pystr \<Rightarrow> pystr" where
  "py_upper s = map py_upper_c s"

text \<open>\<open>a in b\<close> on strings is contiguous containment, \<open>sublist\<close> of HOL-Library.\<close>

definition py_in :: "pystr \<Rightarrow> pystr \<Rightarrow> bool" where
  "py_in a b = sublist a b"

definition py_startswith :: "pystr \<Rightarrow> pystr \<Rightarrow> bool" where
  "py_startswith s p = (take (length p) s = p)"

fun nat_digits :: "nat \<Rightarrow> pystr" where
  "nat_digits n = (if n < 10 then [48 + n] else nat_digits (n div 10) @ [48 + n mod 10])"

declare nat_digits.simps [simp del]

definition py_str_int :: "int \<Rightarrow> pystr" where
  "py_str_int i = (if i < 0 then 45 # nat_digits (nat (- i)) else nat_digits (nat i))"

definition pad0 :: "nat \<Rightarrow> pystr \<Rightarrow> pystr" where
  "pad0 w s = replicate (w - length s) 48 @ s"

subsection \<open>Dictionaries in insertion order\<close>

type_synonym ('k, 'v) pydict = "('k \<times> 'v) list"

fun pd_set :: "'k \<Rightarrow> 'v \<Rightarrow> ('k, 'v) pydict \<Rightarrow> ('k, 'v) pydict" where
  "pd_set k v [] = [(k, v)]"
| "pd_set k v ((k', v') # d) = (if k' = k then (k, v) # d else (k', v') # pd_set k v d)"

declare u_def [pystr_simps] py_isspace_def [pystr_simps] py_lstrip_def [pystr_simps]
  py_rstrip_def [pystr_simps] py_strip_def [pystr_simps] py_split_sep_def [pystr_simps]
  py_split_ws_def [pystr_simps] py_lower_def [pystr_simps] py_upper_def [pystr_simps]
  py_lower_c_def [pystr_simps] py_upper_c_def [pystr_simps] py_in_def [pystr_simps]
  py_startswith_def [pystr_simps] py_str_int_def [pystr_simps] pad0_def [pystr_simps]
  sublist_code [pystr_simps]

subsection \<open>Lemmas on the string builtins\<close>

definition stripped :: "pystr \<Rightarrow> bool" where
  "stripped s \<longleftrightarrow> s = [] \<or> \<not> py_isspace (hd s) \<and> \<not> py_isspace (last s)"

lemma py_lstrip_no_lead: "py_lstrip s = c # r \<Longrightarrow> \<not> py_isspace c"
  unfolding py_lstrip_def by (metis dropWhile_eq_Cons_conv)

lemma py_lstrip_Nil_iff: "py_lstrip s = [] \<longleftrightarrow> (\<forall>c \<in> set s. py_isspace c)"
  by (simp add: py_lstrip_def dropWhile_eq_Nil_conv)

lemma py_rstrip_prefix: "\<exists>x. s = py_rstrip s @ x \<and> (\<forall>c \<in> set x. py_isspace c)"
proof -
  have "rev s = takeWhile py_isspace (rev s) @ dropWhile py_isspace (rev s)"
    by simp
  then have "s = py_rstrip s @ rev (takeWhile py_isspace (rev s))"
    unfolding py_rstrip_def by (metis rev_append rev_rev_ident)
  then show ?thesis by (metis set_rev set_takeWhileD)
qed

lemma py_rstrip_no_trail: "py_rstrip s \<noteq> [] \<Longrightarrow> \<not> py_isspace (last (py_rstrip s))"
  unfolding py_rstrip_def
  by (metis hd_dropWhile last_rev rev_is_Nil_conv)

lemma py_rstrip_Nil_iff: "py_rstrip s = [] \<longleftrightarrow> (\<forall>c \<in> set s. py_isspace c)"
  by (simp add: py_rstrip_def dropWhile_eq_Nil_conv)

lemma stripped_py_strip: "stripped (py_strip s)"
proof (cases "py_strip s")
  case Nil
  then show ?thesis by (simp add: stripped_def)
next
  case (Cons c r)
  obtain x where "py_lstrip s = py_rstrip (py_lstrip s) @ x"
    using py_rstrip_prefix by blast
  with Cons have "py_lstrip s = c # r @ x" by (simp add: py_strip_def)
  then have "\<not> py_isspace c" by (rule py_lstrip_no_lead)
  moreover have "\<not> py_isspace (last (py_strip s))"
    using Cons py_rstrip_no_trail [of "py_lstrip s"] by (simp add: py_strip_def)
  ultimately show ?thesis using Cons by (simp add: stripped_def)
qed

lemma py_strip_stripped: "stripped s \<Longrightarrow> py_strip s = s"
proof -
  assume st: "stripped s"
  then have l: "py_lstrip s = s"
    by (cases s) (auto simp: stripped_def py_lstrip_def)
  from st have "py_rstrip s = s"
    by (cases s rule: rev_cases) (auto simp: stripped_def py_rstrip_def)
  with l show ?thesis by (simp add: py_strip_def)
qed

lemma py_strip_idem: "py_strip (py_strip s) = py_strip s"
  by (rule py_strip_stripped [OF stripped_py_strip])

lemma py_strip_Nil_iff: "py_strip s = [] \<longleftrightarrow> (\<forall>c \<in> set s. py_isspace c)"
proof -
  have "py_strip s = [] \<longleftrightarrow> (\<forall>c \<in> set (py_lstrip s). py_isspace c)"
    by (simp add: py_strip_def py_rstrip_Nil_iff)
  also have "\<dots> \<longleftrightarrow> py_lstrip s = []"
    by (cases "py_lstrip s") (auto dest: py_lstrip_no_lead)
  also have "\<dots> \<longleftrightarrow> (\<forall>c \<in> set s. py_isspace c)"
    by (rule py_lstrip_Nil_iff)
  finally show ?thesis .
qed

lemma py_lstrip_append:
  "py_lstrip (a @ b) = (if \<forall>c \<in> set a. py_isspace c then py_lstrip b else py_lstrip a @ b)"
  by (simp add: py_lstrip_def dropWhile_append)

lemma py_rstrip_append:
  "py_rstrip (a @ b) = (if \<forall>c \<in> set b. py_isspace c then py_rstrip a else a @ py_rstrip b)"
  by (simp add: py_rstrip_def dropWhile_append)

lemma py_strip_glyph_append:
  assumes "g \<noteq> []" "\<not> py_isspace (hd g)" "\<not> py_isspace (last g)"
  shows "py_strip (g @ t) = g @ py_rstrip t"
proof -
  have "py_lstrip (g @ t) = g @ t"
    using assms(1,2) by (cases g) (auto simp: py_lstrip_def)
  moreover have "py_rstrip g = g"
    using assms(1,3) by (cases g rule: rev_cases) (auto simp: py_rstrip_def)
  ultimately show ?thesis
    by (simp add: py_strip_def py_rstrip_append py_rstrip_Nil_iff)
qed

lemma dropWhile_idem: "dropWhile P (dropWhile P xs) = dropWhile P xs"
  by (induction xs) auto

lemma py_rstrip_idem: "py_rstrip (py_rstrip s) = py_rstrip s"
  by (simp add: py_rstrip_def dropWhile_idem)

lemma py_strip_lead_ws: "\<forall>c \<in> set w. py_isspace c \<Longrightarrow> py_strip (w @ s) = py_strip s"
  by (simp add: py_strip_def py_lstrip_append)

lemma set_py_strip: "set (py_strip s) \<subseteq> set s"
  unfolding py_strip_def py_rstrip_def py_lstrip_def
  by (metis set_dropWhileD set_rev subsetI)

lemma py_lower_idem: "py_lower (py_lower s) = py_lower s"
  by (simp add: py_lower_def py_lower_c_def)

subsection \<open>Lemmas on the dictionary model\<close>

lemma map_of_pd_set [pydict_simps]: "map_of (pd_set k v d) = (map_of d)(k \<mapsto> v)"
  by (induction d) (auto simp: fun_eq_iff)

lemma keys_pd_set [pydict_simps]:
  "map fst (pd_set k v d) = (if k \<in> set (map fst d) then map fst d else map fst d @ [k])"
  by (induction d) force+

lemma distinct_pd_set [pydict_simps]:
  "distinct (map fst d) \<Longrightarrow> distinct (map fst (pd_set k v d))"
  by (simp add: keys_pd_set)

lemma pd_set_nonempty [pydict_simps]: "pd_set k v d \<noteq> []"
  by (cases d) (auto split: if_splits)

lemma pd_fold_map_of:
  "map_of (foldl (\<lambda>d x. case f x of None \<Rightarrow> d | Some (k, v) \<Rightarrow> pd_set k v d) d0 xs) =
     map_of d0 ++ map_of (rev (List.map_filter f xs))"
proof (induction xs arbitrary: d0)
  case Nil
  then show ?case by (simp add: map_filter_simps)
next
  case (Cons x xs)
  show ?case
  proof (cases "f x")
    case None
    then show ?thesis using Cons.IH by (simp add: map_filter_simps)
  next
    case (Some kv)
    obtain k v where kv: "kv = (k, v)" by fastforce
    have "map_of (pd_set k v d0) ++ map_of (rev (List.map_filter f xs)) =
        map_of d0 ++ map_of (rev (List.map_filter f (x # xs)))"
      using Some kv by (simp add: map_filter_simps map_of_pd_set map_of_append fun_eq_iff
          map_add_def split: option.splits)
    then show ?thesis using Cons.IH [of "pd_set k v d0"] Some kv by simp
  qed
qed

lemma pd_fold_distinct:
  "distinct (map fst d0) \<Longrightarrow>
     distinct (map fst (foldl (\<lambda>d x. case f x of None \<Rightarrow> d | Some (k, v) \<Rightarrow> pd_set k v d) d0 xs))"
proof (induction xs arbitrary: d0)
  case (Cons x xs)
  then show ?case by (cases "f x") (auto simp: distinct_pd_set)
qed simp

lemma pd_fold_Nil_iff:
  "foldl (\<lambda>d x. case f x of None \<Rightarrow> d | Some (k, v) \<Rightarrow> pd_set k v d) d0 xs = [] \<longleftrightarrow>
     d0 = [] \<and> List.map_filter f xs = []"
proof (induction xs arbitrary: d0)
  case Nil
  then show ?case by (simp add: map_filter_simps)
next
  case (Cons x xs)
  show ?case
  proof (cases "f x")
    case None
    then show ?thesis using Cons.IH by (simp add: map_filter_simps)
  next
    case (Some kv)
    obtain k v where kv: "kv = (k, v)" by fastforce
    show ?thesis using Cons.IH [of "pd_set k v d0"] Some kv by (simp add: map_filter_simps pd_set_nonempty)
  qed
qed

subsection \<open>Lemmas on first-match search\<close>

lemma foldl_concat_map: "foldl f a (concat (map g xs)) = foldl (\<lambda>a x. foldl f a (g x)) a xs"
  by (induction xs arbitrary: a) simp_all

lemma find_append: "find P (xs @ ys) = (case find P xs of None \<Rightarrow> find P ys | Some x \<Rightarrow> Some x)"
  by (induction xs) auto

lemma find_map: "find P (map f xs) = map_option f (find (P \<circ> f) xs)"
  by (induction xs) auto

end
