(* ===== verification/Remote.thy ===== *)
theory Remote
  imports Prelude
begin

text \<open>
  The interface between the loaders (\<open>src/import_scoreboards_to_supabase.py\<close>,
  \<open>src/import_commitments_only.py\<close>) and the REST datastore they call through
  \<open>requests\<close>. A request is a \<open>POST\<close> of one JSON object to a table, or a \<open>GET\<close> of a
  table filtered by \<open>column=eq.value\<close> pairs and projected on selected columns. A
  server is any function from a request and the store's state to a response and the
  next state: the loaders' lemmas hold for every server, the store of theory
  \<open>Store\<close> is one of them. The client threads the store's state and the trace of
  the requests it has sent. \<open>datetime.now().isoformat()\<close> is the value \<open>JNow\<close>: the
  clock is not modelled. Headers, the URL prefix and \<open>time.sleep\<close> have no effect
  on the store and are left out.
\<close>

datatype jval = JStr pystr | JInt int | JFloat pystr | JBool bool | JNull | JNow

type_synonym jobj = "(pystr \<times> jval) list"

datatype table = TUsers | TPods | TPodMeetings | TCommitments | TMeetingAttendance

datatype request =
    Post table jobj
  | Get table "(pystr \<times> pystr) list" "pystr list"

record response =
  status :: nat
  body :: "jobj list"

type_synonym 'w server = "request \<Rightarrow> 'w \<Rightarrow> response \<times> 'w"

record 'w net =
  world :: 'w
  trace :: "request list"

text \<open>Python exceptions a loader can raise and not catch before \<open>main\<close>.\<close>

datatype py_error = IndexError | KeyError pystr

definition send :: "'w server \<Rightarrow> request \<Rightarrow> 'w net \<Rightarrow> response \<times> 'w net" where
  "send srv rq n = (let (r, w') = srv rq (world n) in (r, \<lparr>world = w', trace = trace n @ [rq]\<rparr>))"

text \<open>\<open>response.json()[0]['id']\<close> on a non-empty body.\<close>

definition first_id :: "response \<Rightarrow> py_error + jval" where
  "first_id r = (case map_of (hd (body r)) (u ''id'') of None \<Rightarrow> Inl (KeyError (u ''id'')) | Some v \<Rightarrow> Inr v)"

text \<open>\<open>str()\<close> of a JSON value as an f-string inserts it into a URL.\<close>

fun jstr :: "jval \<Rightarrow> pystr" where
  "jstr (JStr s) = s"
| "jstr (JInt i) = py_str_int i"
| "jstr (JFloat s) = s"
| "jstr (JBool b) = (if b then u ''True'' else u ''False'')"
| "jstr JNull = u ''None''"
| "jstr JNow = []"

fun jtruthy :: "jval \<Rightarrow> bool" where
  "jtruthy (JStr s) = (s \<noteq> [])"
| "jtruthy (JInt i) = (i \<noteq> 0)"
| "jtruthy (JFloat s) = True"
| "jtruthy (JBool b) = b"
| "jtruthy JNull = False"
| "jtruthy JNow = True"

fun is_post_to :: "table \<Rightarrow> request \<Rightarrow> bool" where
  "is_post_to t (Post t' _) = (t = t')"
| "is_post_to t (Get _ _ _) = False"

text \<open>
  A \<open>for\<close> loop whose body may raise: the first exception ends the loop with the
  client state reached so far.
\<close>

fun try_fold :: "('x \<Rightarrow> 'm \<Rightarrow> 'w net \<Rightarrow> (py_error + 'm) \<times> 'w net) \<Rightarrow> 'x list \<Rightarrow> 'm \<Rightarrow> 'w net \<Rightarrow>
    (py_error + 'm) \<times> 'w net" where
  "try_fold f [] m n = (Inr m, n)"
| "try_fold f (x # xs) m n =
     (case f x m n of (Inl e, n') \<Rightarrow> (Inl e, n') | (Inr m', n') \<Rightarrow> try_fold f xs m' n')"

lemma send_trace: "send srv rq n = (r, n') \<Longrightarrow> trace n' = trace n @ [rq]"
  by (auto simp: send_def split: prod.splits)

lemma send_fst_world: "fst (send srv rq n) = fst (srv rq (world n))"
  by (simp add: send_def split: prod.splits)

text \<open>
  A loop whose every step adds its own element as a new key reaches the end and
  returns the keys in loop order; a loop whose steps keep the accumulator returns it.
\<close>

lemma try_fold_keys:
  assumes "\<And>x m n. x \<in> set xs \<Longrightarrow> \<exists>v n'. f x m n = (Inr (pd_set x v m), n')"
    and "distinct xs" "set xs \<inter> set (map fst m) = {}"
  shows "\<exists>m' n'. try_fold f xs m n = (Inr m', n') \<and> map fst m' = map fst m @ xs"
  using assms
proof (induction xs arbitrary: m n)
  case (Cons x xs)
  obtain v n1 where s: "f x m n = (Inr (pd_set x v m), n1)" using Cons.prems(1) [of x m n] by auto
  have k: "map fst (pd_set x v m) = map fst m @ [x]" using Cons.prems(3) by (simp add: keys_pd_set)
  have "\<exists>m' n'. try_fold f xs (pd_set x v m) n1 = (Inr m', n') \<and> map fst m' = map fst (pd_set x v m) @ xs"
    using Cons.prems k by (intro Cons.IH) auto
  then show ?case using s k by auto
qed simp

lemma try_fold_keep:
  assumes "\<And>x m n. fst (f x m n) = Inr m"
  shows "fst (try_fold f xs m n) = Inr m"
proof (induction xs arbitrary: n)
  case (Cons x xs)
  obtain r n' where "f x m n = (r, n')" by fastforce
  then show ?case using assms [of x m n] Cons.IH [of n'] by simp
qed simp

end
