(* ===== verification/Store.thy ===== *)
theory Store
  imports Remote
begin

text \<open>
  An in-memory model of the REST datastore, a server in the sense of \<open>Remote\<close>. Each
  table holds its rows in insertion order; a row gets a fresh \<open>id\<close> when it is
  stored. The schema is the one \<open>create_tables\<close> of
  \<open>src/import_scoreboards_to_supabase.py\<close> prints (lines 31-85) for
  \<open>pod_meetings\<close> and \<open>meeting_attendance\<close>: a \<open>POST\<close> naming a column the table
  does not have, or leaving out a \<open>NOT NULL\<close> column without a default, is refused
  with 400, and one that repeats the \<open>UNIQUE (meeting_id, user_id)\<close> pair of
  \<open>meeting_attendance\<close> with 409. The repository gives no schema for \<open>users\<close>,
  \<open>pods\<close> and \<open>commitments\<close>; those tables accept every row. A \<open>GET\<close> returns,
  with 200, the rows whose filtered columns print as the filter values, projected on
  the selected columns. Foreign keys are not checked.
\<close>

record store =
  st_rows :: "table \<Rightarrow> jobj list"
  st_next :: nat

record table_schema =
  ts_columns :: "pystr list"
  ts_required :: "pystr list"
  ts_unique :: "pystr list list"

text \<open>The \<open>pod_meetings\<close> table of \<open>pod_meetings_sql\<close> (lines 31-41).\<close>

definition pod_meetings_schema :: table_schema where
  "pod_meetings_schema =
     \<lparr>ts_columns = map u [''id'', ''pod_id'', ''scheduled_date'', ''scheduled_time'', ''status'', ''created_at''],
      ts_required = [u ''scheduled_date''], ts_unique = []\<rparr>"

text \<open>The \<open>meeting_attendance\<close> table of \<open>meeting_attendance_sql\<close> (lines 60-81).\<close>

definition meeting_attendance_schema :: table_schema where
  "meeting_attendance_schema =
     \<lparr>ts_columns = map u [''id'', ''meeting_id'', ''user_id'', ''attended'', ''duration_minutes'',
        ''created_at'', ''meet_participant_id'', ''detection_method'', ''meet_join_time'',
        ''meet_leave_time'', ''meet_duration_minutes'', ''meet_reconnect_count'',
        ''meet_device_type'', ''confidence_score''],
      ts_required = [], ts_unique = [map u [''meeting_id'', ''user_id'']]\<rparr>"

text \<open>The tables \<open>create_tables\<close> defines that the loaders write to; the others have no schema here.\<close>

definition schema :: "table \<Rightarrow> table_schema option" where
  "schema t =
     (case t of
        TPodMeetings \<Rightarrow> Some pod_meetings_schema
      | TMeetingAttendance \<Rightarrow> Some meeting_attendance_schema
      | _ \<Rightarrow> None)"

definition row_fits :: "table_schema \<Rightarrow> jobj \<Rightarrow> bool" where
  "row_fits sc row \<longleftrightarrow> list_all (\<lambda>(c, v). c \<in> set (ts_columns sc)) row \<and>
     list_all (\<lambda>c. c \<in> set (map fst row)) (ts_required sc)"

definition key_of :: "pystr list \<Rightarrow> jobj \<Rightarrow> jval option list" where
  "key_of cols row = map (map_of row) cols"

definition unique_clash :: "table_schema \<Rightarrow> jobj list \<Rightarrow> jobj \<Rightarrow> bool" where
  "unique_clash sc rows row \<longleftrightarrow>
     list_ex (\<lambda>cols. list_ex (\<lambda>r. key_of cols r = key_of cols row) rows) (ts_unique sc)"

definition row_matches :: "(pystr \<times> pystr) list \<Rightarrow> jobj \<Rightarrow> bool" where
  "row_matches filters row \<longleftrightarrow>
     list_all (\<lambda>(c, v). case map_of row c of None \<Rightarrow> False | Some x \<Rightarrow> jstr x = v) filters"

definition project :: "pystr list \<Rightarrow> jobj \<Rightarrow> jobj" where
  "project sel row = List.map_filter (\<lambda>c. map_option (Pair c) (map_of row c)) sel"

definition fresh_id :: "nat \<Rightarrow> jval" where
  "fresh_id k = JStr (u ''id-'' @ nat_digits k)"

definition store_server :: "store server" where
  "store_server rq s =
     (case rq of
        Post t row \<Rightarrow>
          (case schema t of
             Some sc \<Rightarrow>
               if \<not> row_fits sc row then (\<lparr>status = 400, body = []\<rparr>, s)
               else if unique_clash sc (st_rows s t) row then (\<lparr>status = 409, body = []\<rparr>, s)
               else (\<lparr>status = 201, body = []\<rparr>,
                     s\<lparr>st_rows := (st_rows s)(t := st_rows s t @ [(u ''id'', fresh_id (st_next s)) # row]),
                       st_next := Suc (st_next s)\<rparr>)
           | None \<Rightarrow>
               (\<lparr>status = 201, body = []\<rparr>,
                s\<lparr>st_rows := (st_rows s)(t := st_rows s t @ [(u ''id'', fresh_id (st_next s)) # row]),
                  st_next := Suc (st_next s)\<rparr>))
      | Get t filters sel \<Rightarrow>
          (\<lparr>status = 200, body = map (project sel) (filter (row_matches filters) (st_rows s t))\<rparr>, s))"

text \<open>
  The simplest server: every row is accepted and every query answers one row with
  the id \<open>1\<close>; the store's state is trivial.
\<close>

definition accept_server :: "unit server" where
  "accept_server rq w =
     (case rq of
        Post t row \<Rightarrow> (\<lparr>status = 201, body = []\<rparr>, w)
      | Get t filters sel \<Rightarrow> (\<lparr>status = 200, body = [[(u ''id'', JStr (u ''1''))]]\<rparr>, w))"

definition empty_store :: store where
  "empty_store = \<lparr>st_rows = (\<lambda>t. []), st_next = 0\<rparr>"

definition fresh_net :: "store net" where
  "fresh_net = \<lparr>world = empty_store, trace = []\<rparr>"

lemmas store_simps = accept_server_def store_server_def schema_def pod_meetings_schema_def
  meeting_attendance_schema_def row_fits_def unique_clash_def key_of_def
  row_matches_def project_def fresh_id_def empty_store_def fresh_net_def send_def first_id_def

end
