(* ===== verification/Workbook.thy ===== *)
theory Workbook
  imports Prelude
begin

text \<open>
  The part of openpyxl that \<open>src/excel_to_json_converter.py\<close> reads: a cell has a
  value and a fill, a worksheet has \<open>max_row\<close>, \<open>max_column\<close> and its stored cells,
  and a workbook is the list of its sheets in \<open>sheetnames\<close> order. A cell the
  sheet does not store reads as openpyxl's empty cell (cvalue \<open>None\<close>, a pattern fill
  of type \<open>None\<close> with colour \<open>00000000\<close>). The values a cell can hold are those
  of \<open>load_workbook(data_only=False)\<close>: \<open>None\<close>, booleans, integers, strings,
  \<open>datetime\<close>s, and any other truthy value (floats, times, formulas) given by its
  \<open>str()\<close>. \<open>py_truthy\<close> is Python's \<open>bool()\<close> and \<open>py_str\<close> its \<open>str()\<close>
  on these values.
\<close>

record datetime =
  dt_year :: nat
  dt_month :: nat
  dt_day :: nat
  dt_hour :: nat
  dt_minute :: nat
  dt_second :: nat
  dt_microsecond :: nat

datatype cell_value =
    CNone
  | CBool bool
  | CInt int
  | CStr pystr
  | CDateTime datetime
  | COther pystr

datatype rgb_value = RgbNone | RgbStr pystr | RgbObj pystr

record fill =
  fill_type :: "pystr option"
  start_color_rgb :: rgb_value

record cell =
  cvalue :: cell_value
  cell_fill :: "fill option"

record worksheet =
  max_row :: nat
  max_column :: nat
  cells :: "(nat \<times> nat) \<rightharpoonup> cell"

type_synonym workbook = "(pystr \<times> worksheet) list"

definition empty_cell :: cell where
  "empty_cell = \<lparr>cvalue = CNone,
     cell_fill = Some \<lparr>fill_type = None, start_color_rgb = RgbStr (u ''00000000'')\<rparr>\<rparr>"

definition ws_cell :: "worksheet \<Rightarrow> nat \<Rightarrow> nat \<Rightarrow> cell" where
  "ws_cell ws r c = (case cells ws (r, c) of None \<Rightarrow> empty_cell | Some x \<Rightarrow> x)"

subsection \<open>Python truthiness and str() of cell values\<close>

fun py_truthy :: "cell_value \<Rightarrow> bool" where
  "py_truthy CNone = False"
| "py_truthy (CBool b) = b"
| "py_truthy (CInt i) = (i \<noteq> 0)"
| "py_truthy (CStr s) = (s \<noteq> [])"
| "py_truthy (CDateTime d) = True"
| "py_truthy (COther s) = True"

definition date_digits :: "datetime \<Rightarrow> pystr" where
  "date_digits d = pad0 4 (nat_digits (dt_year d)) @ [45] @ pad0 2 (nat_digits (dt_month d))
     @ [45] @ pad0 2 (nat_digits (dt_day d))"

text \<open>\<open>str(datetime)\<close> is \<open>isoformat(' ')\<close>: the microseconds only when non-zero.\<close>

definition str_datetime :: "datetime \<Rightarrow> pystr" where
  "str_datetime d = date_digits d @ [32] @ pad0 2 (nat_digits (dt_hour d)) @ [58]
     @ pad0 2 (nat_digits (dt_minute d)) @ [58] @ pad0 2 (nat_digits (dt_second d))
     @ (if dt_microsecond d = 0 then [] else 46 # pad0 6 (nat_digits (dt_microsecond d)))"

fun py_str :: "cell_value \<Rightarrow> pystr" where
  "py_str CNone = u ''None''"
| "py_str (CBool b) = (if b then u ''True'' else u ''False'')"
| "py_str (CInt i) = py_str_int i"
| "py_str (CStr s) = s"
| "py_str (CDateTime d) = str_datetime d"
| "py_str (COther s) = s"

text \<open>The ranges the \<open>datetime\<close> constructor enforces.\<close>

definition leap_year :: "nat \<Rightarrow> bool" where
  "leap_year y \<longleftrightarrow> 4 dvd y \<and> (\<not> 100 dvd y \<or> 400 dvd y)"

definition days_in_month :: "nat \<Rightarrow> nat \<Rightarrow> nat" where
  "days_in_month y m =
     (if m = 2 then (if leap_year y then 29 else 28)
      else if m = 4 \<or> m = 6 \<or> m = 9 \<or> m = 11 then 30 else 31)"

definition valid_datetime :: "datetime \<Rightarrow> bool" where
  "valid_datetime d \<longleftrightarrow> 1 \<le> dt_year d \<and> dt_year d \<le> 9999 \<and> 1 \<le> dt_month d \<and> dt_month d \<le> 12
     \<and> 1 \<le> dt_day d \<and> dt_day d \<le> days_in_month (dt_year d) (dt_month d)
     \<and> dt_hour d \<le> 23 \<and> dt_minute d \<le> 59 \<and> dt_second d \<le> 59 \<and> dt_microsecond d \<le> 999999"

fun wf_cell_value :: "cell_value \<Rightarrow> bool" where
  "wf_cell_value (CDateTime d) = valid_datetime d"
| "wf_cell_value v = True"

definition wf_worksheet :: "worksheet \<Rightarrow> bool" where
  "wf_worksheet ws \<longleftrightarrow> (\<forall>r c x. cells ws (r, c) = Some x \<longrightarrow> wf_cell_value (cvalue x))"

lemma wf_ws_cell: "wf_worksheet ws \<Longrightarrow> wf_cell_value (cvalue (ws_cell ws r c))"
  by (auto simp: wf_worksheet_def ws_cell_def empty_cell_def split: option.splits)

lemma nat_digits_ne: "nat_digits n \<noteq> []"
  by (subst nat_digits.simps) simp

lemma py_truthy_CStr_str: "py_truthy (CStr s) \<longleftrightarrow> py_str (CStr s) \<noteq> []"
  by simp

end
