(* ===== verification/DateParse.thy ===== *)
theory DateParse
  imports Workbook
begin

text \<open>
  The date parser \<open>parse_date_cell\<close> of \<open>src/excel_to_json_converter.py\<close>
  (lines 78-108) and the part of CPython's \<open>datetime.strptime\<close> it relies on.
  \<open>strptime(s, fmt)\<close> compiles \<open>fmt\<close> to a regular expression (each directive to
  the alternation of \<open>_strptime.TimeRE\<close>, each whitespace run to \<open>\s+\<close>, every
  other character to itself), takes the first match of that expression at the start
  of \<open>s\<close> in the regex engine's backtracking order, raises \<open>ValueError\<close> when the
  match leaves "unconverted data", and raises it again when the fields do not form a
  valid \<open>datetime\<close>. The matcher \<open>rx_match\<close> is that backtracking search: the
  alternatives of a directive are tried in their order and \<open>\s+\<close> tries its longest
  run first. \<open>\d\<close> is modelled as the ASCII digits.
\<close>

datatype directive = DY | Dm | Dd | DH | DM | DS

datatype fmt_item = FLit nat | FWs | FDir directive

type_synonym cclass = "(nat \<times> nat) list"

definition in_class :: "cclass \<Rightarrow> nat \<Rightarrow> bool" where
  "in_class cl c = list_ex (\<lambda>(lo, hi). lo \<le> c \<and> c \<le> hi) cl"

definition dig :: cclass where
  "dig = [(48, 57)]"

definition ch :: "nat \<Rightarrow> nat \<Rightarrow> cclass" where
  "ch lo hi = [(lo, hi)]"

text \<open>The alternations of \<open>TimeRE\<close>, in their order (digits as code points 48-57).\<close>

fun dir_alts :: "directive \<Rightarrow> cclass list list" where
  "dir_alts DY = [[dig, dig, dig, dig]]"
| "dir_alts Dm = [[ch 49 49, ch 48 50], [ch 48 48, ch 49 57], [ch 49 57]]"
| "dir_alts Dd = [[ch 51 51, ch 48 49], [ch 49 50, dig], [ch 48 48, ch 49 57], [ch 49 57],
                  [ch 32 32, ch 49 57]]"
| "dir_alts DH = [[ch 50 50, ch 48 51], [ch 48 49, dig], [dig]]"
| "dir_alts DM = [[ch 48 53, dig], [dig]]"
| "dir_alts DS = [[ch 54 54, ch 48 49], [ch 48 53, dig], [dig]]"

fun directive_of :: "nat \<Rightarrow> directive option" where
  "directive_of c =
     (if c = 89 then Some DY else if c = 109 then Some Dm else if c = 100 then Some Dd
      else if c = 72 then Some DH else if c = 77 then Some DM else if c = 83 then Some DS
      else None)"

text \<open>
  \<open>TimeRE.pattern\<close>: a directive letter the table does not know is a \<open>ValueError\<close>
  ("bad directive"), here \<open>None\<close>.
\<close>

function compile_fmt :: "pystr \<Rightarrow> fmt_item list option" where
  "compile_fmt [] = Some []"
| "compile_fmt (c # r) =
     (if c = 37 then
        (case r of
           [] \<Rightarrow> None
         | l # r' \<Rightarrow>
             (case directive_of l of
                None \<Rightarrow> None
              | Some d \<Rightarrow> map_option (Cons (FDir d)) (compile_fmt r')))
      else if py_isspace c then map_option (Cons FWs) (compile_fmt (dropWhile py_isspace r))
      else map_option (Cons (FLit c)) (compile_fmt r))"
  by pat_completeness auto
termination
  by (relation "measure length") (auto simp: le_imp_less_Suc length_dropWhile_le)

fun first_some :: "'a option list \<Rightarrow> 'a option" where
  "first_some [] = None"
| "first_some (Some x # xs) = Some x"
| "first_some (None # xs) = first_some xs"

definition alt_match :: "cclass list \<Rightarrow> pystr \<Rightarrow> (pystr \<times> pystr) option" where
  "alt_match alt s =
     (if length alt \<le> length s \<and> list_all2 in_class alt (take (length alt) s)
      then Some (take (length alt) s, drop (length alt) s) else None)"

fun rx_match :: "fmt_item list \<Rightarrow> pystr \<Rightarrow> ((directive \<times> pystr) list \<times> pystr) option" where
  "rx_match [] s = Some ([], s)"
| "rx_match (FLit c # fs) s =
     (case s of [] \<Rightarrow> None | d # s' \<Rightarrow> if d = c then rx_match fs s' else None)"
| "rx_match (FWs # fs) s =
     first_some (map (\<lambda>k. rx_match fs (drop k s))
       (rev [1..<Suc (length (takeWhile py_isspace s))]))"
| "rx_match (FDir d # fs) s =
     first_some (map (\<lambda>a. case alt_match a s of
         None \<Rightarrow> None
       | Some (v, s') \<Rightarrow> map_option (\<lambda>(caps, r). ((d, v) # caps, r)) (rx_match fs s'))
       (dir_alts d))"

text \<open>\<open>int()\<close> of a captured field; the \<open>%d\<close> alternative \<open>' [1-9]'\<close> captures a space.\<close>

definition digits_val :: "pystr \<Rightarrow> nat" where
  "digits_val v = foldl (\<lambda>n c. 10 * n + (c - 48)) 0 (filter (\<lambda>c. c \<noteq> 32) v)"

definition cap_val :: "directive \<Rightarrow> nat \<Rightarrow> (directive \<times> pystr) list \<Rightarrow> nat" where
  "cap_val d dflt caps = (case map_of caps d of None \<Rightarrow> dflt | Some v \<Rightarrow> digits_val v)"

text \<open>The defaults of \<open>_strptime\<close> (year 1900, January, day 1, midnight).\<close>

definition build_datetime :: "(directive \<times> pystr) list \<Rightarrow> datetime option" where
  "build_datetime caps =
     (let dt = \<lparr>dt_year = cap_val DY 1900 caps, dt_month = cap_val Dm 1 caps,
                dt_day = cap_val Dd 1 caps, dt_hour = cap_val DH 0 caps,
                dt_minute = cap_val DM 0 caps, dt_second = cap_val DS 0 caps,
                dt_microsecond = 0\<rparr>
      in if valid_datetime dt then Some dt else None)"

definition strptime :: "pystr \<Rightarrow> pystr \<Rightarrow> datetime option" where
  "strptime s fmt =
     (case compile_fmt fmt of
        None \<Rightarrow> None
      | Some items \<Rightarrow>
          (case rx_match items s of
             None \<Rightarrow> None
           | Some (caps, rest) \<Rightarrow> if rest = [] then build_datetime caps else None))"

subsection \<open>The parser\<close>

definition date_patterns :: "pystr list" where
  "date_patterns = map u [''%Y-%m-%d %H:%M:%S'', ''%Y-%m-%d'', ''%m/%d/%Y'', ''%d/%m/%Y'']"

text \<open>
  The loop over the patterns with \<open>try ... except ValueError: continue\<close> returns the
  rendering of the first pattern that parses; \<open>strftime('%Y-%m-%d')\<close> is
  \<open>date_digits\<close>.
\<close>

definition parse_date_cell :: "cell_value \<Rightarrow> pystr option" where
  "parse_date_cell v =
     (if \<not> py_truthy v then None
      else (case v of
              CDateTime d \<Rightarrow> Some (date_digits d)
            | _ \<Rightarrow>
                (let ds = py_strip (py_str v) in
                 if ds = [] \<or> py_lower ds \<in> set (map u [''nan'', ''none'', '''']) then None
                 else first_some (map (\<lambda>p. map_option date_digits (strptime ds p)) date_patterns))))"

subsection \<open>Fixed-width renderings\<close>

text \<open>
  The two- and four-digit decimal renderings \<open>%02d\<close> and \<open>%04d\<close> that
  \<open>strftime\<close> writes for a month or day below 100 and a year below 10000, and
  the date part of a \<open>datetime\<close> as \<open>strptime\<close> builds it from a date-only
  pattern (the time fields at their defaults).
\<close>

definition d2 :: "nat \<Rightarrow> pystr" where
  "d2 n = [48 + n div 10, 48 + n mod 10]"

definition d4 :: "nat \<Rightarrow> pystr" where
  "d4 n = [48 + n div 1000, 48 + n div 100 mod 10, 48 + n div 10 mod 10, 48 + n mod 10]"

definition date_only :: "datetime \<Rightarrow> datetime" where
  "date_only dt = \<lparr>dt_year = dt_year dt, dt_month = dt_month dt, dt_day = dt_day dt,
     dt_hour = 0, dt_minute = 0, dt_second = 0, dt_microsecond = 0\<rparr>"

text \<open>A date written month first, \<open>MM/DD/YYYY\<close>, as the cells of the sheets may hold it.\<close>

definition mdy_digits :: "datetime \<Rightarrow> pystr" where
  "mdy_digits dt = d2 (dt_month dt) @ [47] @ d2 (dt_day dt) @ [47] @ d4 (dt_year dt)"

lemmas date_simps = parse_date_cell_def date_patterns_def strptime_def build_datetime_def
  cap_val_def digits_val_def alt_match_def in_class_def dig_def ch_def valid_datetime_def
  days_in_month_def leap_year_def date_digits_def

subsection \<open>Digits, the matcher and the round trip\<close>

lemma nat_digits_small: "n < 10 \<Longrightarrow> nat_digits n = [48 + n]"
  by (subst nat_digits.simps) simp

lemma nat_digits_big: "10 \<le> n \<Longrightarrow> nat_digits n = nat_digits (n div 10) @ [48 + n mod 10]"
  by (subst nat_digits.simps) simp

lemma div_10_10: "(n::nat) div 10 div 10 = n div 100" and div_100_10: "(n::nat) div 100 div 10 = n div 1000"
  by (simp_all add: div_mult2_eq)

lemma pad2_digits: "n < 100 \<Longrightarrow> pad0 2 (nat_digits n) = d2 n"
  by (cases "n < 10") (simp_all add: pad0_def d2_def nat_digits_small nat_digits_big)

lemma p4_1: "n < 10 \<Longrightarrow> pad0 4 (nat_digits n) = d4 n"
  by (simp add: pad0_def nat_digits_small d4_def numeral_3_eq_3)

lemma p4_2: "10 \<le> n \<Longrightarrow> n < 100 \<Longrightarrow> pad0 4 (nat_digits n) = d4 n"
proof -
  assume h: "10 \<le> n" "n < 100"
  then have "nat_digits n = [48 + n div 10, 48 + n mod 10]"
    by (simp add: nat_digits_big nat_digits_small)
  with h show ?thesis by (simp add: pad0_def d4_def numeral_2_eq_2)
qed

lemma p4_3: "100 \<le> n \<Longrightarrow> n < 1000 \<Longrightarrow> pad0 4 (nat_digits n) = d4 n"
proof -
  assume h: "100 \<le> n" "n < 1000"
  have q: "10 \<le> n div 10" "n div 10 div 10 < 10" "n div 1000 = 0" using h by (auto simp: div_10_10)
  have "nat_digits (n div 10) = [48 + n div 100, 48 + n div 10 mod 10]"
    using q by (simp only: nat_digits_big [of "n div 10"] nat_digits_small div_10_10) simp
  moreover have "10 \<le> n" using h by simp
  ultimately have "nat_digits n = [48 + n div 100, 48 + n div 10 mod 10, 48 + n mod 10]"
    by (simp only: nat_digits_big [of n]) simp
  with q h show ?thesis by (simp add: pad0_def d4_def)
qed

lemma p4_4: "1000 \<le> n \<Longrightarrow> n < 10000 \<Longrightarrow> pad0 4 (nat_digits n) = d4 n"
proof -
  assume h: "1000 \<le> n" "n < 10000"
  have q: "10 \<le> n div 100" "n div 100 div 10 < 10" "10 \<le> n div 10" "10 \<le> n"
    using h by (auto simp: div_100_10)
  have "nat_digits (n div 100) = [48 + n div 1000, 48 + n div 100 mod 10]"
    using q by (simp only: nat_digits_big [of "n div 100"] nat_digits_small div_100_10) simp
  then have "nat_digits (n div 10) = [48 + n div 1000, 48 + n div 100 mod 10, 48 + n div 10 mod 10]"
    using q by (simp only: nat_digits_big [of "n div 10"] div_10_10) simp
  then have "nat_digits n = [48 + n div 1000, 48 + n div 100 mod 10, 48 + n div 10 mod 10, 48 + n mod 10]"
    using q by (simp only: nat_digits_big [of n]) simp
  then show ?thesis by (simp add: pad0_def d4_def)
qed

lemma pad4_digits: "n < 10000 \<Longrightarrow> pad0 4 (nat_digits n) = d4 n"
  using p4_1 p4_2 p4_3 p4_4 by (meson not_less)

lemma digits_val_d2: "digits_val (d2 n) = n"
  by (simp add: digits_val_def d2_def)

lemma digits_val_4: "digits_val [48 + a, 48 + b, 48 + c, 48 + d] = 1000 * a + 100 * b + 10 * c + d"
  by (simp add: digits_val_def)

lemma digits_val_d4: "digits_val (d4 n) = n"
proof -
  have a: "n = n mod 10 + 10 * (n div 10)" by simp
  have b: "n div 10 = n div 10 mod 10 + 10 * (n div 100)"
    using mod_div_mult_eq [of "n div 10" 10] by (simp add: div_10_10)
  have c: "n div 100 = n div 100 mod 10 + 10 * (n div 1000)"
    using mod_div_mult_eq [of "n div 100" 10] by (simp add: div_100_10)
  show ?thesis unfolding d4_def digits_val_4 using a b c by linarith
qed

lemma first_some_None_iff: "first_some xs = None \<longleftrightarrow> (\<forall>x \<in> set xs. x = None)"
  by (induction xs rule: first_some.induct) auto

lemma first_some_single [simp]: "first_some [x] = x"
  by (cases x) auto

lemma alt_match_suffix: "alt_match a s = Some (v, s') \<Longrightarrow> set s' \<subseteq> set s"
  by (auto simp: alt_match_def split: if_splits dest: in_set_dropD)

lemma rx_match_no_ws:
  "FWs \<in> set fs \<Longrightarrow> \<forall>c \<in> set s. \<not> py_isspace c \<Longrightarrow> rx_match fs s = None"
proof (induction fs s rule: rx_match.induct)
  case (3 fs s)
  then show ?case by (cases s) (simp_all add: first_some_None_iff)
next
  case (4 d fs s)
  then show ?case
    by (fastforce simp: first_some_None_iff split: option.splits dest: alt_match_suffix)
qed (auto split: list.splits)

lemma rx_year:
  "y < 10000 \<Longrightarrow> rx_match (FDir DY # fs) (d4 y @ s) =
     map_option (\<lambda>(caps, r). ((DY, d4 y) # caps, r)) (rx_match fs s)"
proof -
  assume "y < 10000"
  then have "y div 1000 \<le> 9" "y div 10 mod 10 \<le> 9" "y div 100 mod 10 \<le> 9" "y mod 10 \<le> 9"
    by simp_all
  then show ?thesis by (simp add: d4_def alt_match_def in_class_def dig_def)
qed

lemma rx_month:
  assumes "1 \<le> m" "m \<le> 12" "rx_match fs s = Some (caps, r)"
  shows "rx_match (FDir Dm # fs) (d2 m @ s) = Some ((Dm, d2 m) # caps, r)"
proof -
  have "m div 10 = 0 \<and> 1 \<le> m mod 10 \<or> m div 10 = 1 \<and> m mod 10 \<le> 2" using assms(1,2) by arith
  then show ?thesis using assms(3)
    by (auto simp: d2_def alt_match_def in_class_def dig_def ch_def)
qed

lemma rx_day:
  assumes "1 \<le> d" "d \<le> 31" "rx_match fs s = Some (caps, r)"
  shows "rx_match (FDir Dd # fs) (d2 d @ s) = Some ((Dd, d2 d) # caps, r)"
proof -
  have "d div 10 = 0 \<and> 1 \<le> d mod 10 \<or> d div 10 = 1 \<or> d div 10 = 2 \<or> d div 10 = 3 \<and> d mod 10 \<le> 1"
    using assms(1,2) by arith
  then show ?thesis using assms(3)
    by (auto simp: d2_def alt_match_def in_class_def dig_def ch_def)
qed

lemma days_in_month_le: "days_in_month y m \<le> 31"
  by (simp add: days_in_month_def)

lemma date_digits_valid:
  assumes "valid_datetime dt"
  shows "date_digits dt = d4 (dt_year dt) @ [45] @ d2 (dt_month dt) @ [45] @ d2 (dt_day dt)"
proof -
  have "dt_day dt \<le> 31" using assms days_in_month_le [of "dt_year dt" "dt_month dt"]
    by (simp add: valid_datetime_def)
  then show ?thesis using assms by (simp add: valid_datetime_def date_digits_def pad4_digits pad2_digits)
qed

lemma mod10_le9: "(n::nat) mod 10 \<le> 9"
  using mod_less_divisor [of 10 n] by linarith

lemma set_d2: "n < 100 \<Longrightarrow> set (d2 n) \<subseteq> {48..57}"
proof -
  assume "n < 100"
  then have "n div 10 < 10" "n mod 10 < 10" by (simp_all add: div_less_iff_less_mult)
  then show ?thesis by (simp add: d2_def)
qed

lemma set_d4: "n < 10000 \<Longrightarrow> set (d4 n) \<subseteq> {48..57}"
proof -
  assume "n < 10000"
  then have "n div 1000 < 10" "n div 100 mod 10 < 10" "n div 10 mod 10 < 10" "n mod 10 < 10"
    by (simp_all add: div_less_iff_less_mult)
  then show ?thesis by (simp add: d4_def mod10_le9)
qed

lemma set_date_digits: "valid_datetime dt \<Longrightarrow> set (date_digits dt) \<subseteq> {45..57}"
  using set_d2 [of "dt_month dt"] set_d2 [of "dt_day dt"] set_d4 [of "dt_year dt"]
    days_in_month_le [of "dt_year dt" "dt_month dt"]
  by (fastforce simp: date_digits_valid valid_datetime_def)

lemma digit_range_not_space: "c \<in> {45..57} \<Longrightarrow> \<not> py_isspace c"
  by (auto simp: py_isspace_def)

lemma digit_range_lower: "c \<in> {45..57} \<Longrightarrow> py_lower_c c = c"
  by (auto simp: py_lower_c_def)

lemma compile_iso_date:
  "compile_fmt (u ''%Y-%m-%d'') = Some [FDir DY, FLit 45, FDir Dm, FLit 45, FDir Dd]"
  by (simp add: u_def py_isspace_def)

lemma compile_iso_datetime:
  "FWs \<in> set (the (compile_fmt (u ''%Y-%m-%d %H:%M:%S'')))"
  by (simp add: u_def py_isspace_def)

lemma strptime_iso_datetime_fails:
  "valid_datetime dt \<Longrightarrow> strptime (date_digits dt) (u ''%Y-%m-%d %H:%M:%S'') = None"
  using compile_iso_datetime rx_match_no_ws set_date_digits digit_range_not_space
  by (fastforce simp: strptime_def split: option.splits)

lemma valid_date_only: "valid_datetime dt \<Longrightarrow> valid_datetime (date_only dt)"
  by (simp add: valid_datetime_def date_only_def)

lemma date_digits_date_only: "date_digits (date_only dt) = date_digits dt"
  by (simp add: date_digits_def date_only_def)

lemma rx_iso_date:
  assumes "valid_datetime dt"
  shows "rx_match [FDir DY, FLit 45, FDir Dm, FLit 45, FDir Dd] (date_digits dt) =
    Some ([(DY, d4 (dt_year dt)), (Dm, d2 (dt_month dt)), (Dd, d2 (dt_day dt))], [])"
proof -
  have b: "1 \<le> dt_day dt" "dt_day dt \<le> 31" "1 \<le> dt_month dt" "dt_month dt \<le> 12"
    "dt_year dt < 10000"
    using assms days_in_month_le [of "dt_year dt" "dt_month dt"] by (auto simp: valid_datetime_def)
  have "rx_match [FDir Dd] (d2 (dt_day dt) @ []) = Some ([(Dd, d2 (dt_day dt))], [])"
    using rx_day [of "dt_day dt" "[]" "[]" "[]" "[]"] b by simp
  then have "rx_match [FLit 45, FDir Dd] ([45] @ d2 (dt_day dt)) = Some ([(Dd, d2 (dt_day dt))], [])"
    by simp
  then have "rx_match [FDir Dm, FLit 45, FDir Dd] (d2 (dt_month dt) @ [45] @ d2 (dt_day dt)) =
      Some ([(Dm, d2 (dt_month dt)), (Dd, d2 (dt_day dt))], [])"
    using rx_month b by blast
  then have "rx_match [FLit 45, FDir Dm, FLit 45, FDir Dd] ([45] @ d2 (dt_month dt) @ [45] @ d2 (dt_day dt)) =
      Some ([(Dm, d2 (dt_month dt)), (Dd, d2 (dt_day dt))], [])"
    by simp
  then show ?thesis using rx_year [of "dt_year dt"] b by (simp add: date_digits_valid [OF assms])
qed

lemma strptime_iso_date:
  assumes v: "valid_datetime dt"
  shows "strptime (date_digits dt) (u ''%Y-%m-%d'') = Some (date_only dt)"
proof -
  have "strptime (date_digits dt) (u ''%Y-%m-%d'') =
      build_datetime [(DY, d4 (dt_year dt)), (Dm, d2 (dt_month dt)), (Dd, d2 (dt_day dt))]"
    unfolding strptime_def compile_iso_date option.case rx_iso_date [OF v] by simp
  also have "\<dots> = Some (date_only dt)"
    using valid_date_only [OF v]
    by (simp add: build_datetime_def cap_val_def digits_val_d2 digits_val_d4 date_only_def)
  finally show ?thesis .
qed

lemma date_digits_clean:
  assumes v: "valid_datetime dt"
  shows "py_strip (date_digits dt) = date_digits dt" "py_lower (date_digits dt) = date_digits dt"
    "date_digits dt \<noteq> []" "110 \<notin> set (date_digits dt)"
proof -
  have r: "set (date_digits dt) \<subseteq> {45..57}" using set_date_digits [OF v] .
  show ne: "date_digits dt \<noteq> []" by (simp add: date_digits_def)
  have "hd (date_digits dt) \<in> {45..57}" "last (date_digits dt) \<in> {45..57}"
    using r hd_in_set [OF ne] last_in_set [OF ne] by auto
  then have "stripped (date_digits dt)" by (simp add: stripped_def digit_range_not_space)
  then show "py_strip (date_digits dt) = date_digits dt" by (rule py_strip_stripped)
  show "py_lower (date_digits dt) = date_digits dt"
    unfolding py_lower_def using r digit_range_lower by (intro map_idI) blast
  show "110 \<notin> set (date_digits dt)" using r by auto
qed

lemma reparse_date_digits:
  assumes v: "valid_datetime dt"
  shows "parse_date_cell (CStr (date_digits dt)) = Some (date_digits dt)"
proof -
  note c = date_digits_clean [OF v]
  have "date_digits dt \<notin> set (map u [''nan'', ''none'', ''''])"
    using c(3,4) by (auto simp: u_def)
  then have "parse_date_cell (CStr (date_digits dt)) =
      first_some (map (\<lambda>p. map_option date_digits (strptime (date_digits dt) p)) date_patterns)"
    using c(1-3) by (simp add: parse_date_cell_def Let_def)
  also have "\<dots> = Some (date_digits dt)"
    by (simp only: date_patterns_def list.map strptime_iso_datetime_fails [OF v]
        strptime_iso_date [OF v] option.map first_some.simps date_digits_date_only)
  finally show ?thesis .
qed

lemma first_some_SomeD: "first_some xs = Some x \<Longrightarrow> Some x \<in> set xs"
  by (induction xs rule: first_some.induct) auto

lemma strptime_valid: "strptime s f = Some dt \<Longrightarrow> valid_datetime dt"
  by (auto simp: strptime_def build_datetime_def Let_def split: option.splits if_splits)

lemma parse_date_valid:
  assumes "wf_cell_value v" and "parse_date_cell v = Some s"
  shows "\<exists>dt. valid_datetime dt \<and> s = date_digits dt"
proof (cases "\<exists>d. v = CDateTime d")
  case True
  then show ?thesis using assms by (auto simp: parse_date_cell_def)
next
  case False
  then have "first_some (map (\<lambda>p. map_option date_digits (strptime (py_strip (py_str v)) p))
      date_patterns) = Some s"
    using assms(2) by (cases v) (auto simp: parse_date_cell_def Let_def split: if_splits)
  then obtain p where "Some s = map_option date_digits (strptime (py_strip (py_str v)) p)"
    by (auto dest!: first_some_SomeD)
  then obtain dt where "strptime (py_strip (py_str v)) p = Some dt" "s = date_digits dt"
    by (metis map_option_eq_Some)
  then show ?thesis using strptime_valid by blast
qed

lemma compile_iso_datetime_hd:
  "\<exists>fs. compile_fmt (u ''%Y-%m-%d %H:%M:%S'') = Some (FDir DY # fs)"
  by (simp add: u_def py_isspace_def)

lemma compile_mdy: "compile_fmt (u ''%m/%d/%Y'') = Some [FDir Dm, FLit 47, FDir Dd, FLit 47, FDir DY]"
  by (simp add: u_def py_isspace_def)

lemma compile_dmy: "compile_fmt (u ''%d/%m/%Y'') = Some [FDir Dd, FLit 47, FDir Dm, FLit 47, FDir DY]"
  by (simp add: u_def py_isspace_def)

lemma alt_year_slash: "alt_match [dig, dig, dig, dig] (a # b # 47 # s) = None"
  by (simp add: alt_match_def in_class_def dig_def)

lemma d2_Cons: "\<exists>a b. d2 n = [a, b]"
  by (simp add: d2_def)

lemma strptime_year_first_fails:
  assumes "compile_fmt p = Some (FDir DY # fs)"
  shows "strptime (d2 m @ [47] @ r) p = None"
proof -
  obtain a b where "d2 m = [a, b]" using d2_Cons by blast
  then show ?thesis using assms by (simp add: strptime_def alt_year_slash)
qed

lemma rx_dmy_fields:
  assumes "1 \<le> a" "a \<le> 12" "1 \<le> b" "b \<le> 31" "y < 10000"
  shows "rx_match [FDir Dm, FLit 47, FDir Dd, FLit 47, FDir DY] (d2 a @ [47] @ d2 b @ [47] @ d4 y) =
           Some ([(Dm, d2 a), (Dd, d2 b), (DY, d4 y)], [])"
    and "rx_match [FDir Dd, FLit 47, FDir Dm, FLit 47, FDir DY] (d2 b @ [47] @ d2 a @ [47] @ d4 y) =
           Some ([(Dd, d2 b), (Dm, d2 a), (DY, d4 y)], [])"
proof -
  have y: "rx_match [FLit 47, FDir DY] ([47] @ d4 y) = Some ([(DY, d4 y)], [])"
    using rx_year [OF assms(5), of "[]" "[]"] by simp
  have "rx_match [FDir Dd, FLit 47, FDir DY] (d2 b @ [47] @ d4 y) = Some ([(Dd, d2 b), (DY, d4 y)], [])"
    using rx_day [OF assms(3,4) y] by simp
  then have "rx_match [FLit 47, FDir Dd, FLit 47, FDir DY] ([47] @ d2 b @ [47] @ d4 y) =
      Some ([(Dd, d2 b), (DY, d4 y)], [])" by simp
  then show "rx_match [FDir Dm, FLit 47, FDir Dd, FLit 47, FDir DY] (d2 a @ [47] @ d2 b @ [47] @ d4 y) =
           Some ([(Dm, d2 a), (Dd, d2 b), (DY, d4 y)], [])"
    using rx_month [OF assms(1,2)] by simp
  have "rx_match [FDir Dm, FLit 47, FDir DY] (d2 a @ [47] @ d4 y) = Some ([(Dm, d2 a), (DY, d4 y)], [])"
    using rx_month [OF assms(1,2) y] by simp
  then have "rx_match [FLit 47, FDir Dm, FLit 47, FDir DY] ([47] @ d2 a @ [47] @ d4 y) =
      Some ([(Dm, d2 a), (DY, d4 y)], [])" by simp
  then show "rx_match [FDir Dd, FLit 47, FDir Dm, FLit 47, FDir DY] (d2 b @ [47] @ d2 a @ [47] @ d4 y) =
           Some ([(Dd, d2 b), (Dm, d2 a), (DY, d4 y)], [])"
    using rx_day [OF assms(3,4)] by simp
qed

lemma set_mdy: "valid_datetime dt \<Longrightarrow> set (mdy_digits dt) \<subseteq> {47..57}"
  using set_d2 [of "dt_month dt"] set_d2 [of "dt_day dt"] set_d4 [of "dt_year dt"]
    days_in_month_le [of "dt_year dt" "dt_month dt"]
  by (fastforce simp: mdy_digits_def valid_datetime_def)

subsection \<open>Properties of the date parser\<close>

text \<open>
  C10: parsing is idempotent on its own output: whatever string \<open>parse_date_cell\<close>
  returns for a well-formed cell value (a string, or a native \<open>datetime\<close>) parses
  back to itself, so a date written to the JSON as \<open>YYYY-MM-DD\<close> and read again
  keeps its key.
\<close>

theorem parse_date_idem:
  assumes "wf_cell_value v" and "parse_date_cell v = Some s"
  shows "parse_date_cell (CStr s) = Some s"
  using parse_date_valid [OF assms] reparse_date_digits by blast

theorem parse_date_idem_witness:
  "wf_cell_value (CStr (u ''03/05/2024'')) \<and>
   parse_date_cell (CStr (u ''03/05/2024'')) = Some (u ''2024-03-05'') \<and>
   parse_date_cell (CStr (u ''2024-03-05'')) = Some (u ''2024-03-05'')"
proof -
  have h: "wf_cell_value (CStr (u ''03/05/2024''))"
    "parse_date_cell (CStr (u ''03/05/2024'')) = Some (u ''2024-03-05'')"
    by (simp_all add: date_simps pystr_simps nat_digits.simps)
  show ?thesis using h parse_date_idem [OF h] by simp
qed

text \<open>
  C17: every date the parser returns is normalised: four year digits, a hyphen, two
  month digits, a hyphen and two day digits, naming a day that exists in the
  proleptic Gregorian calendar (months 1-12, days up to the month's length with the
  leap-year rule).
\<close>

theorem parse_date_iso_shape:
  assumes "wf_cell_value v" and "parse_date_cell v = Some s"
  shows "\<exists>y m d. 1 \<le> y \<and> y \<le> 9999 \<and> 1 \<le> m \<and> m \<le> 12 \<and> 1 \<le> d \<and> d \<le> days_in_month y m \<and>
           s = d4 y @ [45] @ d2 m @ [45] @ d2 d"
proof -
  obtain dt where "valid_datetime dt" "s = date_digits dt" using parse_date_valid [OF assms] by blast
  then show ?thesis using date_digits_valid by (auto simp: valid_datetime_def)
qed

theorem parse_date_iso_shape_witness:
  "wf_cell_value (CStr (u '' 1/5/2024 '')) \<and>
   parse_date_cell (CStr (u '' 1/5/2024 '')) = Some (u ''2024-01-05'') \<and>
   (\<exists>y m d. 1 \<le> y \<and> y \<le> 9999 \<and> 1 \<le> m \<and> m \<le> 12 \<and> 1 \<le> d \<and> d \<le> days_in_month y m \<and>
      u ''2024-01-05'' = d4 y @ [45] @ d2 m @ [45] @ d2 d)"
proof -
  have h: "wf_cell_value (CStr (u '' 1/5/2024 ''))"
    "parse_date_cell (CStr (u '' 1/5/2024 '')) = Some (u ''2024-01-05'')"
    by (simp_all add: date_simps pystr_simps nat_digits.simps)
  show ?thesis using h parse_date_iso_shape [OF h] by simp
qed

text \<open>
  C33: an ambiguous date is read month first: every valid date written
  \<open>MM/DD/YYYY\<close> is returned as that date, because \<open>%m/%d/%Y\<close> precedes \<open>%d/%m/%Y\<close>
  in the pattern list and the two year-first patterns fail on it; when the day is
  at most 12 and the swapped date exists, the day-first pattern would also have
  parsed the string, as the date with day and month exchanged.
\<close>

theorem parse_date_month_first:
  assumes v: "valid_datetime dt"
  shows "parse_date_cell (CStr (mdy_digits dt)) = Some (date_digits dt) \<and>
    (dt_day dt \<le> 12 \<and> dt_month dt \<le> days_in_month (dt_year dt) (dt_day dt) \<longrightarrow>
       (\<exists>dt'. strptime (mdy_digits dt) (u ''%d/%m/%Y'') = Some dt' \<and> valid_datetime dt' \<and>
              dt_day dt' = dt_month dt \<and> dt_month dt' = dt_day dt \<and> dt_year dt' = dt_year dt))"
proof -
  have b: "1 \<le> dt_day dt" "dt_day dt \<le> 31" "1 \<le> dt_month dt" "dt_month dt \<le> 12"
    "dt_year dt < 10000" "1 \<le> dt_year dt"
    using v days_in_month_le [of "dt_year dt" "dt_month dt"] by (auto simp: valid_datetime_def)
  have r: "set (mdy_digits dt) \<subseteq> {47..57}" using set_mdy [OF v] .
  have ne: "mdy_digits dt \<noteq> []" by (simp add: mdy_digits_def d2_def)
  have "hd (mdy_digits dt) \<in> {47..57}" "last (mdy_digits dt) \<in> {47..57}"
    using r hd_in_set [OF ne] last_in_set [OF ne] by auto
  then have "stripped (mdy_digits dt)" by (simp add: stripped_def py_isspace_def)
  then have st: "py_strip (mdy_digits dt) = mdy_digits dt" by (rule py_strip_stripped)
  have lo: "py_lower (mdy_digits dt) = mdy_digits dt"
    unfolding py_lower_def using r by (intro map_idI) (auto simp: py_lower_c_def)
  have nn: "mdy_digits dt \<notin> set (map u [''nan'', ''none'', ''''])"
    using r ne by (auto simp: u_def)
  obtain fs where c1: "compile_fmt (u ''%Y-%m-%d %H:%M:%S'') = Some (FDir DY # fs)"
    using compile_iso_datetime_hd by blast
  have f1: "strptime (mdy_digits dt) (u ''%Y-%m-%d %H:%M:%S'') = None"
    unfolding mdy_digits_def by (rule strptime_year_first_fails [OF c1])
  have f2: "strptime (mdy_digits dt) (u ''%Y-%m-%d'') = None"
    unfolding mdy_digits_def by (rule strptime_year_first_fails [OF compile_iso_date])
  have "strptime (mdy_digits dt) (u ''%m/%d/%Y'') =
      build_datetime [(Dm, d2 (dt_month dt)), (Dd, d2 (dt_day dt)), (DY, d4 (dt_year dt))]"
    unfolding strptime_def compile_mdy mdy_digits_def using rx_dmy_fields(1) [OF b(3,4,1,2,5)] by simp
  also have "\<dots> = Some (date_only dt)"
    using valid_date_only [OF v]
    by (simp add: build_datetime_def cap_val_def digits_val_d2 digits_val_d4 date_only_def)
  finally have f3: "strptime (mdy_digits dt) (u ''%m/%d/%Y'') = Some (date_only dt)" .
  have "parse_date_cell (CStr (mdy_digits dt)) =
      first_some (map (\<lambda>p. map_option date_digits (strptime (mdy_digits dt) p)) date_patterns)"
    using st lo nn ne by (simp add: parse_date_cell_def Let_def)
  also have "\<dots> = Some (date_digits dt)"
    by (simp only: date_patterns_def list.map f1 f2 f3 option.map first_some.simps date_digits_date_only)
  finally have p: "parse_date_cell (CStr (mdy_digits dt)) = Some (date_digits dt)" .
  show ?thesis
  proof (intro conjI impI p)
    assume sw: "dt_day dt \<le> 12 \<and> dt_month dt \<le> days_in_month (dt_year dt) (dt_day dt)"
    let ?dt' = "\<lparr>dt_year = dt_year dt, dt_month = dt_day dt, dt_day = dt_month dt,
                 dt_hour = 0, dt_minute = 0, dt_second = 0, dt_microsecond = 0\<rparr>"
    have vd: "valid_datetime ?dt'" using b sw by (simp add: valid_datetime_def)
    have "strptime (mdy_digits dt) (u ''%d/%m/%Y'') =
        build_datetime [(Dd, d2 (dt_month dt)), (Dm, d2 (dt_day dt)), (DY, d4 (dt_year dt))]"
      unfolding strptime_def compile_dmy mdy_digits_def
      using rx_dmy_fields(2) [of "dt_day dt" "dt_month dt" "dt_year dt"] b sw by simp
    also have "\<dots> = Some ?dt'"
      using vd by (simp add: build_datetime_def cap_val_def digits_val_d2 digits_val_d4)
    finally show "\<exists>dt'. strptime (mdy_digits dt) (u ''%d/%m/%Y'') = Some dt' \<and> valid_datetime dt' \<and>
              dt_day dt' = dt_month dt \<and> dt_month dt' = dt_day dt \<and> dt_year dt' = dt_year dt"
      using vd by auto
  qed
qed


theorem parse_date_month_first_witness:
  "valid_datetime \<lparr>dt_year = 2024, dt_month = 3, dt_day = 5, dt_hour = 0, dt_minute = 0, dt_second = 0,
      dt_microsecond = 0\<rparr> \<and>
   parse_date_cell (CStr (mdy_digits \<lparr>dt_year = 2024, dt_month = 3, dt_day = 5, dt_hour = 0, dt_minute = 0,
      dt_second = 0, dt_microsecond = 0\<rparr>)) =
     Some (date_digits \<lparr>dt_year = 2024, dt_month = 3, dt_day = 5, dt_hour = 0, dt_minute = 0, dt_second = 0,
      dt_microsecond = 0\<rparr>)"
proof -
  have h: "valid_datetime \<lparr>dt_year = 2024, dt_month = 3, dt_day = 5, dt_hour = 0, dt_minute = 0, dt_second = 0,
      dt_microsecond = 0\<rparr>"
    by (simp add: valid_datetime_def days_in_month_def)
  show ?thesis using h parse_date_month_first [OF h] by simp
qed

text \<open>
  The specification's examples: an ISO date is returned unchanged, \<open>nan\<close> in any
  case and surrounded by blanks is no date, and \<open>03/05/2024\<close> is the fifth of March.
\<close>

lemma parse_date_spec_examples:
  "parse_date_cell (CStr (u ''2024-03-05'')) = Some (u ''2024-03-05'') \<and>
   parse_date_cell (CStr (u '' NaN '')) = None \<and>
   parse_date_cell (CStr (u ''03/05/2024'')) = Some (u ''2024-03-05'')"
  by (simp add: date_simps pystr_simps nat_digits.simps)

text \<open>
  The later patterns are reached only when the earlier ones fail: a timestamp
  string loses its time of day, \<open>25/12/2024\<close> fails month first and is read day
  first, and a date that does not exist (the thirtieth of February) fails every
  pattern and is no date.
\<close>

theorem parse_date_fallbacks:
  "parse_date_cell (CStr (u ''2024-03-05 10:30:00'')) = Some (u ''2024-03-05'') \<and>
   parse_date_cell (CStr (u ''25/12/2024'')) = Some (u ''2024-12-25'') \<and>
   parse_date_cell (CStr (u ''2024-02-30'')) = None"
  by (simp add: date_simps pystr_simps nat_digits.simps)

end
