(* ===== verification/Emoji.thy ===== *)
theory Emoji
  imports Workbook
begin

text \<open>
  The emoji classifier and text cleaner of \<open>src/excel_to_json_converter.py\<close>
  (\<open>detect_fulfillment_from_emoji\<close>, lines 48-62; \<open>clean_commitment_text\<close>,
  lines 65-75) and the commitment-cell parser built on them
  (\<open>parse_commitments_column\<close>, lines 111-133). The glyph literals are modelled as
  the source file holds them: each of the intended emoji (U+2705, U+274C) appears
  as the three code points of its UTF-8 bytes read as Mac Roman,
  U+201A U+00FA U+00D6 for the check and U+201A U+00F9 U+00E5 for the cross. The cleaner's
  regex \<open>^[...]\s*\<close> is a character class, so it removes one code point of
  those six, not a whole glyph.
\<close>

datatype fulfillment = FTrue | FFalse | FUnknown

definition check_glyph :: pystr where
  "check_glyph = [8218, 250, 214]"

definition cross_glyph :: pystr where
  "cross_glyph = [8218, 249, 229]"

definition glyph_class :: "nat list" where
  "glyph_class = check_glyph @ cross_glyph"

definition detect_fulfillment_from_emoji :: "pystr \<Rightarrow> fulfillment" where
  "detect_fulfillment_from_emoji text =
     (if text = [] then FUnknown
      else (let t = py_strip text in
            if py_startswith t check_glyph then FTrue
            else if py_startswith t cross_glyph then FFalse
            else FUnknown))"

text \<open>\<open>re.sub(r'^[...]\s*', '', text)\<close>: the anchor matches at the start only.\<close>

definition strip_leading_glyph :: "pystr \<Rightarrow> pystr" where
  "strip_leading_glyph t =
     (case t of [] \<Rightarrow> [] | c # r \<Rightarrow> if c \<in> set glyph_class then dropWhile py_isspace r else t)"

definition clean_commitment_text :: "pystr \<Rightarrow> pystr" where
  "clean_commitment_text text =
     (if text = [] then [] else py_strip (strip_leading_glyph (py_strip text)))"

record commitment =
  ctext :: pystr
  cfulfilled :: fulfillment

text \<open>The loop over the cell's lines, one step per line.\<close>

fun commitments_of_lines :: "pystr list \<Rightarrow> commitment list" where
  "commitments_of_lines [] = []"
| "commitments_of_lines (line # ls) =
     (let l = py_strip line in
      if l = [] then commitments_of_lines ls
      else (let f = detect_fulfillment_from_emoji l; t = clean_commitment_text l in
            if t = [] then commitments_of_lines ls
            else \<lparr>ctext = t, cfulfilled = f\<rparr> # commitments_of_lines ls))"

definition parse_commitments_column :: "cell \<Rightarrow> commitment list" where
  "parse_commitments_column c =
     (if \<not> py_truthy (cvalue c) then []
      else commitments_of_lines (py_split_sep 10 (py_str (cvalue c))))"

lemmas emoji_simps = detect_fulfillment_from_emoji_def clean_commitment_text_def
  strip_leading_glyph_def glyph_class_def check_glyph_def cross_glyph_def

subsection \<open>Lemmas\<close>

lemma clean_stripped: "stripped (clean_commitment_text t)"
proof (cases "t = []")
  case True
  then show ?thesis by (simp add: clean_commitment_text_def stripped_def)
next
  case False
  then show ?thesis by (simp add: clean_commitment_text_def stripped_py_strip)
qed

lemma clean_Nil [simp]: "clean_commitment_text [] = []"
  by (simp add: clean_commitment_text_def)

lemma glyph_ends:
  "\<not> py_isspace (hd check_glyph)" "\<not> py_isspace (last check_glyph)"
  "\<not> py_isspace (hd cross_glyph)" "\<not> py_isspace (last cross_glyph)"
  by (simp_all add: check_glyph_def cross_glyph_def py_isspace_def)

lemma glyphs_ne: "check_glyph \<noteq> []" "cross_glyph \<noteq> []"
  by (simp_all add: check_glyph_def cross_glyph_def)

lemma strip_check_glyph: "py_strip (check_glyph @ t) = check_glyph @ py_rstrip t"
  by (rule py_strip_glyph_append) (simp_all add: glyphs_ne glyph_ends)

lemma strip_cross_glyph: "py_strip (cross_glyph @ t) = cross_glyph @ py_rstrip t"
  by (rule py_strip_glyph_append) (simp_all add: glyphs_ne glyph_ends)

lemma commitments_of_lines_text:
  "x \<in> set (commitments_of_lines ls) \<Longrightarrow> ctext x \<noteq> [] \<and> stripped (ctext x)"
  by (induction ls) (auto simp: Let_def clean_stripped split: if_splits)

subsection \<open>Properties of the classifier, the cleaner and the cell parser\<close>

text \<open>
  C13: every commitment the cell parser emits has a non-empty text with no leading or
  trailing whitespace: empty lines and lines that clean to nothing are dropped.
\<close>

theorem parse_commitments_text:
  "x \<in> set (parse_commitments_column c) \<Longrightarrow> ctext x \<noteq> [] \<and> stripped (ctext x)"
  by (auto simp: parse_commitments_column_def commitments_of_lines_text split: if_splits)

theorem parse_commitments_text_witness:
  "\<lparr>ctext = u ''x'', cfulfilled = FUnknown\<rparr> \<in>
     set (parse_commitments_column \<lparr>cvalue = CStr (u '' x\<newline>\<newline> ''), cell_fill = None\<rparr>) \<and>
   u ''x'' \<noteq> [] \<and> stripped (u ''x'')"
proof -
  have h: "\<lparr>ctext = u ''x'', cfulfilled = FUnknown\<rparr> \<in>
     set (parse_commitments_column \<lparr>cvalue = CStr (u '' x\<newline>\<newline> ''), cell_fill = None\<rparr>)"
    by (simp add: parse_commitments_column_def emoji_simps pystr_simps)
  show ?thesis using parse_commitments_text [OF h] h by simp
qed

text \<open>
  C11: the line loop of \<open>parse_commitments_column\<close> is the pipeline "strip every
  line, drop those that clean to nothing, and pair each cleaned text with the
  fulfilment detected on the stripped line", in line order.
\<close>

theorem commitments_of_lines_eq:
  "commitments_of_lines ls =
     map (\<lambda>l. \<lparr>ctext = clean_commitment_text l, cfulfilled = detect_fulfillment_from_emoji l\<rparr>)
       (filter (\<lambda>l. clean_commitment_text l \<noteq> []) (map py_strip ls))"
  by (induction ls) (auto simp: Let_def)

text \<open>
  C14: a line that starts, after any leading whitespace, with the source's check glyph
  is fulfilled (\<open>true\<close>), and one that starts with its cross glyph is not
  (\<open>false\<close>), whatever follows.
\<close>

theorem detect_glyph_line:
  assumes "\<forall>c \<in> set w. py_isspace c"
  shows "detect_fulfillment_from_emoji (w @ check_glyph @ t) = FTrue \<and>
         detect_fulfillment_from_emoji (w @ cross_glyph @ t) = FFalse"
proof -
  have s1: "py_strip (w @ check_glyph @ t) = check_glyph @ py_rstrip t"
    using assms by (simp add: py_strip_lead_ws strip_check_glyph)
  have s2: "py_strip (w @ cross_glyph @ t) = cross_glyph @ py_rstrip t"
    using assms by (simp add: py_strip_lead_ws strip_cross_glyph)
  have ne: "w @ check_glyph @ t \<noteq> []" "w @ cross_glyph @ t \<noteq> []"
    using glyphs_ne by simp_all
  show ?thesis
    unfolding detect_fulfillment_from_emoji_def s1 s2 Let_def py_startswith_def using ne
    by (simp add: check_glyph_def cross_glyph_def)
qed

theorem detect_glyph_line_witness:
  "py_isspace 32 \<and> py_isspace 9 \<and>
   detect_fulfillment_from_emoji ([32, 9] @ check_glyph @ u '' Ship'') = FTrue \<and>
   detect_fulfillment_from_emoji ([32, 9] @ cross_glyph @ u '' Ship'') = FFalse"
proof -
  have h: "\<forall>c \<in> set [32, 9]. py_isspace c" by (simp add: py_isspace_def)
  show ?thesis using h detect_glyph_line [OF h] by simp
qed

text \<open>
  C15: the cleaner's character class removes a single code point of the three that
  make up each glyph in the source: \<open>clean_commitment_text\<close> of the check glyph
  followed by a text keeps the glyph's last two code points, so the glyph followed by
  " Finish report" is cleaned to U+00FA U+00D6 " Finish report", not to "Finish report".
\<close>

theorem clean_glyph:
  "clean_commitment_text (check_glyph @ t) = [250, 214] @ py_rstrip t \<and>
   clean_commitment_text (cross_glyph @ t) = [249, 229] @ py_rstrip t"
proof -
  have g1: "py_strip ([250, 214] @ py_rstrip t) = [250, 214] @ py_rstrip t"
    by (subst py_strip_glyph_append) (simp_all add: py_isspace_def py_rstrip_idem)
  have g2: "py_strip ([249, 229] @ py_rstrip t) = [249, 229] @ py_rstrip t"
    by (subst py_strip_glyph_append) (simp_all add: py_isspace_def py_rstrip_idem)
  have "clean_commitment_text (check_glyph @ t) =
      py_strip (strip_leading_glyph (check_glyph @ py_rstrip t))"
    by (simp add: clean_commitment_text_def strip_check_glyph glyphs_ne)
  also have "strip_leading_glyph (check_glyph @ py_rstrip t) = [250, 214] @ py_rstrip t"
    by (simp add: strip_leading_glyph_def glyph_class_def check_glyph_def cross_glyph_def
        py_isspace_def)
  finally have c1: "clean_commitment_text (check_glyph @ t) = [250, 214] @ py_rstrip t"
    using g1 by simp
  have "clean_commitment_text (cross_glyph @ t) =
      py_strip (strip_leading_glyph (cross_glyph @ py_rstrip t))"
    by (simp add: clean_commitment_text_def strip_cross_glyph glyphs_ne)
  also have "strip_leading_glyph (cross_glyph @ py_rstrip t) = [249, 229] @ py_rstrip t"
    by (simp add: strip_leading_glyph_def glyph_class_def check_glyph_def cross_glyph_def
        py_isspace_def)
  finally show ?thesis using c1 g2 by simp
qed

text \<open>
  C16: a line starting with the real check mark U+2705 (the spec's example
  "U+2705 Finish report") is neither recognised nor cleaned: its fulfilment is
  \<open>unknown\<close> and its text keeps the emoji.
\<close>

theorem real_emoji:
  assumes "stripped (9989 # t)"
  shows "detect_fulfillment_from_emoji (9989 # t) = FUnknown \<and>
         clean_commitment_text (9989 # t) = 9989 # t"
  using assms py_strip_stripped [OF assms]
  by (simp add: detect_fulfillment_from_emoji_def clean_commitment_text_def py_startswith_def
      check_glyph_def cross_glyph_def strip_leading_glyph_def glyph_class_def)

theorem real_emoji_witness:
  "stripped (9989 # u '' Finish report'') \<and>
   detect_fulfillment_from_emoji (9989 # u '' Finish report'') = FUnknown \<and>
   clean_commitment_text (9989 # u '' Finish report'') = 9989 # u '' Finish report''"
proof -
  have h: "stripped (9989 # u '' Finish report'')"
    by (simp add: stripped_def pystr_simps)
  show ?thesis using h real_emoji [OF h] by simp
qed

end
