(* ===== verification/Sniffer.thy ===== *)
theory Sniffer
  imports DateParse Emoji
begin

text \<open>
  The column sniffer of \<open>src/excel_to_json_converter.py\<close>:
  \<open>find_data_start_row\<close> (lines 136-147) and
  \<open>find_date_and_commitment_columns\<close> (lines 150-173). Both scan a fixed
  top-left window of the sheet; the ranges are kept as the source writes them,
  \<open>range(1, min(20, max_row + 1))\<close> and \<open>range(1, min(10, ...))\<close>, i.e. at
  most 19 rows and 9 rows or columns. Python truthiness of the returned date string
  and of a column index is kept (\<open>date_hit\<close>, \<open>py_truthy_idx\<close>).
\<close>

definition date_hit :: "cell_value \<Rightarrow> bool" where
  "date_hit v = (case parse_date_cell v of None \<Rightarrow> False | Some s \<Rightarrow> s \<noteq> [])"

definition py_truthy_idx :: "nat option \<Rightarrow> bool" where
  "py_truthy_idx x = (case x of None \<Rightarrow> False | Some i \<Rightarrow> i \<noteq> 0)"

definition py_range :: "nat \<Rightarrow> nat \<Rightarrow> nat list" where
  "py_range a b = [a..<b]"

definition start_rows :: "worksheet \<Rightarrow> nat list" where
  "start_rows ws = py_range 1 (min 20 (max_row ws + 1))"

definition window_rows :: "worksheet \<Rightarrow> nat list" where
  "window_rows ws = py_range 1 (min 10 (max_row ws + 1))"

definition window_cols :: "worksheet \<Rightarrow> nat list" where
  "window_cols ws = py_range 1 (min 10 (max_column ws + 1))"

text \<open>The nested loops with \<open>return row_idx\<close> on the first hit and the fallback 5.\<close>

definition find_data_start_row :: "worksheet \<Rightarrow> nat" where
  "find_data_start_row ws =
     (case find (\<lambda>r. list_ex (\<lambda>c. date_hit (cvalue (ws_cell ws r c))) (window_cols ws))
             (start_rows ws) of
        None \<Rightarrow> 5
      | Some r \<Rightarrow> r)"

text \<open>
  The test of lines 167-170: a string value longer than 50 code points containing
  either glyph literal (the same three-code-point literals as the emoji classifier).
\<close>

definition commitment_like :: "cell_value \<Rightarrow> bool" where
  "commitment_like v =
     (py_truthy v \<and> (case v of CStr s \<Rightarrow> True | _ \<Rightarrow> False) \<and> 50 < length (py_str v) \<and>
      (py_in check_glyph (py_str v) \<or> py_in cross_glyph (py_str v)))"

type_synonym sniff_state = "nat option \<times> nat option"

text \<open>One iteration of the inner loop body, at column \<open>col\<close> and row \<open>row\<close>.\<close>

definition sniff_step :: "worksheet \<Rightarrow> sniff_state \<Rightarrow> nat \<times> nat \<Rightarrow> sniff_state" where
  "sniff_step ws st cr =
     (let (date_col, commitment_col) = st; (col, row) = cr;
          v = cvalue (ws_cell ws row col);
          date_col' = (if date_hit v \<and> \<not> py_truthy_idx date_col then Some col else date_col);
          commitment_col' =
            (if commitment_like v \<and> \<not> py_truthy_idx commitment_col then Some col else commitment_col)
      in (date_col', commitment_col'))"

text \<open>The column-major traversal: the outer loop over columns, the inner over rows.\<close>

definition sniff_cells :: "worksheet \<Rightarrow> (nat \<times> nat) list" where
  "sniff_cells ws = concat (map (\<lambda>c. map (\<lambda>r. (c, r)) (window_rows ws)) (window_cols ws))"

definition find_date_and_commitment_columns :: "worksheet \<Rightarrow> sniff_state" where
  "find_date_and_commitment_columns ws = foldl (sniff_step ws) (None, None) (sniff_cells ws)"

text \<open>
  The reference the specification describes: the first column of the window holding
  any date-parseable value, and the first holding a commitment-like string.
\<close>

definition first_col_with :: "worksheet \<Rightarrow> (cell_value \<Rightarrow> bool) \<Rightarrow> nat option" where
  "first_col_with ws P =
     find (\<lambda>c. list_ex (\<lambda>r. P (cvalue (ws_cell ws r c))) (window_rows ws)) (window_cols ws)"

text \<open>A sheet given by its dimensions and its non-empty cells (no fills), for examples.\<close>

definition sheet_of :: "nat \<Rightarrow> nat \<Rightarrow> ((nat \<times> nat) \<times> cell_value) list \<Rightarrow> worksheet" where
  "sheet_of nr nc xs = \<lparr>max_row = nr, max_column = nc,
     cells = map_of (map (\<lambda>(k, v). (k, \<lparr>cvalue = v, cell_fill = None\<rparr>)) xs)\<rparr>"

lemmas sniff_simps = find_date_and_commitment_columns_def find_data_start_row_def sniff_cells_def
  sniff_step_def date_hit_def commitment_like_def py_truthy_idx_def window_rows_def
  window_cols_def start_rows_def py_range_def sheet_of_def ws_cell_def empty_cell_def
  date_simps pystr_simps nat_digits.simps upt_rec

subsection \<open>The scans as first-match searches\<close>

lemma find_concat_pairs:
  "map_option fst (find P (concat (map (\<lambda>c. map (\<lambda>r. (c, r)) rs) cs))) =
     find (\<lambda>c. list_ex (\<lambda>r. P (c, r)) rs) cs"
proof (induction cs)
  case (Cons c cs)
  show ?case
  proof (cases "list_ex (\<lambda>r. P (c, r)) rs")
    case True
    then have "find (\<lambda>r. P (c, r)) rs \<noteq> None" by (auto simp: find_None_iff list_ex_iff)
    with True show ?thesis by (auto simp: find_append find_map comp_def)
  next
    case False
    then have "find (\<lambda>r. P (c, r)) rs = None" by (auto simp: find_None_iff list_ex_iff)
    with False Cons.IH show ?thesis by (simp add: find_append find_map comp_def)
  qed
qed simp

lemma sniff_fold:
  assumes "\<forall>x \<in> set xs. fst x \<noteq> 0"
    and "a = None \<or> py_truthy_idx a" and "b = None \<or> py_truthy_idx b"
  shows "foldl (sniff_step ws) (a, b) xs =
    (case a of None \<Rightarrow> map_option fst (find (\<lambda>(c, r). date_hit (cvalue (ws_cell ws r c))) xs) | Some _ \<Rightarrow> a,
     case b of None \<Rightarrow> map_option fst (find (\<lambda>(c, r). commitment_like (cvalue (ws_cell ws r c))) xs) | Some _ \<Rightarrow> b)"
  using assms
proof (induction xs arbitrary: a b)
  case Nil
  then show ?case by (auto split: option.splits)
next
  case (Cons x xs)
  obtain c r where x: "x = (c, r)" by fastforce
  then have c: "c \<noteq> 0" using Cons.prems(1) by simp
  show ?case
    using Cons.IH [of "fst (sniff_step ws (a, b) x)" "snd (sniff_step ws (a, b) x)"] Cons.prems c
    by (auto simp: x sniff_step_def py_truthy_idx_def split: option.splits)
qed

lemma sniff_cells_nonzero: "\<forall>x \<in> set (sniff_cells ws). fst x \<noteq> 0"
  by (auto simp: sniff_cells_def window_cols_def py_range_def)

lemma columns_first_col:
  "find_date_and_commitment_columns ws = (first_col_with ws date_hit, first_col_with ws commitment_like)"
  unfolding find_date_and_commitment_columns_def
  by (simp add: sniff_fold sniff_cells_nonzero py_truthy_idx_def first_col_with_def sniff_cells_def
      find_concat_pairs [where P = "\<lambda>(c, r). date_hit (cvalue (ws_cell ws r c))", simplified]
      find_concat_pairs [where P = "\<lambda>(c, r). commitment_like (cvalue (ws_cell ws r c))", simplified])

lemma first_col_withD:
  "first_col_with ws P = Some c \<Longrightarrow>
     c \<in> set (window_cols ws) \<and> (\<exists>r \<in> set (window_rows ws). P (cvalue (ws_cell ws r c)))"
  unfolding first_col_with_def by (auto simp: find_Some_iff list_ex_iff)

lemma window_rows_start_rows: "set (window_rows ws) \<subseteq> set (start_rows ws)"
  by (auto simp: window_rows_def start_rows_def py_range_def)

lemma start_row_first:
  assumes "r \<in> set (start_rows ws)" and "list_ex (\<lambda>c. date_hit (cvalue (ws_cell ws r c))) (window_cols ws)"
  shows "find_data_start_row ws \<in> set (start_rows ws) \<and> find_data_start_row ws \<le> r \<and>
    (\<forall>r' \<in> set (start_rows ws). r' < find_data_start_row ws \<longrightarrow>
       \<not> list_ex (\<lambda>c. date_hit (cvalue (ws_cell ws r' c))) (window_cols ws))"
proof -
  define P where "P = (\<lambda>r. list_ex (\<lambda>c. date_hit (cvalue (ws_cell ws r c))) (window_cols ws))"
  define S where "S = {x \<in> set (start_rows ws). P x}"
  have s: "sorted (start_rows ws)" unfolding start_rows_def py_range_def by (rule sorted_upt)
  have rS: "r \<in> S" using assms unfolding S_def P_def by blast
  have fin: "finite S" unfolding S_def by simp
  have "find P (start_rows ws) = Some (Min S)"
    unfolding S_def by (rule sorted_find_Min [OF s]) (use rS S_def in blast)
  then have eq: "find_data_start_row ws = Min S" by (simp add: find_data_start_row_def P_def)
  have ne: "S \<noteq> {}" using rS by blast
  have m1: "find_data_start_row ws \<in> set (start_rows ws)"
    using Min_in [OF fin ne] unfolding eq S_def by blast
  have m2: "find_data_start_row ws \<le> r" unfolding eq using fin rS by (rule Min_le)
  have m3: "\<forall>r' \<in> set (start_rows ws). r' < find_data_start_row ws \<longrightarrow> \<not> P r'"
  proof (intro ballI impI notI)
    fix r' assume "r' \<in> set (start_rows ws)" "r' < find_data_start_row ws" "P r'"
    then have "r' \<in> S" "r' < Min S" unfolding S_def eq by blast+
    then show False using Min_le [OF fin] by (meson leD)
  qed
  show ?thesis using m1 m2 m3 unfolding P_def by blast
qed

lemma window_rows_lt: "r \<in> set (window_rows ws) \<Longrightarrow> 1 \<le> r \<and> r < 10"
  by (auto simp: window_rows_def py_range_def min_def split: if_splits)

lemma start_rows_lt: "r \<in> set (start_rows ws) \<Longrightarrow> 1 \<le> r \<and> r < 20"
  by (auto simp: start_rows_def py_range_def min_def split: if_splits)

lemma window_cols_lt: "c \<in> set (window_cols ws) \<Longrightarrow> 1 \<le> c \<and> c < 10"
  by (auto simp: window_cols_def py_range_def min_def split: if_splits)

subsection \<open>Properties of the sniffer\<close>

text \<open>
  C9: the column-major loop with its two "not yet set" flags finds, for each
  category, the first column of the window in which any of the first rows holds a
  matching value: the date column is the first column with a date-parseable cell and
  the commitment column the first with a long glyph-bearing string.
\<close>

theorem sniff_columns_first_match:
  "find_date_and_commitment_columns ws =
     (find (\<lambda>c. list_ex (\<lambda>r. date_hit (cvalue (ws_cell ws r c))) (window_rows ws)) (window_cols ws),
      find (\<lambda>c. list_ex (\<lambda>r. commitment_like (cvalue (ws_cell ws r c))) (window_rows ws)) (window_cols ws))"
  by (simp add: columns_first_col first_col_with_def)

text \<open>
  C18: the data start row never lies below a dated row of the date column: when the
  sniffer finds a date column, no row above the start row holds a date in that
  column, so the sheet walker skips no dated row of it.
\<close>

theorem start_row_skips_no_date:
  assumes "fst (find_date_and_commitment_columns ws) = Some c" and "1 \<le> r" and "r < find_data_start_row ws"
  shows "\<not> date_hit (cvalue (ws_cell ws r c))"
proof
  assume hit: "date_hit (cvalue (ws_cell ws r c))"
  have "first_col_with ws date_hit = Some c" using assms(1) by (simp add: columns_first_col)
  then obtain r0 where c: "c \<in> set (window_cols ws)" and r0: "r0 \<in> set (window_rows ws)"
    and h0: "date_hit (cvalue (ws_cell ws r0 c))"
    using first_col_withD by blast
  have "list_ex (\<lambda>c. date_hit (cvalue (ws_cell ws r0 c))) (window_cols ws)"
    using c h0 by (auto simp: list_ex_iff)
  moreover have "r0 \<in> set (start_rows ws)" using r0 window_rows_start_rows by blast
  ultimately have f: "find_data_start_row ws \<in> set (start_rows ws)" and
    m: "\<forall>r' \<in> set (start_rows ws). r' < find_data_start_row ws \<longrightarrow>
       \<not> list_ex (\<lambda>c. date_hit (cvalue (ws_cell ws r' c))) (window_cols ws)"
    using start_row_first by blast+
  have "r \<in> set (start_rows ws)" using f assms(2,3) by (simp add: start_rows_def py_range_def) linarith
  then have "\<not> list_ex (\<lambda>c. date_hit (cvalue (ws_cell ws r c))) (window_cols ws)"
    using m assms(3) by blast
  then show False using hit c by (simp add: list_ex_iff)
qed

theorem start_row_skips_no_date_witness:
  "fst (find_date_and_commitment_columns (sheet_of 4 3 [((3, 2), CStr (u ''2024-01-10''))])) = Some 2 \<and>
   1 \<le> (1::nat) \<and> 1 < find_data_start_row (sheet_of 4 3 [((3, 2), CStr (u ''2024-01-10''))]) \<and>
   \<not> date_hit (cvalue (ws_cell (sheet_of 4 3 [((3, 2), CStr (u ''2024-01-10''))]) 1 2))"
proof -
  have h: "fst (find_date_and_commitment_columns (sheet_of 4 3 [((3, 2), CStr (u ''2024-01-10''))])) = Some 2"
    "1 \<le> (1::nat)" "1 < find_data_start_row (sheet_of 4 3 [((3, 2), CStr (u ''2024-01-10''))])"
    by (simp_all add: sniff_simps)
  show ?thesis using h start_row_skips_no_date [OF h] by simp
qed

text \<open>
  C19: the data start row is the fallback 5 or a row of the scanned window, between 1
  and 19 and at most \<open>max_row\<close>.
\<close>

theorem start_row_bounds:
  "find_data_start_row ws = 5 \<or>
   (1 \<le> find_data_start_row ws \<and> find_data_start_row ws \<le> 19 \<and> find_data_start_row ws \<le> max_row ws)"
proof (cases "find (\<lambda>r. list_ex (\<lambda>c. date_hit (cvalue (ws_cell ws r c))) (window_cols ws)) (start_rows ws)")
  case None
  then show ?thesis by (simp add: find_data_start_row_def)
next
  case (Some r)
  then have "r \<in> set (start_rows ws)" by (auto simp: find_Some_iff)
  then have "1 \<le> r \<and> r \<le> 19 \<and> r \<le> max_row ws"
    by (auto simp: start_rows_def py_range_def min_def split: if_splits)
  then show ?thesis using Some by (simp add: find_data_start_row_def)
qed

text \<open>
  C34: the scan windows are one short of the "first 10 rows and columns" and "first
  20 rows" the comments and the specification give: for every sheet, dates only in
  row 10 or below leave it without a date column (so it is skipped), and dates only
  in row 20 or below are not seen by the start-row scan, which falls back to row 5.
\<close>

theorem scan_windows_exclusive:
  "(list_all (\<lambda>r. list_all (\<lambda>c. \<not> date_hit (cvalue (ws_cell ws r c))) [1..<10]) [1..<10] \<longrightarrow>
      fst (find_date_and_commitment_columns ws) = None) \<and>
   (list_all (\<lambda>r. list_all (\<lambda>c. \<not> date_hit (cvalue (ws_cell ws r c))) [1..<10]) [1..<20] \<longrightarrow>
      find_data_start_row ws = 5)"
proof (intro conjI impI)
  assume h: "list_all (\<lambda>r. list_all (\<lambda>c. \<not> date_hit (cvalue (ws_cell ws r c))) [1..<10]) [1..<10]"
  show "fst (find_date_and_commitment_columns ws) = None"
  proof (cases "first_col_with ws date_hit")
    case (Some c)
    then show ?thesis
      using first_col_withD [OF Some] h window_rows_lt window_cols_lt by (fastforce simp: list_all_iff)
  qed (simp add: columns_first_col)
next
  assume h: "list_all (\<lambda>r. list_all (\<lambda>c. \<not> date_hit (cvalue (ws_cell ws r c))) [1..<10]) [1..<20]"
  then have "find (\<lambda>r. list_ex (\<lambda>c. date_hit (cvalue (ws_cell ws r c))) (window_cols ws)) (start_rows ws) = None"
    by (fastforce simp: find_None_iff list_ex_iff list_all_iff dest: start_rows_lt window_cols_lt)
  then show "find_data_start_row ws = 5" by (simp add: find_data_start_row_def)
qed

theorem scan_windows_exclusive_witness:
  "list_all (\<lambda>r. list_all (\<lambda>c. \<not> date_hit (cvalue (ws_cell (sheet_of 30 3 [((10, 1), CStr (u ''2024-01-10''))]) r c)))
     [1..<10]) [1..<10] \<and>
   fst (find_date_and_commitment_columns (sheet_of 30 3 [((10, 1), CStr (u ''2024-01-10''))])) = None \<and>
   list_all (\<lambda>r. list_all (\<lambda>c. \<not> date_hit (cvalue (ws_cell (sheet_of 30 3 [((20, 1), CStr (u ''2024-01-10''))]) r c)))
     [1..<10]) [1..<20] \<and>
   find_data_start_row (sheet_of 30 3 [((20, 1), CStr (u ''2024-01-10''))]) = 5"
proof -
  have h1: "list_all (\<lambda>r. list_all (\<lambda>c. \<not> date_hit (cvalue (ws_cell (sheet_of 30 3 [((10, 1), CStr (u ''2024-01-10''))]) r c)))
     [1..<10]) [1..<10]"
    by (simp add: sniff_simps)
  have h2: "list_all (\<lambda>r. list_all (\<lambda>c. \<not> date_hit (cvalue (ws_cell (sheet_of 30 3 [((20, 1), CStr (u ''2024-01-10''))]) r c)))
     [1..<10]) [1..<20]"
    by (simp add: sniff_simps)
  show ?thesis
    using h1 h2 scan_windows_exclusive [of "sheet_of 30 3 [((10, 1), CStr (u ''2024-01-10''))]"]
      scan_windows_exclusive [of "sheet_of 30 3 [((20, 1), CStr (u ''2024-01-10''))]"]
    by blast
qed

end
