(* ===== verification/Color.thy ===== *)
theory Color
  imports Workbook
begin

text \<open>
  The cell-colour classifier, \<open>detect_attendance_from_color\<close> of
  \<open>src/excel_to_json_converter.py\<close> (lines 24-45). A solid fill's colour is read
  from \<open>start_color.rgb\<close>; a string colour is upper-cased, an object's \<open>.rgb\<close> is
  taken as it is, and the result is tested for containing (\<open>in\<close>, not equality) one
  of the green codes first and one of the red codes second.
\<close>

datatype attendance = Attended | NotAttended | AttUnknown

definition green_codes :: "pystr list" where
  "green_codes = map u [''92D050'', ''00FF00'', ''C6EFCE'', ''90EE90'']"

definition red_codes :: "pystr list" where
  "red_codes = map u [''FF0000'', ''FFC7CE'', ''FFB3BA'']"

text \<open>\<open>if color:\<close> and the conversion to \<open>hex_color\<close>; \<open>None\<close> when the colour is falsy.\<close>

fun hex_color_of :: "rgb_value \<Rightarrow> pystr option" where
  "hex_color_of RgbNone = None"
| "hex_color_of (RgbStr s) = (if s = [] then None else Some (py_upper s))"
| "hex_color_of (RgbObj s) = Some s"

definition classify_hex :: "pystr \<Rightarrow> attendance" where
  "classify_hex h =
     (if list_ex (\<lambda>g. py_in g h) green_codes then Attended
      else if list_ex (\<lambda>r. py_in r h) red_codes then NotAttended
      else AttUnknown)"

definition detect_attendance_from_color :: "cell \<Rightarrow> attendance" where
  "detect_attendance_from_color c =
     (case cell_fill c of
        None \<Rightarrow> AttUnknown
      | Some f \<Rightarrow>
          (if fill_type f = Some (u ''solid'') then
             (case hex_color_of (start_color_rgb f) of
                None \<Rightarrow> AttUnknown
              | Some h \<Rightarrow> classify_hex h)
           else AttUnknown))"

definition solid_cell :: "rgb_value \<Rightarrow> cell_value \<Rightarrow> cell" where
  "solid_cell rgb v = \<lparr>cvalue = v, cell_fill = Some \<lparr>fill_type = Some (u ''solid''), start_color_rgb = rgb\<rparr>\<rparr>"

lemmas color_simps = detect_attendance_from_color_def classify_hex_def green_codes_def
  red_codes_def solid_cell_def

lemma py_upper_append: "py_upper (a @ b) = py_upper a @ py_upper b"
  by (simp add: py_upper_def)

lemma py_upper_fixed: "(\<forall>c \<in> set s. \<not> (97 \<le> c \<and> c \<le> 122)) \<Longrightarrow> py_upper s = s"
  by (induction s) (auto simp: py_upper_def py_upper_c_def)

lemma codes_upper: "g \<in> set green_codes \<union> set red_codes \<Longrightarrow> py_upper g = g"
  by (auto simp: green_codes_def red_codes_def u_def py_upper_def py_upper_c_def)

lemma codes_ne: "g \<in> set green_codes \<union> set red_codes \<Longrightarrow> g \<noteq> []"
  by (auto simp: green_codes_def red_codes_def u_def)

lemma detect_solid: "detect_attendance_from_color (solid_cell rgb v) =
   (case hex_color_of rgb of None \<Rightarrow> AttUnknown | Some h \<Rightarrow> classify_hex h)"
  by (simp add: detect_attendance_from_color_def solid_cell_def)

lemma py_in_middle: "py_in g (a @ g @ b)"
  by (simp add: py_in_def)

subsection \<open>Properties of the classifier\<close>

text \<open>
  C12: a solidly filled cell whose colour string, upper-cased, contains a known green
  code anywhere is classified as attended, whatever the case of the string.
\<close>

theorem detect_green:
  assumes "g \<in> set green_codes" and "py_upper s = a @ g @ b"
  shows "detect_attendance_from_color (solid_cell (RgbStr s) v) = Attended"
proof -
  have "s \<noteq> []" using assms codes_ne [of g] by (auto simp: py_upper_def)
  moreover have "list_ex (\<lambda>g. py_in g (py_upper s)) green_codes"
    using assms py_in_middle by (auto simp: list_ex_iff)
  ultimately show ?thesis by (simp add: detect_solid classify_hex_def)
qed

theorem detect_green_witness:
  "u ''92D050'' \<in> set green_codes \<and> py_upper (u ''ff92d050'') = u ''FF'' @ u ''92D050'' @ [] \<and>
   detect_attendance_from_color (solid_cell (RgbStr (u ''ff92d050'')) CNone) = Attended"
proof -
  have h: "u ''92D050'' \<in> set green_codes" "py_upper (u ''ff92d050'') = u ''FF'' @ u ''92D050'' @ []"
    by (simp_all add: green_codes_def pystr_simps)
  show ?thesis using h detect_green [OF h] by simp
qed

text \<open>
  A solid fill whose colour contains a known red code and no green code is
  classified as not attended.
\<close>

theorem detect_red:
  assumes "r \<in> set red_codes" and "py_upper s = a @ r @ b"
    and "\<not> list_ex (\<lambda>g. py_in g (py_upper s)) green_codes"
  shows "detect_attendance_from_color (solid_cell (RgbStr s) v) = NotAttended"
proof -
  have "s \<noteq> []" using assms(1,2) codes_ne [of r] by (auto simp: py_upper_def)
  moreover have "list_ex (\<lambda>r. py_in r (py_upper s)) red_codes"
    using assms(1,2) py_in_middle [of r a b] by (auto simp: list_ex_iff)
  ultimately show ?thesis using assms(3) by (simp add: detect_solid classify_hex_def)
qed

theorem detect_red_witness:
  "u ''FFC7CE'' \<in> set red_codes \<and> py_upper (u ''ffffc7ce'') = u ''FF'' @ u ''FFC7CE'' @ [] \<and>
   \<not> list_ex (\<lambda>g. py_in g (py_upper (u ''ffffc7ce''))) green_codes \<and>
   detect_attendance_from_color (solid_cell (RgbStr (u ''ffffc7ce'')) CNone) = NotAttended"
proof -
  have h: "u ''FFC7CE'' \<in> set red_codes" "py_upper (u ''ffffc7ce'') = u ''FF'' @ u ''FFC7CE'' @ []"
    "\<not> list_ex (\<lambda>g. py_in g (py_upper (u ''ffffc7ce''))) green_codes"
    by (simp_all add: red_codes_def green_codes_def pystr_simps)
  show ?thesis using h detect_red [OF h] by simp
qed

text \<open>
  Every red code written as Excel stores it, with an opaque alpha byte \<open>FF\<close>
  in front, is classified as not attended.
\<close>

theorem red_argb_not_attended:
  "\<forall>r \<in> set red_codes.
     detect_attendance_from_color (solid_cell (RgbStr (u ''FF'' @ r)) v) = NotAttended"
  by (simp add: color_simps pystr_simps)

theorem red_argb_not_attended_witness:
  "u ''FFB3BA'' \<in> set red_codes \<and>
   detect_attendance_from_color (solid_cell (RgbStr (u ''FF'' @ u ''FFB3BA'')) CNone) = NotAttended"
proof -
  have h: "u ''FFB3BA'' \<in> set red_codes" by (simp add: red_codes_def)
  show ?thesis using h red_argb_not_attended by blast
qed

text \<open>
  Containment instead of equality lets the codes overlap: pure red with a zero
  alpha byte, \<open>00FF0000\<close> (the form openpyxl gives a six-digit \<open>FF0000\<close>),
  contains the green code \<open>00FF00\<close>, and green is tested first, so the cell is
  classified as attended.
\<close>

theorem zero_alpha_red_attended:
  "detect_attendance_from_color (solid_cell (RgbStr (u ''00FF0000'')) v) = Attended"
  by (simp add: color_simps pystr_simps)

text \<open>
  Only a solid fill yields a known status: a cell without a fill, or with any
  other fill type (openpyxl's empty cell included), is classified as unknown.
\<close>

theorem detect_known_needs_solid:
  "detect_attendance_from_color c \<noteq> AttUnknown \<Longrightarrow>
     \<exists>f. cell_fill c = Some f \<and> fill_type f = Some (u ''solid'')"
  by (auto simp: detect_attendance_from_color_def split: option.splits if_splits)

theorem detect_known_needs_solid_witness:
  "detect_attendance_from_color (solid_cell (RgbStr (u ''FF92D050'')) CNone) \<noteq> AttUnknown \<and>
   (\<exists>f. cell_fill (solid_cell (RgbStr (u ''FF92D050'')) CNone) = Some f \<and>
        fill_type f = Some (u ''solid''))"
proof -
  have h: "detect_attendance_from_color (solid_cell (RgbStr (u ''FF92D050'')) CNone) \<noteq> AttUnknown"
    by (simp add: color_simps pystr_simps)
  show ?thesis using h detect_known_needs_solid [OF h] by simp
qed

lemma empty_cell_unknown: "detect_attendance_from_color empty_cell = AttUnknown"
  by (simp add: detect_attendance_from_color_def empty_cell_def pystr_simps)

end
