(* ===== verification/Converter.thy ===== *)
theory Converter
  imports Sniffer Color
begin

text \<open>
  The sheet walker and the workbook loop of \<open>src/excel_to_json_converter.py\<close>,
  \<open>convert_excel_to_json\<close> (lines 176-227): for every sheet, in \<open>sheetnames\<close>
  order, the sniffer picks the date and commitment columns; a sheet without a date
  column is skipped with a warning; otherwise every row from the data start row to
  \<open>max_row\<close> whose date cell parses contributes one entry, keyed by the date, holding
  the attendance read from the date cell's colour and the commitments of the
  commitment cell; a sheet with no entries is reported and left out. The printed
  messages are kept as a log of \<open>convert_msg\<close> values. A later row with the same
  date overwrites the earlier entry (\<open>user_data[date_str] = ...\<close>).
\<close>

record day_entry =
  de_attendance :: attendance
  de_commitments :: "commitment list"

type_synonym user_data = "(pystr, day_entry) pydict"

type_synonym document = "(pystr, user_data) pydict"

datatype convert_msg =
    MsgProcessing nat
  | MsgSheet pystr
  | MsgNoDateColumn pystr
  | MsgProcessed pystr nat
  | MsgNoData pystr

text \<open>The commitments of a row: \<open>if commitment_col:\<close> guards the cell read.\<close>

definition row_commitments :: "worksheet \<Rightarrow> nat option \<Rightarrow> nat \<Rightarrow> commitment list" where
  "row_commitments ws commitment_col row =
     (case commitment_col of
        None \<Rightarrow> []
      | Some c \<Rightarrow> if c = 0 then [] else parse_commitments_column (ws_cell ws row c))"

text \<open>
  One iteration of the row loop (lines 201-219): \<open>None\<close> is the \<open>continue\<close> of a
  row whose date cell does not parse, otherwise the key and the entry assigned.
\<close>

definition row_entry :: "worksheet \<Rightarrow> nat \<Rightarrow> nat option \<Rightarrow> nat \<Rightarrow> (pystr \<times> day_entry) option" where
  "row_entry ws date_col commitment_col row =
     (let date_cell = ws_cell ws row date_col in
      case parse_date_cell (cvalue date_cell) of
        None \<Rightarrow> None
      | Some date_str \<Rightarrow>
          if date_str = [] then None
          else Some (date_str,
                 \<lparr>de_attendance = detect_attendance_from_color date_cell,
                  de_commitments = row_commitments ws commitment_col row\<rparr>))"

definition process_row :: "worksheet \<Rightarrow> nat \<Rightarrow> nat option \<Rightarrow> user_data \<Rightarrow> nat \<Rightarrow> user_data" where
  "process_row ws date_col commitment_col user_data row =
     (case row_entry ws date_col commitment_col row of
        None \<Rightarrow> user_data
      | Some (date_str, entry) \<Rightarrow> pd_set date_str entry user_data)"

definition data_rows :: "worksheet \<Rightarrow> nat list" where
  "data_rows ws = py_range (find_data_start_row ws) (max_row ws + 1)"

text \<open>The body of the sheet loop up to the \<open>if user_data\<close> test; \<open>None\<close> is the \<open>continue\<close>.\<close>

definition convert_sheet :: "worksheet \<Rightarrow> user_data option" where
  "convert_sheet ws =
     (let (date_col, commitment_col) = find_date_and_commitment_columns ws in
      case date_col of
        None \<Rightarrow> None
      | Some dc \<Rightarrow>
          if dc = 0 then None
          else Some (foldl (process_row ws dc commitment_col) [] (data_rows ws)))"

definition sheet_step :: "document \<times> convert_msg list \<Rightarrow> pystr \<times> worksheet \<Rightarrow> document \<times> convert_msg list" where
  "sheet_step st sh =
     (let (result, log) = st; (sheet_name, ws) = sh; log = log @ [MsgSheet sheet_name] in
      case convert_sheet ws of
        None \<Rightarrow> (result, log @ [MsgNoDateColumn sheet_name])
      | Some user_data \<Rightarrow>
          if user_data \<noteq> [] then
            (pd_set sheet_name user_data result, log @ [MsgProcessed sheet_name (length user_data)])
          else (result, log @ [MsgNoData sheet_name]))"

definition convert_excel_to_json :: "workbook \<Rightarrow> document \<times> convert_msg list" where
  "convert_excel_to_json wb = foldl sheet_step ([], [MsgProcessing (length wb)]) wb"

subsection \<open>The document contract\<close>

text \<open>
  The workbooks openpyxl produces: distinct sheet names and well-formed cells. The
  document the extractor writes and the loaders read: distinct person names, each with
  at least one entry, the date keys distinct and normalised (the date parser maps each
  key to itself), every commitment text non-empty and stripped.
\<close>

definition wf_workbook :: "workbook \<Rightarrow> bool" where
  "wf_workbook wb \<longleftrightarrow> distinct (map fst wb) \<and> list_all (\<lambda>(n, ws). wf_worksheet ws) wb"

definition wf_entry :: "pystr \<times> day_entry \<Rightarrow> bool" where
  "wf_entry ke \<longleftrightarrow> parse_date_cell (CStr (fst ke)) = Some (fst ke) \<and>
     list_all (\<lambda>c. ctext c \<noteq> [] \<and> stripped (ctext c)) (de_commitments (snd ke))"

definition wf_document :: "document \<Rightarrow> bool" where
  "wf_document doc \<longleftrightarrow> distinct (map fst doc) \<and>
     list_all (\<lambda>(name, ud). ud \<noteq> [] \<and> distinct (map fst ud) \<and> list_all wf_entry ud) doc"

text \<open>The sheets the loop keeps, as a filter over the workbook.\<close>

definition sheet_result :: "pystr \<times> worksheet \<Rightarrow> (pystr \<times> user_data) option" where
  "sheet_result sh =
     (case convert_sheet (snd sh) of
        None \<Rightarrow> None
      | Some ud \<Rightarrow> if ud \<noteq> [] then Some (fst sh, ud) else None)"

text \<open>A sheet given by its dimensions and its stored cells, for examples.\<close>

definition sheet_cells :: "nat \<Rightarrow> nat \<Rightarrow> ((nat \<times> nat) \<times> cell) list \<Rightarrow> worksheet" where
  "sheet_cells nr nc xs = \<lparr>max_row = nr, max_column = nc, cells = map_of xs\<rparr>"

lemmas convert_simps = convert_excel_to_json_def sheet_step_def convert_sheet_def data_rows_def
  process_row_def row_entry_def row_commitments_def sheet_cells_def sheet_result_def

subsection \<open>Lemmas\<close>

lemma set_map_filter: "y \<in> set (List.map_filter f xs) \<longleftrightarrow> (\<exists>x \<in> set xs. f x = Some y)"
  by (induction xs) (auto simp: map_filter_simps split: option.splits)

lemma process_row_fold:
  "process_row ws dc cc = (\<lambda>d x. case row_entry ws dc cc x of None \<Rightarrow> d | Some (k, v) \<Rightarrow> pd_set k v d)"
  by (simp add: process_row_def fun_eq_iff)

lemma convert_sheet_Some:
  "fst (find_date_and_commitment_columns ws) = Some dc \<Longrightarrow>
     convert_sheet ws = Some (foldl (process_row ws dc (snd (find_date_and_commitment_columns ws))) []
       (data_rows ws))"
proof -
  assume h: "fst (find_date_and_commitment_columns ws) = Some dc"
  then have "first_col_with ws date_hit = Some dc" by (simp add: columns_first_col)
  then have "dc \<noteq> 0" using first_col_withD by (fastforce simp: window_cols_def py_range_def)
  then show ?thesis using h by (cases "find_date_and_commitment_columns ws") (simp add: convert_sheet_def)
qed

lemma convert_sheet_None:
  "fst (find_date_and_commitment_columns ws) = None \<Longrightarrow> convert_sheet ws = None"
  by (cases "find_date_and_commitment_columns ws") (simp add: convert_sheet_def)

lemma row_commitments_wf:
  "list_all (\<lambda>c. ctext c \<noteq> [] \<and> stripped (ctext c)) (row_commitments ws cc r)"
  by (auto simp: row_commitments_def parse_commitments_column_def list_all_iff
      dest: commitments_of_lines_text split: option.splits)

lemma row_entry_wf:
  assumes "wf_worksheet ws" and "row_entry ws dc cc r = Some ke"
  shows "wf_entry ke"
proof -
  obtain s where p: "parse_date_cell (cvalue (ws_cell ws r dc)) = Some s" and ke:
    "ke = (s, \<lparr>de_attendance = detect_attendance_from_color (ws_cell ws r dc),
               de_commitments = row_commitments ws cc r\<rparr>)"
    using assms(2) by (auto simp: row_entry_def Let_def split: option.splits if_splits)
  obtain dt where "valid_datetime dt" "s = date_digits dt"
    using parse_date_valid [OF wf_ws_cell [OF assms(1)] p] by blast
  then have "parse_date_cell (CStr s) = Some s" using reparse_date_digits by blast
  then show ?thesis using row_commitments_wf by (simp add: wf_entry_def ke)
qed

lemma sheet_data_wf:
  assumes "wf_worksheet ws" and "convert_sheet ws = Some ud"
  shows "distinct (map fst ud) \<and> list_all wf_entry ud"
proof (cases "fst (find_date_and_commitment_columns ws)")
  case None
  then show ?thesis using assms(2) convert_sheet_None by simp
next
  case (Some dc)
  let ?cc = "snd (find_date_and_commitment_columns ws)"
  have ud: "ud = foldl (process_row ws dc ?cc) [] (data_rows ws)"
    using assms(2) convert_sheet_Some [OF Some] by simp
  have d: "distinct (map fst ud)" unfolding ud process_row_fold by (rule pd_fold_distinct) simp
  have "\<forall>ke \<in> set ud. wf_entry ke"
  proof
    fix ke assume "ke \<in> set ud"
    then have "map_of ud (fst ke) = Some (snd ke)" using d by simp
    then have "map_of (rev (List.map_filter (row_entry ws dc ?cc) (data_rows ws))) (fst ke) = Some (snd ke)"
      unfolding ud process_row_fold pd_fold_map_of by (simp add: map_add_Some_iff)
    then have "ke \<in> set (List.map_filter (row_entry ws dc ?cc) (data_rows ws))"
      by (auto dest: map_of_SomeD)
    then obtain x where "row_entry ws dc ?cc x = Some ke" by (auto simp: set_map_filter)
    then show "wf_entry ke" by (rule row_entry_wf [OF assms(1)])
  qed
  then show ?thesis using d by (simp add: list_all_iff)
qed

lemma pd_set_new: "k \<notin> set (map fst d) \<Longrightarrow> pd_set k v d = d @ [(k, v)]"
  by (induction d) auto

lemma keys_map_filter_sheet_result:
  "map fst (List.map_filter sheet_result wb) = map fst (filter (\<lambda>sh. sheet_result sh \<noteq> None) wb)"
  by (induction wb) (auto simp: map_filter_simps sheet_result_def split: option.splits)

lemma convert_fold:
  assumes "distinct (map fst wb)" and "set (map fst wb) \<inter> set (map fst r) = {}"
  shows "fst (foldl sheet_step (r, log) wb) = r @ List.map_filter sheet_result wb"
  using assms
proof (induction wb arbitrary: r log)
  case Nil
  then show ?case by (simp add: map_filter_simps)
next
  case (Cons sh wb)
  obtain n ws where sh: "sh = (n, ws)" by fastforce
  obtain r' log' where st: "sheet_step (r, log) sh = (r', log')" by fastforce
  have n: "n \<notin> set (map fst r)" using Cons.prems(2) sh by auto
  show ?case
  proof (cases "sheet_result sh")
    case None
    then have "r' = r"
      using st by (auto simp: sheet_step_def sheet_result_def sh split: option.splits if_splits)
    then show ?thesis using Cons.IH [of r' log'] Cons.prems None st by (simp add: map_filter_simps)
  next
    case (Some x)
    then obtain ud where ud: "convert_sheet ws = Some ud" "ud \<noteq> []" "x = (n, ud)"
      by (auto simp: sheet_result_def sh split: option.splits if_splits)
    then have r': "r' = r @ [(n, ud)]"
      using n st by (simp add: sheet_step_def sh pd_set_new)
    moreover have "set (map fst wb) \<inter> set (map fst (r @ [(n, ud)])) = {}"
      using Cons.prems sh by auto
    ultimately show ?thesis
      using Cons.IH [of r' log'] Cons.prems Some ud st by (simp add: map_filter_simps)
  qed
qed

subsection \<open>Properties of the sheet walker\<close>

text \<open>
  C6: the extractor's output meets the document contract the loaders rely on: for a
  workbook with distinct sheet names and well-formed cells, every person has at least
  one entry, person names and date keys are distinct, every date key is a normalised
  date, and every commitment text is non-empty and stripped.
\<close>

theorem convert_document_wf:
  assumes "wf_workbook wb"
  shows "wf_document (fst (convert_excel_to_json wb))"
proof -
  have d: "distinct (map fst wb)" and ws: "\<forall>sh \<in> set wb. wf_worksheet (snd sh)"
    using assms by (auto simp: wf_workbook_def list_all_iff)
  have names: "distinct (map fst (List.map_filter sheet_result wb))"
    using d by (simp add: keys_map_filter_sheet_result distinct_map_filter)
  have "\<forall>x \<in> set (List.map_filter sheet_result wb). snd x \<noteq> [] \<and> distinct (map fst (snd x)) \<and>
      list_all wf_entry (snd x)"
  proof
    fix x assume "x \<in> set (List.map_filter sheet_result wb)"
    then obtain sh where sh: "sh \<in> set wb" "sheet_result sh = Some x" by (auto simp: set_map_filter)
    then obtain ud where "convert_sheet (snd sh) = Some ud" "ud \<noteq> []" "x = (fst sh, ud)"
      by (auto simp: sheet_result_def split: option.splits if_splits)
    then show "snd x \<noteq> [] \<and> distinct (map fst (snd x)) \<and> list_all wf_entry (snd x)"
      using sheet_data_wf ws sh(1) by auto
  qed
  moreover have "fst (convert_excel_to_json wb) = List.map_filter sheet_result wb"
    using convert_fold [OF d, of "[]"] by (simp add: convert_excel_to_json_def)
  ultimately show ?thesis using names by (auto simp: wf_document_def list_all_iff)
qed

theorem convert_document_wf_witness:
  "wf_workbook [(u ''Jane Doe'', sheet_of 3 1 [((2, 1), CStr (u ''03/05/2024''))])] \<and>
   wf_document (fst (convert_excel_to_json [(u ''Jane Doe'', sheet_of 3 1 [((2, 1), CStr (u ''03/05/2024''))])]))"
proof -
  have h: "wf_workbook [(u ''Jane Doe'', sheet_of 3 1 [((2, 1), CStr (u ''03/05/2024''))])]"
    by (simp add: wf_workbook_def wf_worksheet_def sheet_of_def)
  show ?thesis using h convert_document_wf [OF h] by simp
qed

text \<open>
  C7: the workbook loop keeps exactly the sheets that have a date column and at
  least one dated row, in workbook order, each under its own name: the result is the
  filter of the sheets by \<open>sheet_result\<close>.
\<close>

theorem convert_keeps_sheets:
  assumes "distinct (map fst wb)"
  shows "fst (convert_excel_to_json wb) = List.map_filter sheet_result wb"
  using convert_fold [OF assms, of "[]"] by (simp add: convert_excel_to_json_def)

theorem convert_keeps_sheets_witness:
  "distinct (map fst [(u ''A'', sheet_of 3 1 []), (u ''B'', sheet_of 3 1 [((2, 1), CStr (u ''2024-01-10''))])]) \<and>
   fst (convert_excel_to_json [(u ''A'', sheet_of 3 1 []), (u ''B'', sheet_of 3 1 [((2, 1), CStr (u ''2024-01-10''))])]) =
   [(u ''B'', [(u ''2024-01-10'', \<lparr>de_attendance = AttUnknown, de_commitments = []\<rparr>)])]"
proof -
  have h: "distinct (map fst [(u ''A'', sheet_of 3 1 []), (u ''B'', sheet_of 3 1 [((2, 1), CStr (u ''2024-01-10''))])])"
    by (simp add: u_def)
  show ?thesis using h convert_keeps_sheets [OF h]
    by (simp add: convert_simps sniff_simps color_simps map_filter_simps)
qed

text \<open>
  C20: a sheet with a date column yields one entry per distinct date among its dated
  rows from the start row down, each date once, and each holding the entry built from
  the last row that carries that date (\<open>user_data[date_str] = ...\<close> overwrites).
\<close>

theorem convert_sheet_entries:
  assumes "fst (find_date_and_commitment_columns ws) = Some dc"
  shows "\<exists>ud. convert_sheet ws = Some ud \<and> distinct (map fst ud) \<and>
    map_of ud = map_of (rev (List.map_filter
      (row_entry ws dc (snd (find_date_and_commitment_columns ws))) (data_rows ws)))"
  using convert_sheet_Some [OF assms]
    pd_fold_distinct [of "[]" "row_entry ws dc (snd (find_date_and_commitment_columns ws))" "data_rows ws"]
    pd_fold_map_of [of "row_entry ws dc (snd (find_date_and_commitment_columns ws))" "[]" "data_rows ws"]
  by (simp add: process_row_fold)

theorem convert_sheet_entries_witness:
  "fst (find_date_and_commitment_columns (sheet_of 3 1 [((2, 1), CStr (u ''2024-01-10''))])) = Some 1 \<and>
   (\<exists>ud. convert_sheet (sheet_of 3 1 [((2, 1), CStr (u ''2024-01-10''))]) = Some ud \<and>
      distinct (map fst ud) \<and>
      map_of ud = map_of (rev (List.map_filter (row_entry (sheet_of 3 1 [((2, 1), CStr (u ''2024-01-10''))]) 1
        (snd (find_date_and_commitment_columns (sheet_of 3 1 [((2, 1), CStr (u ''2024-01-10''))]))))
        (data_rows (sheet_of 3 1 [((2, 1), CStr (u ''2024-01-10''))])))))"
proof -
  have h: "fst (find_date_and_commitment_columns (sheet_of 3 1 [((2, 1), CStr (u ''2024-01-10''))])) = Some 1"
    by (simp add: sniff_simps)
  show ?thesis using h convert_sheet_entries [OF h] by blast
qed

text \<open>
  Two rows naming the same day, even in different formats, give one entry, and
  the later row's colour wins: a green \<open>2024-01-10\<close> followed by a red
  \<open>01/10/2024\<close> is recorded as not attended.
\<close>

theorem duplicate_date_last_wins:
  "fst (convert_excel_to_json [(u ''Jane Doe'', sheet_cells 3 1
      [((2, 1), solid_cell (RgbStr (u ''FF92D050'')) (CStr (u ''2024-01-10''))),
       ((3, 1), solid_cell (RgbStr (u ''FFFF0000'')) (CStr (u ''01/10/2024'')))])]) =
   [(u ''Jane Doe'', [(u ''2024-01-10'', \<lparr>de_attendance = NotAttended, de_commitments = []\<rparr>)])]"
  by (simp add: convert_simps sniff_simps color_simps)

text \<open>
  C21: a sheet without a date column in the scan window is skipped with a warning and
  contributes nothing to the document; the run goes on.
\<close>

theorem sheet_without_dates_skipped:
  assumes "fst (find_date_and_commitment_columns ws) = None"
  shows "convert_excel_to_json ((n, ws) # wb) =
    (let (r, log) = foldl sheet_step ([], [MsgProcessing (Suc (length wb)), MsgSheet n, MsgNoDateColumn n]) wb
     in (r, log))"
  using convert_sheet_None [OF assms] by (simp add: convert_excel_to_json_def sheet_step_def)

theorem sheet_without_dates_skipped_witness:
  "fst (find_date_and_commitment_columns (sheet_of 30 3 [((10, 1), CStr (u ''2024-01-10''))])) = None \<and>
   convert_excel_to_json [(u ''Jane Doe'', sheet_of 30 3 [((10, 1), CStr (u ''2024-01-10''))])] =
   ([], [MsgProcessing 1, MsgSheet (u ''Jane Doe''), MsgNoDateColumn (u ''Jane Doe'')])"
proof -
  have h: "fst (find_date_and_commitment_columns (sheet_of 30 3 [((10, 1), CStr (u ''2024-01-10''))])) = None"
    by (simp add: sniff_simps)
  show ?thesis using h sheet_without_dates_skipped [OF h, of "u ''Jane Doe''" "[]"] by simp
qed

end
