(* ===== verification/Loader.thy ===== *)
theory Loader
  imports Store Converter "HOL-Library.List_Lexorder"
begin

text \<open>
  The full loader \<open>src/import_scoreboards_to_supabase.py\<close>: \<open>parse_name\<close>
  (lines 100-109), \<open>create_users\<close> (112-158), \<open>create_default_pod\<close> (161-192),
  \<open>create_pod_meetings\<close> (195-240), \<open>import_commitments\<close> (243-286),
  \<open>import_attendance\<close> (289-336) and the sequence of \<open>main\<close> (339-383) after the
  document is loaded. The document is the value the extractor returns
  (\<open>json.dump\<close> then \<open>json.load\<close> of string-keyed dicts, lists and strings keeps
  it, key order included). Every operation threads the client state \<open>'w net\<close>; an
  uncaught Python exception is an \<open>Inl\<close> value, which \<open>main\<close> catches and reports.
  Python compares strings by code points, which is the lexicographic order of
  \<open>List_Lexorder\<close> on code-point lists; \<open>sorted(set)\<close> is \<open>sort (remdups ...)\<close>.
  The lemmas hold for every server; \<open>accepting\<close> names the servers that accept
  every row and answer every query with an id, against which a run completes.
\<close>

subsection \<open>Names and user rows\<close>

definition parse_name :: "pystr \<Rightarrow> py_error + pystr \<times> pystr" where
  "parse_name full_name =
     (let parts = py_split_ws (py_strip full_name) in
      if length parts = 1 then Inr (parts ! 0, [])
      else if length parts = 2 then Inr (parts ! 0, parts ! 1)
      else (case parts of [] \<Rightarrow> Inl IndexError | p # ps \<Rightarrow> Inr (p, py_join [32] ps)))"

text \<open>\<open>f"{first_name.lower()}.{last_name.lower()}@scoreboards.import".replace(" ", "")\<close>.\<close>

definition user_email :: "pystr \<Rightarrow> pystr \<Rightarrow> pystr" where
  "user_email first_name last_name =
     filter (\<lambda>c. c \<noteq> 32) (py_lower first_name @ [46] @ py_lower last_name @ u ''@scoreboards.import'')"

definition user_row :: "pystr \<Rightarrow> pystr \<Rightarrow> jobj" where
  "user_row first_name last_name =
     [(u ''first_name'', JStr first_name), (u ''last_name'', JStr last_name),
      (u ''email'', JStr (user_email first_name last_name)), (u ''status'', JStr (u ''imported_scoreboards'')),
      (u ''is_active'', JBool True), (u ''created_at'', JNow), (u ''updated_at'', JNow)]"

type_synonym id_map = "(pystr, jval) pydict"

text \<open>One iteration of the loop of \<open>create_users\<close> (lines 119-155).\<close>

definition user_step :: "'w server \<Rightarrow> pystr \<Rightarrow> id_map \<Rightarrow> 'w net \<Rightarrow> (py_error + id_map) \<times> 'w net" where
  "user_step srv full_name m n =
     (case parse_name full_name of
        Inl e \<Rightarrow> (Inl e, n)
      | Inr (first_name, last_name) \<Rightarrow>
          (let email = user_email first_name last_name;
               (resp, n1) = send srv (Post TUsers (user_row first_name last_name)) n in
           if status resp = 201 then
             (let (uresp, n2) = send srv (Get TUsers [(u ''email'', email)] [u ''id'']) n1 in
              if status uresp = 200 \<and> body uresp \<noteq> [] then
                (case first_id uresp of
                   Inl e \<Rightarrow> (Inl e, n2)
                 | Inr user_id \<Rightarrow> (Inr (pd_set full_name user_id m), n2))
              else (Inr m, n2))
           else (Inr m, n1)))"

definition create_users :: "'w server \<Rightarrow> document \<Rightarrow> 'w net \<Rightarrow> (py_error + id_map) \<times> 'w net" where
  "create_users srv data n = try_fold (user_step srv) (map fst data) [] n"

subsection \<open>The pod\<close>

definition pod_name :: pystr where
  "pod_name = u ''Imported Scoreboards Pod''"

definition pod_row :: jobj where
  "pod_row = [(u ''name'', JStr pod_name), (u ''day_of_week'', JInt 1),
     (u ''time_utc'', JStr (u ''19:00:00'')), (u ''status'', JStr (u ''imported'')),
     (u ''created_at'', JNow)]"

text \<open>\<open>None\<close> is the function's \<open>return None\<close> after a failed POST or GET.\<close>

definition create_default_pod :: "'w server \<Rightarrow> 'w net \<Rightarrow> (py_error + jval option) \<times> 'w net" where
  "create_default_pod srv n =
     (let (resp, n1) = send srv (Post TPods pod_row) n in
      if status resp = 201 then
        (let (presp, n2) = send srv (Get TPods [(u ''name'', pod_name)] [u ''id'']) n1 in
         if status presp = 200 \<and> body presp \<noteq> [] then
           (case first_id presp of Inl e \<Rightarrow> (Inl e, n2) | Inr pod_id \<Rightarrow> (Inr (Some pod_id), n2))
         else (Inr None, n2))
      else (Inr None, n1))"

subsection \<open>Meetings\<close>

definition all_dates :: "document \<Rightarrow> pystr list" where
  "all_dates data = sort (remdups (concat (map (\<lambda>(name, ud). map fst ud) data)))"

definition meeting_row :: "jval \<Rightarrow> pystr \<Rightarrow> jobj" where
  "meeting_row pod_id date_str =
     [(u ''pod_id'', pod_id), (u ''meeting_date'', JStr date_str),
      (u ''status'', JStr (u ''completed'')), (u ''created_at'', JNow)]"

definition meeting_step :: "'w server \<Rightarrow> jval \<Rightarrow> pystr \<Rightarrow> id_map \<Rightarrow> 'w net \<Rightarrow> (py_error + id_map) \<times> 'w net" where
  "meeting_step srv pod_id date_str m n =
     (let (resp, n1) = send srv (Post TPodMeetings (meeting_row pod_id date_str)) n in
      if status resp = 201 then
        (let (mresp, n2) = send srv (Get TPodMeetings [(u ''meeting_date'', date_str),
                                        (u ''pod_id'', jstr pod_id)] [u ''id'']) n1 in
         if status mresp = 200 \<and> body mresp \<noteq> [] then
           (case first_id mresp of
              Inl e \<Rightarrow> (Inl e, n2)
            | Inr meeting_id \<Rightarrow> (Inr (pd_set date_str meeting_id m), n2))
         else (Inr m, n2))
      else (Inr m, n1))"

definition create_pod_meetings :: "'w server \<Rightarrow> document \<Rightarrow> jval \<Rightarrow> 'w net \<Rightarrow> (py_error + id_map) \<times> 'w net" where
  "create_pod_meetings srv data pod_id n = try_fold (meeting_step srv pod_id) (all_dates data) [] n"

subsection \<open>Commitments and attendance\<close>

fun fulfilled_str :: "fulfillment \<Rightarrow> pystr" where
  "fulfilled_str FTrue = u ''true''"
| "fulfilled_str FFalse = u ''false''"
| "fulfilled_str FUnknown = u ''unknown''"

definition commitment_status :: "pystr \<Rightarrow> pystr" where
  "commitment_status f =
     (if f = u ''true'' then u ''completed'' else if f = u ''false'' then u ''failed'' else u ''pending'')"

definition commitment_row :: "jval \<Rightarrow> pystr \<Rightarrow> commitment \<Rightarrow> jobj" where
  "commitment_row user_id date_str c =
     [(u ''user_id'', user_id), (u ''commitment'', JStr (ctext c)),
      (u ''original_commitment'', JStr (ctext c)),
      (u ''status'', JStr (commitment_status (fulfilled_str (cfulfilled c)))),
      (u ''smart_score'', JFloat (u ''1.0'')),
      (u ''completed_at'', if fulfilled_str (cfulfilled c) = u ''true''
                           then JStr (date_str @ u ''T23:59:59Z'') else JNull),
      (u ''created_at'', JStr (date_str @ u ''T00:00:00Z'')),
      (u ''updated_at'', JStr (date_str @ u ''T23:59:59Z''))]"

text \<open>The innermost loop body of \<open>import_commitments\<close>: one POST, counted on 201.\<close>

definition post_counted :: "'w server \<Rightarrow> jobj \<Rightarrow> nat \<times> 'w net \<Rightarrow> nat \<times> 'w net" where
  "post_counted srv row acc =
     (let (cnt, n) = acc; (resp, n') = send srv (Post TCommitments row) n in
      (if status resp = 201 then cnt + 1 else cnt, n'))"

definition import_commitments :: "'w server \<Rightarrow> document \<Rightarrow> id_map \<Rightarrow> 'w net \<Rightarrow> nat \<times> 'w net" where
  "import_commitments srv data user_mapping n =
     foldl (\<lambda>acc (full_name, ud).
              case map_of user_mapping full_name of
                None \<Rightarrow> acc
              | Some user_id \<Rightarrow>
                  foldl (\<lambda>acc (date_str, date_data).
                           foldl (\<lambda>acc c. post_counted srv (commitment_row user_id date_str c) acc)
                             acc (de_commitments date_data))
                    acc ud)
       (0, n) data"

fun attendance_str :: "attendance \<Rightarrow> pystr" where
  "attendance_str Attended = u ''attended''"
| "attendance_str NotAttended = u ''not_attended''"
| "attendance_str AttUnknown = u ''unknown''"

definition attended_value :: "pystr \<Rightarrow> jval" where
  "attended_value s =
     (if s = u ''attended'' then JBool True else if s = u ''not_attended'' then JBool False else JNull)"

definition attendance_row :: "jval \<Rightarrow> jval \<Rightarrow> pystr \<Rightarrow> attendance \<Rightarrow> jobj" where
  "attendance_row meeting_id user_id date_str a =
     (let attendance_status = attendance_str a; attended = attended_value attendance_status in
      [(u ''meeting_id'', meeting_id), (u ''user_id'', user_id), (u ''attended'', attended),
       (u ''duration_minutes'', JInt (if jtruthy attended then 60 else 0)),
       (u ''detection_method'', JStr (u ''scoreboards_import'')),
       (u ''confidence_score'', JFloat (if attendance_status \<noteq> u ''unknown'' then u ''1.0'' else u ''0.5'')),
       (u ''created_at'', JStr (date_str @ u ''T00:00:00Z''))])"

definition post_attendance :: "'w server \<Rightarrow> jobj \<Rightarrow> nat \<times> 'w net \<Rightarrow> nat \<times> 'w net" where
  "post_attendance srv row acc =
     (let (cnt, n) = acc; (resp, n') = send srv (Post TMeetingAttendance row) n in
      (if status resp = 201 then cnt + 1 else cnt, n'))"

definition import_attendance :: "'w server \<Rightarrow> document \<Rightarrow> id_map \<Rightarrow> id_map \<Rightarrow> 'w net \<Rightarrow> nat \<times> 'w net" where
  "import_attendance srv data user_mapping meeting_mapping n =
     foldl (\<lambda>acc (full_name, ud).
              case map_of user_mapping full_name of
                None \<Rightarrow> acc
              | Some user_id \<Rightarrow>
                  foldl (\<lambda>acc (date_str, date_data).
                           case map_of meeting_mapping date_str of
                             None \<Rightarrow> acc
                           | Some meeting_id \<Rightarrow>
                               post_attendance srv
                                 (attendance_row meeting_id user_id date_str (de_attendance date_data)) acc)
                    acc ud)
       (0, n) data"

subsection \<open>The import run\<close>

datatype run_outcome =
    RunFailed py_error
  | PodAborted
  | Completed id_map id_map nat nat

text \<open>
  \<open>main\<close> after loading the document: \<open>create_tables\<close> only prints SQL; an exception
  of any step ends the run (\<open>except Exception\<close>) with what was sent so far.
\<close>

definition import_run :: "'w server \<Rightarrow> document \<Rightarrow> 'w net \<Rightarrow> run_outcome \<times> 'w net" where
  "import_run srv data n0 =
     (case create_users srv data n0 of
        (Inl e, n1) \<Rightarrow> (RunFailed e, n1)
      | (Inr user_mapping, n1) \<Rightarrow>
          (case create_default_pod srv n1 of
             (Inl e, n2) \<Rightarrow> (RunFailed e, n2)
           | (Inr pod, n2) \<Rightarrow>
               (case pod of
                  None \<Rightarrow> (PodAborted, n2)
                | Some pod_id \<Rightarrow>
                    if \<not> jtruthy pod_id then (PodAborted, n2)
                    else
                      (case create_pod_meetings srv data pod_id n2 of
                         (Inl e, n3) \<Rightarrow> (RunFailed e, n3)
                       | (Inr meeting_mapping, n3) \<Rightarrow>
                           (let (nc, n4) = import_commitments srv data user_mapping n3;
                                (na, n5) = import_attendance srv data user_mapping meeting_mapping n4
                            in (Completed user_mapping meeting_mapping nc na, n5))))))"

text \<open>A one-person document, for examples.\<close>

definition jane_doc :: document where
  "jane_doc = [(u ''Jane Doe'', [(u ''2024-01-10'',
     \<lparr>de_attendance = Attended, de_commitments = [\<lparr>ctext = u ''Ship'', cfulfilled = FTrue\<rparr>]\<rparr>)])]"

definition start_net :: "unit net" where
  "start_net = \<lparr>world = (), trace = []\<rparr>"

subsection \<open>The rows the loops send, as reference pipelines\<close>

text \<open>
  What the specification asks of steps 5 and 6: for every person with a user id, for
  every date, one commitment row per commitment, and one attendance row per date that
  has a meeting, in document order.
\<close>

definition commitment_rows :: "document \<Rightarrow> id_map \<Rightarrow> jobj list" where
  "commitment_rows data user_mapping =
     concat (map (\<lambda>(full_name, ud). case map_of user_mapping full_name of
                     None \<Rightarrow> []
                   | Some user_id \<Rightarrow>
                       concat (map (\<lambda>(date_str, e). map (commitment_row user_id date_str) (de_commitments e)) ud))
       data)"

definition attendance_rows :: "document \<Rightarrow> id_map \<Rightarrow> id_map \<Rightarrow> jobj list" where
  "attendance_rows data user_mapping meeting_mapping =
     concat (map (\<lambda>(full_name, ud). case map_of user_mapping full_name of
                     None \<Rightarrow> []
                   | Some user_id \<Rightarrow>
                       List.map_filter (\<lambda>(date_str, e). case map_of meeting_mapping date_str of
                                           None \<Rightarrow> None
                                         | Some meeting_id \<Rightarrow>
                                             Some (attendance_row meeting_id user_id date_str (de_attendance e))) ud)
       data)"

fun req_table :: "request \<Rightarrow> table" where
  "req_table (Post t _) = t"
| "req_table (Get t _ _) = t"

text \<open>The client state \<open>n'\<close> extends \<open>n\<close> by requests to the tables \<open>T\<close> only.\<close>

definition sends_only :: "table set \<Rightarrow> 'w net \<Rightarrow> 'w net \<Rightarrow> bool" where
  "sends_only T n n' \<longleftrightarrow> (\<exists>xs. trace n' = trace n @ xs \<and> list_all (\<lambda>rq. req_table rq \<in> T) xs)"

text \<open>
  A server that accepts every row and answers every query with a row whose \<open>id\<close> is
  a truthy value: the datastore working as the loader expects.
\<close>

definition accepting :: "'w server \<Rightarrow> bool" where
  "accepting srv \<longleftrightarrow>
     (\<forall>t row w. status (fst (srv (Post t row) w)) = 201) \<and>
     (\<forall>t fs sel w. status (fst (srv (Get t fs sel) w)) = 200 \<and>
        (\<exists>r rs i. body (fst (srv (Get t fs sel) w)) = r # rs \<and> map_of r (u ''id'') = Some i \<and> jtruthy i))"

text \<open>A name written as non-empty words without whitespace, joined by single spaces.\<close>

definition single_spaced :: "pystr list \<Rightarrow> bool" where
  "single_spaced ws \<longleftrightarrow> ws \<noteq> [] \<and> list_all (\<lambda>w. w \<noteq> [] \<and> list_all (\<lambda>c. \<not> py_isspace c) w) ws"

subsection \<open>Lemmas on the loops\<close>

lemma sends_only_refl [intro]: "sends_only T n n"
  by (auto simp: sends_only_def intro: exI [of _ "[]"])

lemma sends_only_trans [trans]: "sends_only T n1 n2 \<Longrightarrow> sends_only T n2 n3 \<Longrightarrow> sends_only T n1 n3"
  by (auto simp: sends_only_def)

lemma sends_only_send: "req_table rq \<in> T \<Longrightarrow> send srv rq n = (r, n') \<Longrightarrow> sends_only T n n'"
  by (auto simp: sends_only_def send_def split: prod.splits)

lemma try_fold_sends:
  assumes "\<And>x m n. sends_only T n (snd (f x m n))"
  shows "sends_only T n (snd (try_fold f xs m n))"
proof (induction xs arbitrary: m n)
  case (Cons x xs)
  show ?case
  proof (cases "f x m n")
    case (Pair r n')
    then have a: "sends_only T n n'" using assms [where x = x and m = m and n = n] by simp
    show ?thesis
    proof (cases r)
      case (Inl e)
      then show ?thesis using Pair a by simp
    next
      case (Inr m')
      then show ?thesis using Pair a Cons.IH [where m = m' and n = n'] sends_only_trans by fastforce
    qed
  qed
qed auto

lemma user_step_sends: "sends_only {TUsers} n (snd (user_step srv full_name m n))"
  unfolding user_step_def Let_def
  by (auto simp: sends_only_def send_def split: sum.splits prod.splits)

lemma create_users_sends: "sends_only {TUsers} n (snd (create_users srv data n))"
  unfolding create_users_def by (rule try_fold_sends) (rule user_step_sends)

lemma meeting_step_sends: "sends_only {TPodMeetings} n (snd (meeting_step srv pod_id date_str m n))"
  unfolding meeting_step_def Let_def
  by (auto simp: sends_only_def send_def split: sum.splits prod.splits)

lemma create_pod_meetings_sends: "sends_only {TPodMeetings} n (snd (create_pod_meetings srv data pod_id n))"
  unfolding create_pod_meetings_def by (rule try_fold_sends) (rule meeting_step_sends)

lemma create_default_pod_sends: "sends_only {TPods} n (snd (create_default_pod srv n))"
  unfolding create_default_pod_def Let_def
  by (auto simp: sends_only_def send_def split: sum.splits prod.splits)

lemma sends_only_mono: "sends_only T n n' \<Longrightarrow> T \<subseteq> T' \<Longrightarrow> sends_only T' n n'"
  by (auto simp: sends_only_def list_all_iff)

text \<open>A loop whose body appends the requests \<open>map P (rows x)\<close> and counts at most one per request.\<close>

lemma fold_sends:
  assumes "\<And>acc x. trace (snd (g acc x)) = trace (snd acc) @ map P (rows x) \<and>
                   fst (g acc x) \<le> fst acc + length (rows x)"
  shows "trace (snd (foldl g acc xs)) = trace (snd acc) @ map P (concat (map rows xs)) \<and>
         fst (foldl g acc xs) \<le> fst acc + length (concat (map rows xs))"
proof (induction xs arbitrary: acc)
  case (Cons x xs)
  show ?case using Cons.IH [of "g acc x"] assms [of acc x] by auto
qed simp

lemma post_counted_sends:
  "trace (snd (post_counted srv row acc)) = trace (snd acc) @ map (Post TCommitments) [row] \<and>
   fst (post_counted srv row acc) \<le> fst acc + length [row]"
  by (auto simp: post_counted_def send_def split: prod.splits)

lemma post_attendance_sends:
  "trace (snd (post_attendance srv row acc)) = trace (snd acc) @ map (Post TMeetingAttendance) [row] \<and>
   fst (post_attendance srv row acc) \<le> fst acc + length [row]"
  by (auto simp: post_attendance_def send_def split: prod.splits)

lemma import_commitments_sends:
  "trace (snd (import_commitments srv data user_mapping n)) =
     trace n @ map (Post TCommitments) (commitment_rows data user_mapping) \<and>
   fst (import_commitments srv data user_mapping n) \<le> length (commitment_rows data user_mapping)"
proof -
  have l2: "trace (snd (foldl (\<lambda>acc c. post_counted srv (commitment_row user_id date_str c) acc) acc cs)) =
      trace (snd acc) @ map (Post TCommitments) (map (commitment_row user_id date_str) cs) \<and>
    fst (foldl (\<lambda>acc c. post_counted srv (commitment_row user_id date_str c) acc) acc cs)
      \<le> fst acc + length cs" for user_id date_str acc cs
    using fold_sends [where rows = "\<lambda>c. [commitment_row user_id date_str c]", OF post_counted_sends]
    by (simp add: concat_map_singleton)
  have l3: "trace (snd (foldl (\<lambda>acc (date_str, date_data).
        foldl (\<lambda>acc c. post_counted srv (commitment_row user_id date_str c) acc) acc (de_commitments date_data))
        acc ud)) = trace (snd acc) @ map (Post TCommitments)
          (concat (map (\<lambda>(date_str, e). map (commitment_row user_id date_str) (de_commitments e)) ud)) \<and>
      fst (foldl (\<lambda>acc (date_str, date_data).
        foldl (\<lambda>acc c. post_counted srv (commitment_row user_id date_str c) acc) acc (de_commitments date_data))
        acc ud) \<le> fst acc + length
          (concat (map (\<lambda>(date_str, e). map (commitment_row user_id date_str) (de_commitments e)) ud))"
    for user_id acc and ud :: user_data
    by (rule fold_sends) (simp add: l2 split: prod.splits)
  have "trace (snd (foldl (\<lambda>acc (full_name, ud).
              case map_of user_mapping full_name of
                None \<Rightarrow> acc
              | Some user_id \<Rightarrow>
                  foldl (\<lambda>acc (date_str, date_data).
                           foldl (\<lambda>acc c. post_counted srv (commitment_row user_id date_str c) acc)
                             acc (de_commitments date_data))
                    acc ud) (0, n) data)) =
     trace (snd (0::nat, n)) @ map (Post TCommitments) (commitment_rows data user_mapping) \<and>
   fst (foldl (\<lambda>acc (full_name, ud).
              case map_of user_mapping full_name of
                None \<Rightarrow> acc
              | Some user_id \<Rightarrow>
                  foldl (\<lambda>acc (date_str, date_data).
                           foldl (\<lambda>acc c. post_counted srv (commitment_row user_id date_str c) acc)
                             acc (de_commitments date_data))
                    acc ud) (0, n) data) \<le> fst (0::nat, n) + length (commitment_rows data user_mapping)"
    unfolding commitment_rows_def
    by (rule fold_sends) (simp add: l3 split: prod.splits option.splits)
  then show ?thesis by (simp add: import_commitments_def)
qed

lemma concat_map_option: "concat (map (\<lambda>x. case f x of None \<Rightarrow> [] | Some y \<Rightarrow> [y]) xs) = List.map_filter f xs"
  by (induction xs) (auto simp: map_filter_simps split: option.splits)

lemma import_attendance_sends:
  "trace (snd (import_attendance srv data user_mapping meeting_mapping n)) =
     trace n @ map (Post TMeetingAttendance) (attendance_rows data user_mapping meeting_mapping) \<and>
   fst (import_attendance srv data user_mapping meeting_mapping n) \<le>
     length (attendance_rows data user_mapping meeting_mapping)"
proof -
  let ?row = "\<lambda>user_id (date_str, e). case map_of meeting_mapping date_str of
                None \<Rightarrow> None
              | Some meeting_id \<Rightarrow> Some (attendance_row meeting_id user_id date_str (de_attendance e))"
  have l2: "trace (snd (foldl (\<lambda>acc (date_str, date_data).
        case map_of meeting_mapping date_str of
          None \<Rightarrow> acc
        | Some meeting_id \<Rightarrow>
            post_attendance srv (attendance_row meeting_id user_id date_str (de_attendance date_data)) acc)
        acc ud)) = trace (snd acc) @ map (Post TMeetingAttendance) (List.map_filter (?row user_id) ud) \<and>
      fst (foldl (\<lambda>acc (date_str, date_data).
        case map_of meeting_mapping date_str of
          None \<Rightarrow> acc
        | Some meeting_id \<Rightarrow>
            post_attendance srv (attendance_row meeting_id user_id date_str (de_attendance date_data)) acc)
        acc ud) \<le> fst acc + length (List.map_filter (?row user_id) ud)"
    for user_id acc and ud :: user_data
  proof -
    have "trace (snd (foldl (\<lambda>acc (date_str, date_data).
        case map_of meeting_mapping date_str of
          None \<Rightarrow> acc
        | Some meeting_id \<Rightarrow>
            post_attendance srv (attendance_row meeting_id user_id date_str (de_attendance date_data)) acc)
        acc ud)) = trace (snd acc) @ map (Post TMeetingAttendance)
          (concat (map (\<lambda>x. case ?row user_id x of None \<Rightarrow> [] | Some y \<Rightarrow> [y]) ud)) \<and>
      fst (foldl (\<lambda>acc (date_str, date_data).
        case map_of meeting_mapping date_str of
          None \<Rightarrow> acc
        | Some meeting_id \<Rightarrow>
            post_attendance srv (attendance_row meeting_id user_id date_str (de_attendance date_data)) acc)
        acc ud) \<le> fst acc + length (concat (map (\<lambda>x. case ?row user_id x of None \<Rightarrow> [] | Some y \<Rightarrow> [y]) ud))"
      by (rule fold_sends) (auto simp: post_attendance_def send_def split: prod.splits option.splits)
    then show ?thesis by (simp only: concat_map_option)
  qed
  have "trace (snd (foldl (\<lambda>acc (full_name, ud).
              case map_of user_mapping full_name of
                None \<Rightarrow> acc
              | Some user_id \<Rightarrow>
                  foldl (\<lambda>acc (date_str, date_data).
                           case map_of meeting_mapping date_str of
                             None \<Rightarrow> acc
                           | Some meeting_id \<Rightarrow>
                               post_attendance srv
                                 (attendance_row meeting_id user_id date_str (de_attendance date_data)) acc)
                    acc ud) (0, n) data)) =
     trace (snd (0::nat, n)) @ map (Post TMeetingAttendance) (attendance_rows data user_mapping meeting_mapping) \<and>
   fst (foldl (\<lambda>acc (full_name, ud).
              case map_of user_mapping full_name of
                None \<Rightarrow> acc
              | Some user_id \<Rightarrow>
                  foldl (\<lambda>acc (date_str, date_data).
                           case map_of meeting_mapping date_str of
                             None \<Rightarrow> acc
                           | Some meeting_id \<Rightarrow>
                               post_attendance srv
                                 (attendance_row meeting_id user_id date_str (de_attendance date_data)) acc)
                    acc ud) (0, n) data) \<le> fst (0::nat, n) + length (attendance_rows data user_mapping meeting_mapping)"
    unfolding attendance_rows_def
    by (rule fold_sends) (simp add: l2 split: prod.splits option.splits)
  then show ?thesis by (simp add: import_attendance_def)
qed

lemma import_run_cases:
  obtains (failed) e where "fst (import_run srv data n0) = RunFailed e"
    and "sends_only {TUsers, TPods, TPodMeetings} n0 (snd (import_run srv data n0))"
  | (aborted) "fst (import_run srv data n0) = PodAborted"
    and "sends_only {TUsers, TPods} n0 (snd (import_run srv data n0))"
  | (completed) um mm nc na n3 n4 where "fst (import_run srv data n0) = Completed um mm nc na"
    and "sends_only {TUsers, TPods, TPodMeetings} n0 n3"
    and "fst (create_users srv data n0) = Inr um"
    and "import_commitments srv data um n3 = (nc, n4)"
    and "import_attendance srv data um mm n4 = (na, snd (import_run srv data n0))"
proof -
  obtain r1 n1 where c1: "create_users srv data n0 = (r1, n1)" by fastforce
  have s1: "sends_only {TUsers, TPods, TPodMeetings} n0 n1" "sends_only {TUsers, TPods} n0 n1"
    using create_users_sends [of n0 srv data] c1 by (auto elim: sends_only_mono)
  show ?thesis
  proof (cases r1)
    case (Inl e)
    then show ?thesis using failed c1 s1 by (simp add: import_run_def)
  next
    case (Inr um)
    obtain r2 n2 where c2: "create_default_pod srv n1 = (r2, n2)" by fastforce
    have p2: "sends_only {TPods} n1 n2" using create_default_pod_sends [of n1 srv] c2 by simp
    have s2: "sends_only {TUsers, TPods, TPodMeetings} n0 n2" "sends_only {TUsers, TPods} n0 n2"
      by (rule sends_only_trans [OF s1(1) sends_only_mono [OF p2]], simp)
        (rule sends_only_trans [OF s1(2) sends_only_mono [OF p2]], simp)
    show ?thesis
    proof (cases r2)
      case (Inl e)
      then show ?thesis using failed c1 c2 Inr s2 by (simp add: import_run_def)
    next
      case (Inr pod)
      note r2 = Inr
      show ?thesis
      proof (cases "pod = None \<or> \<not> jtruthy (the pod)")
        case True
        then have "import_run srv data n0 = (PodAborted, n2)"
          using c1 c2 r2 \<open>r1 = Inr um\<close> by (cases pod) (auto simp: import_run_def)
        then show ?thesis using aborted s2 by simp
      next
        case False
        then obtain pod_id where p: "pod = Some pod_id" "jtruthy pod_id" by auto
        obtain r3 n3 where c3: "create_pod_meetings srv data pod_id n2 = (r3, n3)" by fastforce
        have p3: "sends_only {TPodMeetings} n2 n3"
          using create_pod_meetings_sends [of n2 srv data pod_id] c3 by simp
        have s3: "sends_only {TUsers, TPods, TPodMeetings} n0 n3"
          by (rule sends_only_trans [OF s2(1) sends_only_mono [OF p3]]) simp
        show ?thesis
        proof (cases r3)
          case (Inl e)
          then show ?thesis using failed c1 c2 c3 r2 p s3 \<open>r1 = Inr um\<close> by (simp add: import_run_def)
        next
          case (Inr mm)
          obtain nc n4 where c4: "import_commitments srv data um n3 = (nc, n4)" by fastforce
          obtain na n5 where c5: "import_attendance srv data um mm n4 = (na, n5)" by fastforce
          have "import_run srv data n0 = (Completed um mm nc na, n5)"
            using c1 c2 c3 c4 c5 r2 p Inr \<open>r1 = Inr um\<close> by (simp add: import_run_def)
          then show ?thesis using completed [of um mm nc na n3 n4] s3 c1 c4 c5 \<open>r1 = Inr um\<close> by simp
        qed
      qed
    qed
  qed
qed

lemma is_post_to_table: "is_post_to t rq \<Longrightarrow> req_table rq = t"
  by (cases rq) auto

lemma sends_only_filter:
  "sends_only T n n' \<Longrightarrow> t \<notin> T \<Longrightarrow> filter (is_post_to t) (trace n') = filter (is_post_to t) (trace n)"
proof -
  assume a: "sends_only T n n'" "t \<notin> T"
  then obtain xs where xs: "trace n' = trace n @ xs" "\<forall>rq \<in> set xs. req_table rq \<in> T"
    by (auto simp: sends_only_def list_all_iff)
  then have "filter (is_post_to t) xs = []" using a(2) is_post_to_table by (metis filter_False)
  then show ?thesis using xs(1) by simp
qed

lemma parse_jane: "parse_name (u ''Jane Doe'') = Inr (u ''Jane'', u ''Doe'')"
  by (simp add: parse_name_def pystr_simps)

lemma u_Cons_ne: "u (c # s) \<noteq> []"
  by (simp add: u_def)

lemma split_when_ne: "split_when p s \<noteq> []"
  by (induction s) (auto split: list.splits)

lemma concat_split_when: "concat (split_when p s) = filter (\<lambda>c. \<not> p c) s"
proof (induction s)
  case (Cons c s)
  then show ?case using split_when_ne [of p s] by (auto split: list.splits)
qed simp

lemma py_split_ws_Nil_iff: "py_split_ws x = [] \<longleftrightarrow> list_all py_isspace x"
proof -
  have "py_split_ws x = [] \<longleftrightarrow> concat (split_when py_isspace x) = []"
    by (simp add: py_split_ws_def filter_empty_conv)
  also have "\<dots> \<longleftrightarrow> list_all py_isspace x"
    by (simp add: concat_split_when filter_empty_conv list_all_iff)
  finally show ?thesis .
qed

lemma py_strip_all_space: "list_all py_isspace (py_strip s) \<longleftrightarrow> py_strip s = []"
  using stripped_py_strip [of s] by (cases "py_strip s") (auto simp: stripped_def)

lemma meeting_step_posts:
  "meeting_step srv pod_id d m n = (Inr m', n') \<Longrightarrow>
     filter (is_post_to TPodMeetings) (drop (length (trace n)) (trace n')) =
       [Post TPodMeetings (meeting_row pod_id d)]"
  unfolding meeting_step_def Let_def
  by (auto simp: send_def split: prod.splits if_splits sum.splits)

lemma meetings_loop_posts:
  "try_fold (meeting_step srv pod_id) ds m n = (Inr m', n') \<Longrightarrow>
     filter (is_post_to TPodMeetings) (drop (length (trace n)) (trace n')) =
       map (\<lambda>d. Post TPodMeetings (meeting_row pod_id d)) ds"
proof (induction ds arbitrary: m n)
  case Nil
  then show ?case by simp
next
  case (Cons d ds)
  obtain r n1 where p: "meeting_step srv pod_id d m n = (r, n1)" by fastforce
  then obtain m1 where r: "r = Inr m1" and rest: "try_fold (meeting_step srv pod_id) ds m1 n1 = (Inr m', n')"
    using Cons.prems by (cases r) auto
  obtain ys where ys: "trace n1 = trace n @ ys"
    using meeting_step_sends [where n = n and srv = srv and pod_id = pod_id and date_str = d and m = m] p
    by (auto simp: sends_only_def)
  obtain zs where zs: "trace n' = trace n1 @ zs"
    using try_fold_sends [where f = "meeting_step srv pod_id" and n = n1 and xs = ds and m = m1,
        OF meeting_step_sends] rest by (auto simp: sends_only_def)
  have "filter (is_post_to TPodMeetings) ys = [Post TPodMeetings (meeting_row pod_id d)]"
    using meeting_step_posts [where srv = srv and pod_id = pod_id and d = d and m = m and n = n
        and m' = m1 and n' = n1] p r ys by simp
  moreover have "filter (is_post_to TPodMeetings) zs = map (\<lambda>d. Post TPodMeetings (meeting_row pod_id d)) ds"
    using Cons.IH [OF rest] zs by simp
  ultimately show ?case using ys zs by simp
qed

lemma parse_blank: "parse_name (u '' '') = Inl IndexError"
  by (simp add: parse_name_def pystr_simps)

lemma accepting_get:
  assumes "accepting srv"
  obtains r rs i w' where "srv (Get t fs sel) w = (\<lparr>status = 200, body = r # rs\<rparr>, w')"
    "map_of r (u ''id'') = Some i" "jtruthy i"
proof -
  obtain resp w' where p: "srv (Get t fs sel) w = (resp, w')" by fastforce
  from assms obtain r rs i where "status resp = 200" "body resp = r # rs" "map_of r (u ''id'') = Some i" "jtruthy i"
    unfolding accepting_def using p by (metis fst_conv)
  then show thesis using that [of r rs w' i] p by (cases resp) simp
qed

lemma accepting_post:
  assumes "accepting srv"
  obtains resp w' where "srv (Post t row) w = (resp, w')" "status resp = 201"
  using assms unfolding accepting_def by (metis fst_conv surj_pair)

lemma parse_name_Inr: "\<not> list_all py_isspace s \<Longrightarrow> \<exists>f l. parse_name s = Inr (f, l)"
proof -
  assume a: "\<not> list_all py_isspace s"
  have "py_split_ws (py_strip s) \<noteq> []"
    unfolding py_split_ws_Nil_iff py_strip_all_space py_strip_Nil_iff using a by (simp add: list_all_iff)
  then show ?thesis by (auto simp: parse_name_def Let_def split: list.splits)
qed

lemma user_step_accepting:
  assumes "accepting srv" "\<not> list_all py_isspace name"
  shows "\<exists>v n'. user_step srv name m n = (Inr (pd_set name v m), n')"
proof -
  obtain f l where p: "parse_name name = Inr (f, l)" using parse_name_Inr [OF assms(2)] by blast
  obtain resp w1 where po: "srv (Post TUsers (user_row f l)) (world n) = (resp, w1)" "status resp = 201"
    using accepting_post [OF assms(1)] by blast
  obtain r rs i w2 where g: "srv (Get TUsers [(u ''email'', user_email f l)] [u ''id'']) w1 =
      (\<lparr>status = 200, body = r # rs\<rparr>, w2)" "map_of r (u ''id'') = Some i"
    using accepting_get [OF assms(1)] by metis
  show ?thesis using p po g by (auto simp: user_step_def send_def first_id_def)
qed

lemma meeting_step_accepting:
  assumes "accepting srv"
  shows "\<exists>v n'. meeting_step srv pod_id d m n = (Inr (pd_set d v m), n')"
proof -
  obtain resp w1 where po: "srv (Post TPodMeetings (meeting_row pod_id d)) (world n) = (resp, w1)" "status resp = 201"
    using accepting_post [OF assms] by blast
  obtain r rs i w2 where g: "srv (Get TPodMeetings [(u ''meeting_date'', d), (u ''pod_id'', jstr pod_id)] [u ''id'']) w1 =
      (\<lparr>status = 200, body = r # rs\<rparr>, w2)" "map_of r (u ''id'') = Some i"
    using accepting_get [OF assms] by metis
  show ?thesis using po g by (auto simp: meeting_step_def send_def first_id_def)
qed

lemma create_default_pod_accepting:
  assumes "accepting srv"
  shows "\<exists>pod_id n'. create_default_pod srv n = (Inr (Some pod_id), n') \<and> jtruthy pod_id"
proof -
  obtain resp w1 where po: "srv (Post TPods pod_row) (world n) = (resp, w1)" "status resp = 201"
    using accepting_post [OF assms] by blast
  obtain r rs i w2 where g: "srv (Get TPods [(u ''name'', pod_name)] [u ''id'']) w1 =
      (\<lparr>status = 200, body = r # rs\<rparr>, w2)" "map_of r (u ''id'') = Some i" "jtruthy i"
    using accepting_get [OF assms] by metis
  show ?thesis using po g by (auto simp: create_default_pod_def send_def first_id_def)
qed

lemma import_run_meetings:
  assumes "fst (import_run srv data n0) = Completed um mm nc na"
  shows "\<exists>pod_id n2. fst (create_pod_meetings srv data pod_id n2) = Inr mm"
  using assms
  by (auto simp: import_run_def split: prod.splits sum.splits option.splits if_splits) (metis fst_conv)

text \<open>Names written with single spaces split back into their words.\<close>

lemma split_when_nop: "list_all (\<lambda>c. \<not> p c) w \<Longrightarrow> split_when p w = [w]"
  by (induction w) auto

lemma split_when_append:
  "list_all (\<lambda>c. \<not> p c) w \<Longrightarrow> p c \<Longrightarrow> split_when p (w @ c # r) = w # split_when p r"
  by (induction w) (auto simp: split_when_ne split: list.splits)

lemma split_when_join:
  assumes "list_all (\<lambda>w. list_all (\<lambda>c. \<not> p c) w) ws" "ws \<noteq> []" "p 32"
  shows "split_when p (py_join [32] ws) = ws"
  using assms
proof (induction "[32::nat]" ws rule: py_join.induct)
  case (3 w v vs)
  then show ?case by (simp add: split_when_append)
qed (simp_all add: split_when_nop)

lemma join_hd_last:
  assumes "single_spaced ws"
  shows "py_join [32] ws \<noteq> [] \<and> hd (py_join [32] ws) = hd (hd ws) \<and> last (py_join [32] ws) = last (last ws)"
  using assms unfolding single_spaced_def
proof (induction "[32::nat]" ws rule: py_join.induct)
  case (3 w v vs)
  then show ?case by auto
qed simp_all

lemma split_ws_join: "single_spaced ws \<Longrightarrow> py_split_ws (py_strip (py_join [32] ws)) = ws"
proof -
  assume a: "single_spaced ws"
  then have ws: "ws \<noteq> []" "list_all (\<lambda>w. w \<noteq> [] \<and> list_all (\<lambda>c. \<not> py_isspace c) w) ws"
    by (simp_all add: single_spaced_def)
  have "hd ws \<in> set ws" "last ws \<in> set ws" using ws(1) by simp_all
  then have "hd ws \<noteq> []" "last ws \<noteq> []" "\<not> py_isspace (hd (hd ws))" "\<not> py_isspace (last (last ws))"
    using ws(2) by (auto simp: list_all_iff)
  then have "stripped (py_join [32] ws)" using join_hd_last [OF a] by (simp add: stripped_def)
  then have "py_strip (py_join [32] ws) = py_join [32] ws" by (rule py_strip_stripped)
  moreover have "split_when py_isspace (py_join [32] ws) = ws"
    using ws by (intro split_when_join) (auto simp: list_all_iff py_isspace_def)
  ultimately show ?thesis using ws(2) by (simp add: py_split_ws_def list_all_iff filter_id_conv)
qed

lemma py_lower_space: "py_lower (a @ [32] @ b) = py_lower a @ [32] @ py_lower b"
  by (simp add: py_lower_def py_lower_c_def)

text \<open>The run with an accepting datastore, step by step.\<close>

lemma import_run_accepting:
  assumes "accepting srv" "distinct (map fst data)" "list_all (\<lambda>(name, ud). \<not> list_all py_isspace name) data"
  shows "\<exists>um mm nc na. fst (import_run srv data n0) = Completed um mm nc na \<and>
           map fst um = map fst data \<and> map fst mm = all_dates data"
proof -
  obtain um n1 where c1: "create_users srv data n0 = (Inr um, n1)" "map fst um = map fst data"
  proof -
    have "\<exists>m' n'. try_fold (user_step srv) (map fst data) [] n0 = (Inr m', n') \<and>
        map fst m' = map fst ([] :: id_map) @ map fst data"
    proof (rule try_fold_keys)
      fix x m n
      assume "x \<in> set (map fst data)"
      then show "\<exists>v n'. user_step srv x m n = (Inr (pd_set x v m), n')"
        using assms(3) by (intro user_step_accepting [OF assms(1)]) (auto simp: list_all_iff)
    qed (use assms(2) in simp_all)
    then show thesis using that by (auto simp: create_users_def)
  qed
  obtain pod_id n2 where c2: "create_default_pod srv n1 = (Inr (Some pod_id), n2)" "jtruthy pod_id"
    using create_default_pod_accepting [OF assms(1)] by blast
  obtain mm n3 where c3: "create_pod_meetings srv data pod_id n2 = (Inr mm, n3)" "map fst mm = all_dates data"
  proof -
    have "\<exists>m' n'. try_fold (meeting_step srv pod_id) (all_dates data) [] n2 = (Inr m', n') \<and>
        map fst m' = map fst ([] :: id_map) @ all_dates data"
      by (rule try_fold_keys) (simp_all add: meeting_step_accepting [OF assms(1)] all_dates_def)
    then show thesis using that by (auto simp: create_pod_meetings_def)
  qed
  show ?thesis using c1 c2 c3 by (auto simp: import_run_def split: prod.splits)
qed

lemmas loader_simps = import_run_def create_users_def user_step_def create_default_pod_def
  create_pod_meetings_def meeting_step_def import_commitments_def import_attendance_def all_dates_def
  post_counted_def post_attendance_def Let_def jane_doc_def start_net_def parse_jane u_Cons_ne

lemma jane_accept_run:
  "fst (import_run accept_server jane_doc start_net) =
     Completed [(u ''Jane Doe'', JStr (u ''1''))] [(u ''2024-01-10'', JStr (u ''1''))] 1 1"
  by (simp add: loader_simps store_simps)

subsection \<open>Properties of the loader\<close>

text \<open>
  C4: against a datastore that accepts every row and answers every query with a
  row carrying a truthy id, a document whose names are distinct and not blank is
  imported to the end: the run completes, with one user id per name in document
  order and one meeting id per distinct date in sorted order.
\<close>

theorem run_completes:
  assumes "accepting srv" "distinct (map fst data)" "list_all (\<lambda>(name, ud). \<not> list_all py_isspace name) data"
  shows "\<exists>um mm nc na. fst (import_run srv data n0) = Completed um mm nc na \<and>
           map fst um = map fst data \<and> map fst mm = all_dates data"
  using import_run_accepting [OF assms] .

theorem run_completes_witness:
  "accepting accept_server \<and> distinct (map fst jane_doc) \<and>
   list_all (\<lambda>(name, ud). \<not> list_all py_isspace name) jane_doc \<and>
   (\<exists>um mm nc na. fst (import_run accept_server jane_doc start_net) = Completed um mm nc na \<and>
      map fst um = map fst jane_doc \<and> map fst mm = all_dates jane_doc)"
proof -
  have a: "accepting accept_server" by (auto simp: accepting_def accept_server_def u_def split: request.splits)
  have d: "distinct (map fst jane_doc)" "list_all (\<lambda>(name, ud). \<not> list_all py_isspace name) jane_doc"
    by (simp_all add: jane_doc_def u_def py_isspace_def)
  show ?thesis using a d run_completes [OF a d] by blast
qed

text \<open>
  C1: in a run that completes, the commitment rows sent are exactly one per
  commitment of every person with a user id, for every date, in document order (the
  pipeline \<open>commitment_rows\<close>); no other step sends one; and the printed count of
  imported commitments is at most the number of rows sent.
\<close>

theorem run_commitment_posts:
  assumes "fst (import_run srv data n0) = Completed um mm nc na"
  shows "filter (is_post_to TCommitments) (trace (snd (import_run srv data n0))) =
           filter (is_post_to TCommitments) (trace n0) @ map (Post TCommitments) (commitment_rows data um) \<and>
         nc \<le> length (commitment_rows data um)"
proof (cases rule: import_run_cases [of srv data n0])
  case (completed um' mm' nc' na' n3 n4)
  then have eq: "um' = um" "mm' = mm" "nc' = nc" "na' = na" using assms by simp_all
  have "filter (is_post_to TCommitments) (trace n3) = filter (is_post_to TCommitments) (trace n0)"
    using sends_only_filter [OF completed(2)] by simp
  moreover have "filter (is_post_to TCommitments) (trace (snd (import_run srv data n0))) =
      filter (is_post_to TCommitments) (trace n4)"
    using import_attendance_sends [of srv data um mm n4] completed(5) eq by simp
  ultimately show ?thesis
    using import_commitments_sends [of srv data um n3] completed(4) eq by simp
qed (use assms in simp_all)

theorem run_commitment_posts_witness:
  "fst (import_run accept_server jane_doc start_net) =
     Completed [(u ''Jane Doe'', JStr (u ''1''))] [(u ''2024-01-10'', JStr (u ''1''))] 1 1 \<and>
   filter (is_post_to TCommitments) (trace (snd (import_run accept_server jane_doc start_net))) =
     [Post TCommitments (commitment_row (JStr (u ''1'')) (u ''2024-01-10'') \<lparr>ctext = u ''Ship'', cfulfilled = FTrue\<rparr>)]"
  using jane_accept_run run_commitment_posts [OF jane_accept_run]
  by (simp add: commitment_rows_def jane_doc_def start_net_def)

text \<open>
  C2: in a run that completes, the attendance rows sent are exactly one per date of
  every person with a user id whose date has a meeting, in document order, and
  nothing else sends one.
\<close>

theorem run_attendance_posts:
  assumes "fst (import_run srv data n0) = Completed um mm nc na"
  shows "filter (is_post_to TMeetingAttendance) (trace (snd (import_run srv data n0))) =
           filter (is_post_to TMeetingAttendance) (trace n0) @
           map (Post TMeetingAttendance) (attendance_rows data um mm) \<and>
         na \<le> length (attendance_rows data um mm)"
proof (cases rule: import_run_cases [of srv data n0])
  case (completed um' mm' nc' na' n3 n4)
  then have eq: "um' = um" "mm' = mm" "nc' = nc" "na' = na" using assms by simp_all
  have "filter (is_post_to TMeetingAttendance) (trace n3) = filter (is_post_to TMeetingAttendance) (trace n0)"
    using sends_only_filter [OF completed(2)] by simp
  moreover have "filter (is_post_to TMeetingAttendance) (trace n4) =
      filter (is_post_to TMeetingAttendance) (trace n3)"
    using import_commitments_sends [of srv data um n3] completed(4) eq by simp
  ultimately show ?thesis
    using import_attendance_sends [of srv data um mm n4] completed(5) eq by simp
qed (use assms in simp_all)

theorem run_attendance_posts_witness:
  "fst (import_run accept_server jane_doc start_net) =
     Completed [(u ''Jane Doe'', JStr (u ''1''))] [(u ''2024-01-10'', JStr (u ''1''))] 1 1 \<and>
   filter (is_post_to TMeetingAttendance) (trace (snd (import_run accept_server jane_doc start_net))) =
     [Post TMeetingAttendance (attendance_row (JStr (u ''1'')) (JStr (u ''1'')) (u ''2024-01-10'') Attended)]"
  using jane_accept_run run_attendance_posts [OF jane_accept_run]
  by (simp add: attendance_rows_def jane_doc_def start_net_def map_filter_simps)

text \<open>
  C22: when the users step has finished and the pod step returns no pod id (its
  POST or the GET of its id failed) or a falsy one, \<open>main\<close> prints "Aborting" and
  returns: the run ends as \<open>PodAborted\<close> with the client state the pod step left,
  having sent requests to the users and pods tables only.
\<close>

theorem pod_failure_aborts:
  assumes "create_users srv data n0 = (Inr um, n1)" and "create_default_pod srv n1 = (Inr pod, n2)"
    and "pod = None \<or> (\<exists>p. pod = Some p \<and> \<not> jtruthy p)"
  shows "import_run srv data n0 = (PodAborted, n2) \<and> sends_only {TUsers, TPods} n0 n2"
proof
  show "import_run srv data n0 = (PodAborted, n2)"
    using assms by (auto simp: import_run_def)
  have "sends_only {TUsers} n0 n1" using create_users_sends [of n0 srv data] assms(1) by simp
  moreover have "sends_only {TPods} n1 n2" using create_default_pod_sends [of n1 srv] assms(2) by simp
  ultimately show "sends_only {TUsers, TPods} n0 n2"
    by (blast intro: sends_only_trans sends_only_mono)
qed

theorem pod_failure_aborts_witness:
  "create_users (\<lambda>rq w. (\<lparr>status = 201, body = []\<rparr>, w)) jane_doc start_net = (Inr [], snd (create_users (\<lambda>rq w. (\<lparr>status = 201, body = []\<rparr>, w)) jane_doc start_net)) \<and>
   create_default_pod (\<lambda>rq w. (\<lparr>status = 201, body = []\<rparr>, w)) (snd (create_users (\<lambda>rq w. (\<lparr>status = 201, body = []\<rparr>, w)) jane_doc start_net)) =
     (Inr None, snd (create_default_pod (\<lambda>rq w. (\<lparr>status = 201, body = []\<rparr>, w)) (snd (create_users (\<lambda>rq w. (\<lparr>status = 201, body = []\<rparr>, w)) jane_doc start_net)))) \<and>
   import_run (\<lambda>rq w. (\<lparr>status = 201, body = []\<rparr>, w)) jane_doc start_net =
     (PodAborted, snd (create_default_pod (\<lambda>rq w. (\<lparr>status = 201, body = []\<rparr>, w)) (snd (create_users (\<lambda>rq w. (\<lparr>status = 201, body = []\<rparr>, w)) jane_doc start_net))))"
proof -
  have h1: "create_users (\<lambda>rq w. (\<lparr>status = 201, body = []\<rparr>, w)) jane_doc start_net = (Inr [], snd (create_users (\<lambda>rq w. (\<lparr>status = 201, body = []\<rparr>, w)) jane_doc start_net))"
    by (simp add: loader_simps send_def)
  have h2: "create_default_pod (\<lambda>rq w. (\<lparr>status = 201, body = []\<rparr>, w)) (snd (create_users (\<lambda>rq w. (\<lparr>status = 201, body = []\<rparr>, w)) jane_doc start_net)) =
     (Inr None, snd (create_default_pod (\<lambda>rq w. (\<lparr>status = 201, body = []\<rparr>, w)) (snd (create_users (\<lambda>rq w. (\<lparr>status = 201, body = []\<rparr>, w)) jane_doc start_net))))"
    by (simp add: create_default_pod_def send_def Let_def)
  show ?thesis using h1 h2 pod_failure_aborts [OF h1 h2] by simp
qed

text \<open>
  C23: an exception in the users, pod or meetings step (an empty name, a response
  row without \<open>id\<close>) ends the run before any commitment or attendance row is sent.
\<close>

theorem run_failure_before_rows:
  assumes "fst (import_run srv data n0) = RunFailed e"
  shows "sends_only {TUsers, TPods, TPodMeetings} n0 (snd (import_run srv data n0))"
  by (cases rule: import_run_cases [of srv data n0]) (use assms in simp_all)

theorem run_failure_before_rows_witness:
  "fst (import_run accept_server [(u '' '', [])] start_net) = RunFailed IndexError \<and>
   sends_only {TUsers, TPods, TPodMeetings} start_net (snd (import_run accept_server [(u '' '', [])] start_net))"
proof -
  have h: "fst (import_run accept_server [(u '' '', [])] start_net) = RunFailed IndexError"
    by (simp add: import_run_def create_users_def user_step_def parse_blank)
  show ?thesis using h run_failure_before_rows [OF h] by simp
qed

text \<open>
  C24: the attendance row carries the specification's mapping: \<open>attended\<close> is
  true, false or null for attended, not attended and unknown; the duration is 60
  minutes when attended and 0 otherwise; the confidence is 1.0 for a known and 0.5
  for an unknown status.
\<close>

theorem attendance_row_fields:
  "map_of (attendance_row mid uid d a) (u ''attended'') =
     Some (case a of Attended \<Rightarrow> JBool True | NotAttended \<Rightarrow> JBool False | AttUnknown \<Rightarrow> JNull) \<and>
   map_of (attendance_row mid uid d a) (u ''duration_minutes'') = Some (JInt (if a = Attended then 60 else 0)) \<and>
   map_of (attendance_row mid uid d a) (u ''confidence_score'') =
     Some (JFloat (if a = AttUnknown then u ''0.5'' else u ''1.0''))"
  by (cases a) (simp_all add: attendance_row_def attended_value_def u_def)

text \<open>
  C25: the commitment row carries the status mapping true to completed, false to
  failed and unknown to pending, and a completion time only for a fulfilled
  commitment, at the end of its day.
\<close>

theorem commitment_row_fields:
  "map_of (commitment_row uid d c) (u ''status'') =
     Some (JStr (case cfulfilled c of FTrue \<Rightarrow> u ''completed'' | FFalse \<Rightarrow> u ''failed''
                 | FUnknown \<Rightarrow> u ''pending'')) \<and>
   map_of (commitment_row uid d c) (u ''completed_at'') =
     Some (if cfulfilled c = FTrue then JStr (d @ u ''T23:59:59Z'') else JNull)"
  by (cases "cfulfilled c") (simp_all add: commitment_row_def commitment_status_def u_def)

text \<open>
  C26: \<open>parse_name\<close> raises \<open>IndexError\<close> exactly on a name made only of whitespace
  (the empty name included), and on no other name.
\<close>

theorem parse_name_error:
  "parse_name s = Inl e \<longleftrightarrow> e = IndexError \<and> list_all py_isspace s"
proof -
  have "py_split_ws (py_strip s) = [] \<longleftrightarrow> list_all py_isspace s"
    unfolding py_split_ws_Nil_iff py_strip_all_space py_strip_Nil_iff by (simp add: list_all_iff)
  then show ?thesis by (auto simp: parse_name_def Let_def split: list.splits)
qed

text \<open>
  C28: when the meetings step finishes, it has sent one meeting row per distinct date
  of the document, in increasing order of the date strings, and no other meeting
  row.
\<close>

theorem meetings_one_per_date:
  assumes "fst (create_pod_meetings srv data pod_id n) = Inr mm"
  shows "filter (is_post_to TPodMeetings)
           (drop (length (trace n)) (trace (snd (create_pod_meetings srv data pod_id n)))) =
           map (\<lambda>d. Post TPodMeetings (meeting_row pod_id d)) (all_dates data) \<and>
         sorted (all_dates data) \<and> distinct (all_dates data) \<and>
         set (all_dates data) = set (concat (map (\<lambda>(name, ud). map fst ud) data))"
proof -
  have "try_fold (meeting_step srv pod_id) (all_dates data) [] n =
      (Inr mm, snd (create_pod_meetings srv data pod_id n))"
    using assms by (metis create_pod_meetings_def prod.collapse)
  then have "filter (is_post_to TPodMeetings)
      (drop (length (trace n)) (trace (snd (create_pod_meetings srv data pod_id n)))) =
      map (\<lambda>d. Post TPodMeetings (meeting_row pod_id d)) (all_dates data)"
    by (rule meetings_loop_posts)
  then show ?thesis by (simp add: all_dates_def)
qed

theorem meetings_one_per_date_witness:
  "fst (create_pod_meetings accept_server jane_doc (JStr (u ''1'')) start_net) =
     Inr [(u ''2024-01-10'', JStr (u ''1''))] \<and>
   filter (is_post_to TPodMeetings) (drop (length (trace start_net))
     (trace (snd (create_pod_meetings accept_server jane_doc (JStr (u ''1'')) start_net)))) =
     map (\<lambda>d. Post TPodMeetings (meeting_row (JStr (u ''1'')) d)) (all_dates jane_doc) \<and>
   sorted (all_dates jane_doc) \<and> distinct (all_dates jane_doc) \<and>
   set (all_dates jane_doc) = set (concat (map (\<lambda>(name, ud). map fst ud) jane_doc))"
proof -
  have h: "fst (create_pod_meetings accept_server jane_doc (JStr (u ''1'')) start_net) =
     Inr [(u ''2024-01-10'', JStr (u ''1''))]"
    by (simp add: loader_simps store_simps)
  show ?thesis using h meetings_one_per_date [OF h] by simp
qed

text \<open>
  C27: the synthesised e-mail is not injective on names: for any three words, the
  name "f a b" and the name "f ab" are split into different last names but give the
  same address, since the spaces are removed after the parts are joined; the second
  user's lookup by e-mail then finds the first user's row.
\<close>

theorem email_collision:
  assumes "single_spaced [f, a, b]"
  shows "parse_name (py_join [32] [f, a, b]) = Inr (f, a @ [32] @ b) \<and>
         parse_name (py_join [32] [f, a @ b]) = Inr (f, a @ b) \<and>
         a @ [32] @ b \<noteq> a @ b \<and>
         user_email f (a @ [32] @ b) = user_email f (a @ b)"
proof -
  have s2: "single_spaced [f, a @ b]" using assms by (simp add: single_spaced_def)
  have p1: "py_split_ws (py_strip (py_join [32] [f, a, b])) = [f, a, b]" using split_ws_join [OF assms] .
  have p2: "py_split_ws (py_strip (py_join [32] [f, a @ b])) = [f, a @ b]" using split_ws_join [OF s2] .
  show ?thesis using p1 p2 by (simp add: parse_name_def user_email_def py_lower_space py_lower_def py_lower_c_def)
qed

theorem email_collision_witness:
  "single_spaced [u ''Mary'', u ''Ann'', u ''Lee''] \<and>
   parse_name (py_join [32] [u ''Mary'', u ''Ann'', u ''Lee'']) = Inr (u ''Mary'', u ''Ann'' @ [32] @ u ''Lee'') \<and>
   parse_name (py_join [32] [u ''Mary'', u ''Ann'' @ u ''Lee'']) = Inr (u ''Mary'', u ''Ann'' @ u ''Lee'') \<and>
   user_email (u ''Mary'') (u ''Ann'' @ [32] @ u ''Lee'') = user_email (u ''Mary'') (u ''Ann'' @ u ''Lee'')"
proof -
  have h: "single_spaced [u ''Mary'', u ''Ann'', u ''Lee'']" by (simp add: single_spaced_def pystr_simps)
  show ?thesis using h email_collision [OF h] by simp
qed

end
