(* ===== verification/RunSteps.thy ===== *)
theory RunSteps
  imports Loader
begin

text \<open>
  The sequence of \<open>main\<close> in \<open>src/import_scoreboards_to_supabase.py\<close> (lines
  353-383) as a small-step machine: a state names the next step to run (users, pod,
  meetings, commitments, attendance) with the results gathered so far and the client
  state, or the final outcome. \<open>run_step\<close> runs one step; its rules are the
  branches of \<open>main\<close>: an exception of a step or a missing or falsy pod id ends the
  run. The phase rank decreases with every step, which bounds every run; the
  machine is deterministic and agrees with the big-step \<open>import_run\<close> of theory
  \<open>Loader\<close>; and rule induction over the reachable states shows in which order the
  tables receive requests.
\<close>

datatype 'w run_state =
    SUsers "'w net"
  | SPod id_map "'w net"
  | SMeetings id_map jval "'w net"
  | SCommitments id_map id_map "'w net"
  | SAttendance id_map id_map nat "'w net"
  | SDone run_outcome "'w net"

fun state_net :: "'w run_state \<Rightarrow> 'w net" where
  "state_net (SUsers n) = n"
| "state_net (SPod um n) = n"
| "state_net (SMeetings um p n) = n"
| "state_net (SCommitments um mm n) = n"
| "state_net (SAttendance um mm nc n) = n"
| "state_net (SDone r n) = n"

fun phase :: "'w run_state \<Rightarrow> nat" where
  "phase (SUsers n) = 5"
| "phase (SPod um n) = 4"
| "phase (SMeetings um p n) = 3"
| "phase (SCommitments um mm n) = 2"
| "phase (SAttendance um mm nc n) = 1"
| "phase (SDone r n) = 0"

inductive run_step :: "'w server \<Rightarrow> document \<Rightarrow> 'w run_state \<Rightarrow> 'w run_state \<Rightarrow> bool"
  for srv data where
  users_failed: "create_users srv data n = (Inl e, n') \<Longrightarrow> run_step srv data (SUsers n) (SDone (RunFailed e) n')"
| users_done: "create_users srv data n = (Inr um, n') \<Longrightarrow> run_step srv data (SUsers n) (SPod um n')"
| pod_failed: "create_default_pod srv n = (Inl e, n') \<Longrightarrow> run_step srv data (SPod um n) (SDone (RunFailed e) n')"
| pod_missing: "create_default_pod srv n = (Inr None, n') \<Longrightarrow> run_step srv data (SPod um n) (SDone PodAborted n')"
| pod_falsy: "create_default_pod srv n = (Inr (Some p), n') \<Longrightarrow> \<not> jtruthy p \<Longrightarrow>
    run_step srv data (SPod um n) (SDone PodAborted n')"
| pod_done: "create_default_pod srv n = (Inr (Some p), n') \<Longrightarrow> jtruthy p \<Longrightarrow>
    run_step srv data (SPod um n) (SMeetings um p n')"
| meetings_failed: "create_pod_meetings srv data p n = (Inl e, n') \<Longrightarrow>
    run_step srv data (SMeetings um p n) (SDone (RunFailed e) n')"
| meetings_done: "create_pod_meetings srv data p n = (Inr mm, n') \<Longrightarrow>
    run_step srv data (SMeetings um p n) (SCommitments um mm n')"
| commitments_done: "import_commitments srv data um n = (nc, n') \<Longrightarrow>
    run_step srv data (SCommitments um mm n) (SAttendance um mm nc n')"
| attendance_done: "import_attendance srv data um mm n = (na, n') \<Longrightarrow>
    run_step srv data (SAttendance um mm nc n) (SDone (Completed um mm nc na) n')"

code_pred run_step .

subsection \<open>Steps, progress and determinism\<close>

inductive_simps run_step_SUsers: "run_step srv data (SUsers n) t"
inductive_simps run_step_SPod: "run_step srv data (SPod um n) t"
inductive_simps run_step_SMeetings: "run_step srv data (SMeetings um p n) t"
inductive_simps run_step_SCommitments: "run_step srv data (SCommitments um mm n) t"
inductive_simps run_step_SAttendance: "run_step srv data (SAttendance um mm nc n) t"
inductive_cases run_step_SDoneE: "run_step srv data (SDone r n) t"

lemmas run_step_simps = run_step_SUsers run_step_SPod run_step_SMeetings run_step_SCommitments
  run_step_SAttendance

lemma run_step_phase: "run_step srv data s t \<Longrightarrow> phase t < phase s"
  by (induction rule: run_step.induct) simp_all

lemma run_step_det: "run_step srv data s t \<Longrightarrow> run_step srv data s t' \<Longrightarrow> t = t'"
  by (induction rule: run_step.induct) (auto simp: run_step_simps)

lemma run_step_progress: "phase s \<noteq> 0 \<Longrightarrow> \<exists>t. run_step srv data s t"
proof (cases s)
  case (SUsers n)
  obtain r n' where c: "create_users srv data n = (r, n')" by fastforce
  show ?thesis using c SUsers by (cases r) (blast intro: run_step.intros)+
next
  case (SPod um n)
  obtain r n' where c: "create_default_pod srv n = (r, n')" by fastforce
  consider e where "r = Inl e" | "r = Inr None" | p where "r = Inr (Some p)"
    by (metis option.exhaust sum.exhaust)
  then show ?thesis using c SPod by cases (blast intro: run_step.intros)+
next
  case (SMeetings um p n)
  obtain r n' where c: "create_pod_meetings srv data p n = (r, n')" by fastforce
  show ?thesis using c SMeetings by (cases r) (blast intro: run_step.intros)+
next
  case (SCommitments um mm n)
  then show ?thesis by (metis run_step.commitments_done surj_pair)
next
  case (SAttendance um mm nc n)
  then show ?thesis by (metis run_step.attendance_done surj_pair)
qed simp

lemma run_done_stuck: "\<not> run_step srv data (SDone r n) t"
  by (auto elim: run_step_SDoneE)

lemma run_reaches_import_run:
  "(run_step srv data)\<^sup>*\<^sup>* (SUsers n0) (SDone (fst (import_run srv data n0)) (snd (import_run srv data n0)))"
proof -
  let ?R = "run_step srv data"
  have fin: "import_run srv data n0 = (r, n) \<Longrightarrow> ?R\<^sup>*\<^sup>* (SUsers n0) (SDone r n) \<Longrightarrow> ?thesis" for r n
    by simp
  obtain r1 n1 where c1: "create_users srv data n0 = (r1, n1)" by fastforce
  show ?thesis
  proof (cases r1)
    case (Inl e)
    show ?thesis
      by (rule fin [of "RunFailed e" n1]) (use c1 Inl in \<open>simp_all add: import_run_def run_step.users_failed r_into_rtranclp\<close>)
  next
    case (Inr um)
    have u: "?R (SUsers n0) (SPod um n1)" using c1 Inr by (simp add: run_step.users_done)
    obtain r2 n2 where c2: "create_default_pod srv n1 = (r2, n2)" by fastforce
    consider e where "r2 = Inl e" | "r2 = Inr None" | p where "r2 = Inr (Some p)" "\<not> jtruthy p"
      | p where "r2 = Inr (Some p)" "jtruthy p"
      by (metis option.exhaust sum.exhaust)
    then show ?thesis
    proof cases
      case (1 e)
      have "?R (SPod um n1) (SDone (RunFailed e) n2)" using c2 1 by (simp add: run_step.pod_failed)
      then show ?thesis using u c1 c2 Inr 1 by (intro fin [of "RunFailed e" n2]) (simp_all add: import_run_def)
    next
      case 2
      have "?R (SPod um n1) (SDone PodAborted n2)" using c2 2 by (simp add: run_step.pod_missing)
      then show ?thesis using u c1 c2 Inr 2 by (intro fin [of PodAborted n2]) (simp_all add: import_run_def)
    next
      case (3 p)
      have "?R (SPod um n1) (SDone PodAborted n2)" using c2 3 by (simp add: run_step.pod_falsy)
      then show ?thesis using u c1 c2 Inr 3 by (intro fin [of PodAborted n2]) (simp_all add: import_run_def)
    next
      case (4 p)
      have v: "?R (SPod um n1) (SMeetings um p n2)" using c2 4 by (simp add: run_step.pod_done)
      obtain r3 n3 where c3: "create_pod_meetings srv data p n2 = (r3, n3)" by fastforce
      show ?thesis
      proof (cases r3)
        case (Inl e)
        have "?R (SMeetings um p n2) (SDone (RunFailed e) n3)" using c3 Inl by (simp add: run_step.meetings_failed)
        then show ?thesis using u v c1 c2 c3 \<open>r1 = Inr um\<close> 4 Inl
          by (intro fin [of "RunFailed e" n3]) (simp_all add: import_run_def)
      next
        case (Inr mm)
        obtain nc n4 where c4: "import_commitments srv data um n3 = (nc, n4)" by fastforce
        obtain na n5 where c5: "import_attendance srv data um mm n4 = (na, n5)" by fastforce
        have w: "?R (SMeetings um p n2) (SCommitments um mm n3)" using c3 Inr by (simp add: run_step.meetings_done)
        have x: "?R (SCommitments um mm n3) (SAttendance um mm nc n4)" using c4 by (rule run_step.commitments_done)
        have y: "?R (SAttendance um mm nc n4) (SDone (Completed um mm nc na) n5)" using c5 by (rule run_step.attendance_done)
        show ?thesis using u v w x y c1 c2 c3 c4 c5 \<open>r1 = Inr um\<close> 4 Inr
          by (intro fin [of "Completed um mm nc na" n5]) (simp_all add: import_run_def)
      qed
    qed
  qed
qed

lemma run_final_unique:
  assumes "(run_step srv data)\<^sup>*\<^sup>* s (SDone r n)" "(run_step srv data)\<^sup>*\<^sup>* s (SDone r' n')"
  shows "r = r' \<and> n = n'"
  using assms
proof (induction s rule: converse_rtranclp_induct)
  case base
  then show ?case by (cases rule: converse_rtranclpE) (auto simp: run_done_stuck)
next
  case (step s t)
  from step.prems show ?case
  proof (cases rule: converse_rtranclpE)
    case base
    then show ?thesis using step.hyps(1) run_done_stuck by metis
  next
    case (step t')
    then have "t' = t" using run_step_det \<open>run_step srv data s t\<close> by blast
    then show ?thesis using step \<open>(run_step srv data)\<^sup>*\<^sup>* t' (SDone r' n')\<close> by (metis \<open>_ \<Longrightarrow> _\<close>)
  qed
qed

subsection \<open>Properties of the machine\<close>

text \<open>
  The machine and the big-step \<open>import_run\<close> agree: from the initial state the
  machine reaches a final state with a given outcome and client state exactly when
  \<open>import_run\<close> returns them.
\<close>

lemma run_machine_import_run:
  "(run_step srv data)\<^sup>*\<^sup>* (SUsers n0) (SDone r n) \<longleftrightarrow> import_run srv data n0 = (r, n)"
  using run_final_unique [OF _ run_reaches_import_run] run_reaches_import_run
  by (metis prod.collapse fst_conv snd_conv)

text \<open>
  \<open>main\<close> terminates: from every state the machine reaches a final state in at
  most as many steps as the state's phase rank, so at most five steps from the start.
\<close>

lemma run_machine_terminates:
  "\<exists>k r n. k \<le> phase s \<and> (run_step srv data ^^ k) s (SDone r n)"
proof (induction "phase s" arbitrary: s rule: less_induct)
  case less
  show ?case
  proof (cases "phase s = 0")
    case True
    then obtain r n where "s = SDone r n" by (cases s) auto
    then show ?thesis by (intro exI [of _ 0]) auto
  next
    case False
    then obtain t where st: "run_step srv data s t" using run_step_progress by blast
    then obtain k r n where k: "k \<le> phase t" "(run_step srv data ^^ k) t (SDone r n)"
      using less run_step_phase by blast
    have "(run_step srv data ^^ Suc k) s (SDone r n)" by (rule relpowp_Suc_I2 [OF st k(2)])
    moreover have "Suc k \<le> phase s" using k(1) run_step_phase [OF st] by simp
    ultimately show ?thesis by blast
  qed
qed

lemma run_users_jane:
  "create_users accept_server jane_doc start_net =
     (Inr [(u ''Jane Doe'', JStr (u ''1''))], snd (create_users accept_server jane_doc start_net))"
proof -
  have "fst (create_users accept_server jane_doc start_net) = Inr [(u ''Jane Doe'', JStr (u ''1''))]"
    by (simp add: loader_simps store_simps)
  then show ?thesis by (metis prod.collapse)
qed

lemma sends_only_step: "sends_only T n0 n \<Longrightarrow> sends_only T' n n' \<Longrightarrow> T' \<subseteq> T \<Longrightarrow> sends_only T n0 n'"
  by (blast intro: sends_only_trans sends_only_mono)

lemma phase_sends:
  "create_users srv data n = (r, n') \<Longrightarrow> sends_only {TUsers} n n'"
  "create_default_pod srv n = (q, n') \<Longrightarrow> sends_only {TPods} n n'"
  "create_pod_meetings srv data p n = (r, n') \<Longrightarrow> sends_only {TPodMeetings} n n'"
  "import_commitments srv data um n = (nc, n') \<Longrightarrow> sends_only {TCommitments} n n'"
proof -
  show "create_users srv data n = (r, n') \<Longrightarrow> sends_only {TUsers} n n'"
    using create_users_sends [of n srv data] by simp
  show "create_default_pod srv n = (q, n') \<Longrightarrow> sends_only {TPods} n n'"
    using create_default_pod_sends [of n srv] by simp
  show "create_pod_meetings srv data p n = (r, n') \<Longrightarrow> sends_only {TPodMeetings} n n'"
    using create_pod_meetings_sends [of n srv data p] by simp
  show "import_commitments srv data um n = (nc, n') \<Longrightarrow> sends_only {TCommitments} n n'"
    using import_commitments_sends [of srv data um n] by (auto simp: sends_only_def list_all_iff)
qed

text \<open>
  C35: the phases of \<open>main\<close> are ordered: in every state reachable from the start,
  before the commitments phase has run only the users, pods and meetings tables have
  been sent requests, and before the attendance phase only those and the commitments
  table; commitment and attendance rows come only after every user, the pod and every
  meeting.
\<close>

theorem run_phases_ordered:
  assumes "(run_step srv data)\<^sup>*\<^sup>* (SUsers n0) s"
  shows "(2 \<le> phase s \<longrightarrow> sends_only {TUsers, TPods, TPodMeetings} n0 (state_net s)) \<and>
         (1 \<le> phase s \<longrightarrow> sends_only {TUsers, TPods, TPodMeetings, TCommitments} n0 (state_net s))"
  using assms
proof (induction rule: rtranclp_induct)
  case base
  then show ?case by auto
next
  case (step t u)
  from step.hyps(2) show ?case
  proof cases
    case (users_done n um n')
    then have "sends_only {TUsers} n n'" by (blast intro: phase_sends(1))
    then show ?thesis using step.IH users_done by (auto intro: sends_only_step)
  next
    case (pod_done n p n' um)
    then have "sends_only {TPods} n n'" by (blast intro: phase_sends(2))
    then show ?thesis using step.IH pod_done by (auto intro: sends_only_step)
  next
    case (meetings_done p n mm n' um)
    then have "sends_only {TPodMeetings} n n'" by (blast intro: phase_sends(3))
    then show ?thesis using step.IH meetings_done by (auto intro: sends_only_step)
  next
    case (commitments_done um n nc n' mm)
    then have "sends_only {TCommitments} n n'" by (blast intro: phase_sends(4))
    then show ?thesis using step.IH commitments_done by (auto intro: sends_only_step)
  qed simp_all
qed

lemma run_machine_import_run_example:
  "(run_step accept_server jane_doc)\<^sup>*\<^sup>* (SUsers start_net)
     (SDone (Completed [(u ''Jane Doe'', JStr (u ''1''))] [(u ''2024-01-10'', JStr (u ''1''))] 1 1)
        (snd (import_run accept_server jane_doc start_net)))"
  using run_machine_import_run [of accept_server jane_doc start_net] jane_accept_run
  by (metis prod.collapse)

theorem run_phases_ordered_witness:
  "(run_step accept_server jane_doc)\<^sup>*\<^sup>* (SUsers start_net)
     (SPod [(u ''Jane Doe'', JStr (u ''1''))] (snd (create_users accept_server jane_doc start_net))) \<and>
   sends_only {TUsers, TPods, TPodMeetings} start_net (snd (create_users accept_server jane_doc start_net))"
proof -
  have h: "(run_step accept_server jane_doc)\<^sup>*\<^sup>* (SUsers start_net)
     (SPod [(u ''Jane Doe'', JStr (u ''1''))] (snd (create_users accept_server jane_doc start_net)))"
    by (rule r_into_rtranclp, rule run_step.users_done, rule run_users_jane)
  show ?thesis using h run_phases_ordered [OF h] by simp
qed

end
