(* ===== verification/CommitmentsOnly.thy ===== *)
theory CommitmentsOnly
  imports Loader
begin

text \<open>
  The second loader \<open>src/import_commitments_only.py\<close>, run when the users exist:
  \<open>get_user_mapping\<close> (lines 22-48) reads the imported users back and rebuilds each
  person's name from the stored first and last name; \<open>import_commitments\<close> (50-97)
  posts a shorter commitment row for every commitment of a person whose rebuilt name
  is a key of the document, skipping texts that are empty or strip to \<open>-\<close>; \<open>main\<close>
  (99-129) stops when no user is found. The mapping's keys are JSON values: a user
  without a last name is keyed by the stored first name as it is (possibly
  \<open>null\<close>), one with a last name by the string \<open>f"{first} {last}"\<close>.
\<close>

type_synonym user_map = "(jval, jval) pydict"

definition users_query :: request where
  "users_query = Get TUsers [(u ''status'', u ''imported_scoreboards'')] (map u [''id'', ''first_name'', ''last_name''])"

text \<open>Lines 39-45 for one user row: the key and the id, or the \<open>KeyError\<close> raised.\<close>

definition user_key :: "jobj \<Rightarrow> py_error + jval \<times> jval" where
  "user_key user =
     (case map_of user (u ''last_name'') of
        None \<Rightarrow> Inl (KeyError (u ''last_name''))
      | Some l \<Rightarrow>
          (let last_name = (if jtruthy l then l else JStr []) in
           case map_of user (u ''first_name'') of
             None \<Rightarrow> Inl (KeyError (u ''first_name''))
           | Some f \<Rightarrow>
               (let full_name = (if jtruthy last_name then JStr (jstr f @ [32] @ jstr last_name) else f) in
                case map_of user (u ''id'') of
                  None \<Rightarrow> Inl (KeyError (u ''id''))
                | Some i \<Rightarrow> Inr (full_name, i))))"

fun user_map_of :: "jobj list \<Rightarrow> user_map \<Rightarrow> py_error + user_map" where
  "user_map_of [] m = Inr m"
| "user_map_of (user # us) m =
     (case user_key user of Inl e \<Rightarrow> Inl e | Inr (k, i) \<Rightarrow> user_map_of us (pd_set k i m))"

definition get_user_mapping :: "'w server \<Rightarrow> 'w net \<Rightarrow> (py_error + user_map) \<times> 'w net" where
  "get_user_mapping srv n =
     (let (resp, n1) = send srv users_query n in
      if status resp \<noteq> 200 then (Inr [], n1) else (user_map_of (body resp) [], n1))"

definition skip_text :: "pystr \<Rightarrow> bool" where
  "skip_text t \<longleftrightarrow> t = [] \<or> py_strip t \<in> set [u ''-'', []]"

definition only_row :: "jval \<Rightarrow> commitment \<Rightarrow> jobj" where
  "only_row user_id c =
     [(u ''user_id'', user_id), (u ''commitment'', JStr (ctext c)),
      (u ''status'', JStr (commitment_status (fulfilled_str (cfulfilled c))))]"

text \<open>The loop body of lines 68-94: the counters (total, successful) and the client.\<close>

definition only_step :: "'w server \<Rightarrow> jval \<Rightarrow> (nat \<times> nat) \<times> 'w net \<Rightarrow> commitment \<Rightarrow> (nat \<times> nat) \<times> 'w net" where
  "only_step srv user_id acc c =
     (let ((total, ok), n) = acc; total = total + 1 in
      if skip_text (ctext c) then ((total, ok), n)
      else (let (resp, n') = send srv (Post TCommitments (only_row user_id c)) n in
            ((total, if status resp = 201 then ok + 1 else ok), n')))"

definition import_commitments_only :: "'w server \<Rightarrow> document \<Rightarrow> user_map \<Rightarrow> 'w net \<Rightarrow> (nat \<times> nat) \<times> 'w net" where
  "import_commitments_only srv data user_mapping n =
     foldl (\<lambda>acc (full_name, ud).
              case map_of user_mapping (JStr full_name) of
                None \<Rightarrow> acc
              | Some user_id \<Rightarrow>
                  foldl (\<lambda>acc (date_str, date_data). foldl (only_step srv user_id) acc (de_commitments date_data))
                    acc ud)
       ((0, 0), n) data"

datatype only_outcome = OnlyFailed py_error | NoUsers | OnlyDone nat

definition commitments_only_run :: "'w server \<Rightarrow> document \<Rightarrow> 'w net \<Rightarrow> only_outcome \<times> 'w net" where
  "commitments_only_run srv data n0 =
     (case get_user_mapping srv n0 of
        (Inl e, n1) \<Rightarrow> (OnlyFailed e, n1)
      | (Inr user_mapping, n1) \<Rightarrow>
          if user_mapping = [] then (NoUsers, n1)
          else (let ((total, ok), n2) = import_commitments_only srv data user_mapping n1 in (OnlyDone ok, n2)))"

text \<open>
  The specification of the loop of \<open>import_commitments\<close>: the commitments of every
  person whose name is a key of the mapping, in document order, and the rows of those
  whose text is not skipped.
\<close>

definition only_items :: "document \<Rightarrow> user_map \<Rightarrow> (jval \<times> commitment) list" where
  "only_items data user_mapping =
     concat (map (\<lambda>(full_name, ud). case map_of user_mapping (JStr full_name) of
                     None \<Rightarrow> []
                   | Some user_id \<Rightarrow> concat (map (\<lambda>(date_str, e). map (Pair user_id) (de_commitments e)) ud))
       data)"

definition only_rows :: "document \<Rightarrow> user_map \<Rightarrow> jobj list" where
  "only_rows data user_mapping =
     map (\<lambda>(user_id, c). only_row user_id c)
       (filter (\<lambda>(user_id, c). \<not> skip_text (ctext c)) (only_items data user_mapping))"

lemma user_key_row:
  "user_key [(u ''id'', i), (u ''first_name'', JStr f), (u ''last_name'', JStr l)] =
     Inr (if l \<noteq> [] then JStr (f @ [32] @ l) else JStr f, i)"
  by (simp add: user_key_def u_def)

subsection \<open>The commitment loop against its specification\<close>

lemma import_commitments_only_flat:
  "import_commitments_only srv data user_mapping n =
     foldl (\<lambda>acc (user_id, c). only_step srv user_id acc c) ((0, 0), n) (only_items data user_mapping)"
proof -
  have inner: "foldl (\<lambda>acc (user_id, c). only_step srv user_id acc c) acc
      (concat (map (\<lambda>(date_str, e). map (Pair user_id) (de_commitments e)) ud)) =
    foldl (\<lambda>acc (date_str, date_data). foldl (only_step srv user_id) acc (de_commitments date_data)) acc ud"
    for acc user_id and ud :: user_data
    by (simp add: foldl_concat_map foldl_map case_prod_beta')
  show ?thesis
    unfolding import_commitments_only_def only_items_def foldl_concat_map
    by (rule arg_cong [where f = "\<lambda>g. foldl g ((0, 0), n) data"])
      (auto simp: fun_eq_iff inner split: option.splits)
qed

lemma only_steps:
  "foldl (\<lambda>acc (user_id, c). only_step srv user_id acc c) ((tot, ok), n) xs = ((tot', ok'), n') \<Longrightarrow>
     tot' = tot + length xs \<and> ok \<le> ok' \<and>
     ok' \<le> ok + length (filter (\<lambda>(user_id, c). \<not> skip_text (ctext c)) xs) \<and>
     trace n' = trace n @ map (\<lambda>(user_id, c). Post TCommitments (only_row user_id c))
                             (filter (\<lambda>(user_id, c). \<not> skip_text (ctext c)) xs)"
proof (induction xs arbitrary: tot ok n)
  case (Cons x xs)
  obtain user_id c where x: "x = (user_id, c)" by fastforce
  obtain t1 o1 n1 where s: "only_step srv user_id ((tot, ok), n) c = ((t1, o1), n1)" by (metis prod.collapse)
  have st: "t1 = tot + 1 \<and> ok \<le> o1 \<and> o1 \<le> ok + (if skip_text (ctext c) then 0 else 1) \<and>
      trace n1 = trace n @ (if skip_text (ctext c) then [] else [Post TCommitments (only_row user_id c)])"
    using s by (auto simp: only_step_def send_def split: prod.splits if_splits)
  have "tot' = t1 + length xs \<and> o1 \<le> ok' \<and>
     ok' \<le> o1 + length (filter (\<lambda>(user_id, c). \<not> skip_text (ctext c)) xs) \<and>
     trace n' = trace n1 @ map (\<lambda>(user_id, c). Post TCommitments (only_row user_id c))
                             (filter (\<lambda>(user_id, c). \<not> skip_text (ctext c)) xs)"
    using Cons.IH [of t1 o1 n1] Cons.prems x s by simp
  then show ?case using st x by auto
qed simp

lemma split_ws_double:
  assumes "single_spaced [f, l]"
  shows "py_split_ws (py_strip (f @ [32, 32] @ l)) = [f, l]"
proof -
  have w: "f \<noteq> []" "l \<noteq> []" "list_all (\<lambda>c. \<not> py_isspace c) f" "list_all (\<lambda>c. \<not> py_isspace c) l"
    using assms by (simp_all add: single_spaced_def)
  have sp: "py_isspace 32" by (simp add: py_isspace_def)
  have "hd (f @ [32, 32] @ l) = hd f" "last (f @ [32, 32] @ l) = last l" using w by simp_all
  moreover have "\<not> py_isspace (hd f)" "\<not> py_isspace (last l)"
    using w by (auto simp: list_all_iff)
  ultimately have "stripped (f @ [32, 32] @ l)" by (simp add: stripped_def)
  then have s: "py_strip (f @ [32, 32] @ l) = f @ [32, 32] @ l" by (rule py_strip_stripped)
  have "split_when py_isspace (f @ 32 # (32 # l)) = f # split_when py_isspace (32 # l)"
    using w sp by (intro split_when_append) simp_all
  also have "\<dots> = f # [] # split_when py_isspace l"
    using split_when_append [of py_isspace "[]" 32 l] sp by simp
  also have "\<dots> = [f, [], l]" using w by (simp add: split_when_nop)
  finally show ?thesis using s w by (simp add: py_split_ws_def)
qed

subsection \<open>Properties of the commitments-only loader\<close>

text \<open>
  C5: the commitment loop of the commitments-only loader implements its
  specification: the total it prints counts every commitment of every person found
  in the mapping, skipped ones included; it posts exactly the rows of the commitments
  whose text is not empty or \<open>-\<close>, in document order; and the success count is at
  most the number of rows posted.
\<close>

theorem import_only_refines:
  "fst (fst (import_commitments_only srv data user_mapping n)) = length (only_items data user_mapping) \<and>
   snd (fst (import_commitments_only srv data user_mapping n)) \<le> length (only_rows data user_mapping) \<and>
   trace (snd (import_commitments_only srv data user_mapping n)) =
     trace n @ map (Post TCommitments) (only_rows data user_mapping)"
proof -
  obtain tot ok n' where r: "import_commitments_only srv data user_mapping n = ((tot, ok), n')"
    by (metis prod.collapse)
  then show ?thesis
    using only_steps [of srv 0 0 n "only_items data user_mapping" tot ok n']
      import_commitments_only_flat [of srv data user_mapping n]
    by (simp add: only_rows_def case_prod_beta')
qed

text \<open>
  C32: when \<open>main\<close> of the commitments-only loader stops early, because the users
  query finds no user (or fails) or a user row lacks a field and \<open>get_user_mapping\<close>
  raises \<open>KeyError\<close>, the only request it has sent is the users query: no
  commitment is posted.
\<close>

theorem only_run_stops_early:
  assumes "fst (commitments_only_run srv data n) \<in> {NoUsers, OnlyFailed e}"
  shows "trace (snd (commitments_only_run srv data n)) = trace n @ [users_query]"
  using assms
  by (auto simp: commitments_only_run_def get_user_mapping_def send_def split: prod.splits sum.splits if_splits)

theorem only_run_stops_early_witness:
  "fst (commitments_only_run accept_server [] start_net) \<in> {NoUsers, OnlyFailed (KeyError (u ''last_name''))} \<and>
   trace (snd (commitments_only_run accept_server [] start_net)) = [users_query]"
proof -
  have h: "fst (commitments_only_run accept_server [] start_net) \<in> {NoUsers, OnlyFailed (KeyError (u ''last_name''))}"
    by (simp add: commitments_only_run_def get_user_mapping_def send_def accept_server_def users_query_def
        user_key_def start_net_def u_def)
  show ?thesis using h only_run_stops_early [OF h] by (simp add: start_net_def)
qed

text \<open>
  C29: for a name written as words separated by single spaces, the first and last
  name the full loader stores for it are rebuilt by \<open>get_user_mapping\<close> into the
  same name, so the person's commitments are found again.
\<close>

theorem name_roundtrip:
  assumes "single_spaced ws"
  shows "\<exists>f l. parse_name (py_join [32] ws) = Inr (f, l) \<and>
    user_key [(u ''id'', i), (u ''first_name'', JStr f), (u ''last_name'', JStr l)] =
      Inr (JStr (py_join [32] ws), i)"
proof -
  have sp: "py_split_ws (py_strip (py_join [32] ws)) = ws" using split_ws_join [OF assms] .
  have ne: "\<forall>w \<in> set ws. w \<noteq> []" using assms by (simp add: single_spaced_def list_all_iff)
  consider w where "ws = [w]" | w v where "ws = [w, v]" | w v x xs where "ws = w # v # x # xs"
  proof -
    have "ws \<noteq> []" using assms by (simp add: single_spaced_def)
    then show thesis using that by (metis list.exhaust)
  qed
  then show ?thesis
  proof cases
    case 1
    then show ?thesis using sp by (simp add: parse_name_def user_key_row)
  next
    case 2
    then show ?thesis using sp ne by (simp add: parse_name_def user_key_row)
  next
    case 3
    then show ?thesis using sp ne by (simp add: parse_name_def user_key_row)
  qed
qed

theorem name_roundtrip_witness:
  "single_spaced [u ''Mary'', u ''Ann'', u ''Lee''] \<and>
   parse_name (py_join [32] [u ''Mary'', u ''Ann'', u ''Lee'']) = Inr (u ''Mary'', u ''Ann Lee'') \<and>
   user_key [(u ''id'', JStr (u ''7'')), (u ''first_name'', JStr (u ''Mary'')), (u ''last_name'', JStr (u ''Ann Lee''))] =
     Inr (JStr (py_join [32] [u ''Mary'', u ''Ann'', u ''Lee'']), JStr (u ''7''))"
proof -
  have h: "single_spaced [u ''Mary'', u ''Ann'', u ''Lee'']"
    by (simp add: single_spaced_def pystr_simps)
  have p: "parse_name (py_join [32] [u ''Mary'', u ''Ann'', u ''Lee'']) = Inr (u ''Mary'', u ''Ann Lee'')"
    by (simp add: parse_name_def pystr_simps)
  show ?thesis using h p name_roundtrip [OF h, of "JStr (u ''7'')"] by auto
qed

text \<open>
  C30: a name whose two words are separated by a doubled space is never found again:
  the full loader stores its words as first and last name, \<open>get_user_mapping\<close>
  rebuilds them with a single space, and the commitments-only import, looking the
  document's name up in that mapping, sends nothing for the person and counts none
  of its commitments, whatever they are.
\<close>

theorem double_space_name_lost:
  assumes "single_spaced [f, l]"
  shows "parse_name (f @ [32, 32] @ l) = Inr (f, l) \<and>
    user_key [(u ''id'', i), (u ''first_name'', JStr f), (u ''last_name'', JStr l)] = Inr (JStr (f @ [32] @ l), i) \<and>
    import_commitments_only srv [(f @ [32, 32] @ l, ud)] [(JStr (f @ [32] @ l), i)] n = ((0, 0), n)"
proof -
  have l: "l \<noteq> []" using assms by (simp add: single_spaced_def)
  have "f @ [32, 32] @ l \<noteq> f @ [32] @ l" by simp
  then show ?thesis
    using split_ws_double [OF assms] l by (simp add: parse_name_def user_key_row import_commitments_only_def)
qed

theorem double_space_name_lost_witness:
  "single_spaced [u ''Jane'', u ''Doe''] \<and>
   parse_name (u ''Jane'' @ [32, 32] @ u ''Doe'') = Inr (u ''Jane'', u ''Doe'') \<and>
   import_commitments_only accept_server [(u ''Jane'' @ [32, 32] @ u ''Doe'', [])]
     [(JStr (u ''Jane'' @ [32] @ u ''Doe''), JStr (u ''7''))] start_net = ((0, 0), start_net)"
proof -
  have h: "single_spaced [u ''Jane'', u ''Doe'']" by (simp add: single_spaced_def pystr_simps)
  show ?thesis using h double_space_name_lost [OF h, of "JStr (u ''7'')" accept_server "[]" start_net] by simp
qed


end
