(* ===== verification/Mains.thy ===== *)
theory Mains
  imports CommitmentsOnly
begin

text \<open>
  The entry points. \<open>main\<close> of \<open>src/excel_to_json_converter.py\<close> (lines 231-268):
  when the input file exists the workbook is converted, the document is written
  with \<open>json.dump\<close> (the value returned here), and the number of users, entries and
  commitments is printed; those three counts are part of the outcome. The input
  file's existence is a boolean; an exception during the conversion (an unreadable
  workbook) is outside the model of \<open>load_workbook\<close>.
\<close>

datatype extract_outcome =
    InputMissing
  | Converted document nat nat nat

definition extract_main :: "bool \<Rightarrow> workbook \<Rightarrow> extract_outcome" where
  "extract_main input_exists wb =
     (if \<not> input_exists then InputMissing
      else (let data = fst (convert_excel_to_json wb);
                total_entries = sum_list (map (\<lambda>(name, user_data). length user_data) data);
                total_commitments = sum_list (map (\<lambda>(name, user_data).
                    sum_list (map (\<lambda>(date_str, entry). length (de_commitments entry)) user_data)) data)
            in Converted data (length data) total_entries total_commitments))"

text \<open>
  \<open>main\<close> of each loader (lines 339-383 and 99-129 of the two scripts): a missing
  \<open>tpm_scoreboards_data.json\<close> (\<open>FileNotFoundError\<close>, the value \<open>None\<close> of the
  file) ends the program before any request; otherwise the run proceeds on the
  document read.
\<close>

datatype main_outcome =
    FileMissing
  | Ran run_outcome

definition import_main :: "'w server \<Rightarrow> document option \<Rightarrow> 'w net \<Rightarrow> main_outcome \<times> 'w net" where
  "import_main srv file n =
     (case file of
        None \<Rightarrow> (FileMissing, n)
      | Some scoreboards_data \<Rightarrow> (let (r, n') = import_run srv scoreboards_data n in (Ran r, n')))"

datatype only_main_outcome =
    OnlyFileMissing
  | OnlyRan only_outcome

definition commitments_only_main :: "'w server \<Rightarrow> document option \<Rightarrow> 'w net \<Rightarrow> only_main_outcome \<times> 'w net" where
  "commitments_only_main srv file n =
     (case file of
        None \<Rightarrow> (OnlyFileMissing, n)
      | Some scoreboards_data \<Rightarrow> (let (r, n') = commitments_only_run srv scoreboards_data n in (OnlyRan r, n')))"

subsection \<open>Summary counts\<close>

lemma sum_list_length_ge: "\<forall>x \<in> set xs. f x \<noteq> [] \<Longrightarrow> length xs \<le> sum_list (map (\<lambda>x. length (f x)) xs)"
proof (induction xs)
  case (Cons a xs)
  then have "0 < length (f a)" by simp
  with Cons show ?case by (simp del: length_greater_0_conv)
qed simp

lemma sheet_result_nonempty: "sheet_result sh = Some (name, ud) \<Longrightarrow> ud \<noteq> []"
  by (auto simp: sheet_result_def split: option.splits if_splits)

lemma length_map_filter_le: "length (List.map_filter f xs) \<le> length xs"
  by (induction xs) (auto simp: map_filter_simps split: option.splits)

text \<open>
  C36: the summary the extractor prints: the number of users is the number of people
  in the document, at most the number of sheets and at most the number of entries
  (every person kept has an entry), and the commitment total counts every
  commitment of every entry.
\<close>

theorem extract_summary_bounds:
  assumes "distinct (map fst wb)" and "extract_main True wb = Converted data users entries commitments"
  shows "users = length data \<and> users \<le> length wb \<and> users \<le> entries \<and>
    commitments = length (concat (map (\<lambda>(name, ud). concat (map (\<lambda>(d, e). de_commitments e) ud)) data))"
proof -
  have d: "data = List.map_filter sheet_result wb"
    using assms convert_fold [OF assms(1), of "[]"] by (simp add: extract_main_def convert_excel_to_json_def Let_def)
  have ne: "\<forall>x \<in> set data. snd x \<noteq> []"
    unfolding d by (auto simp: set_map_filter dest: sheet_result_nonempty)
  have "length data \<le> sum_list (map (\<lambda>x. length (snd x)) data)"
    using sum_list_length_ge [OF ne] .
  moreover have "length data \<le> length wb" unfolding d by (rule length_map_filter_le)
  ultimately show ?thesis using assms
    by (auto simp: extract_main_def Let_def case_prod_beta' length_concat comp_def)
qed


lemma two_sheet_convert:
  "fst (convert_excel_to_json [(u ''A'', sheet_of 3 1 []), (u ''B'', sheet_of 3 1 [((2, 1), CStr (u ''2024-01-10''))])]) =
   [(u ''B'', [(u ''2024-01-10'', \<lparr>de_attendance = AttUnknown, de_commitments = []\<rparr>)])]"
  by (simp add: convert_simps sniff_simps color_simps map_filter_simps)

theorem extract_summary_bounds_witness:
  "distinct (map fst [(u ''A'', sheet_of 3 1 []), (u ''B'', sheet_of 3 1 [((2, 1), CStr (u ''2024-01-10''))])]) \<and>
   extract_main True [(u ''A'', sheet_of 3 1 []), (u ''B'', sheet_of 3 1 [((2, 1), CStr (u ''2024-01-10''))])] =
     Converted [(u ''B'', [(u ''2024-01-10'', \<lparr>de_attendance = AttUnknown, de_commitments = []\<rparr>)])] 1 1 0 \<and>
   (1::nat) \<le> length [(u ''A'', sheet_of 3 1 []), (u ''B'', sheet_of 3 1 [((2, 1), CStr (u ''2024-01-10''))])]"
proof -
  have h: "distinct (map fst [(u ''A'', sheet_of 3 1 []), (u ''B'', sheet_of 3 1 [((2, 1), CStr (u ''2024-01-10''))])])"
    by (simp add: u_def)
  have e: "extract_main True [(u ''A'', sheet_of 3 1 []), (u ''B'', sheet_of 3 1 [((2, 1), CStr (u ''2024-01-10''))])] =
     Converted [(u ''B'', [(u ''2024-01-10'', \<lparr>de_attendance = AttUnknown, de_commitments = []\<rparr>)])] 1 1 0"
    by (simp only: extract_main_def Let_def two_sheet_convert) simp
  show ?thesis using h e extract_summary_bounds [OF h e] by simp
qed

end
