(* ===== verification/Spec2Isabelle.thy ===== *)
theory Spec2Isabelle
  imports RunSteps Mains
begin

text \<open>
  A verification development of the TPM scoreboards import pipeline
  (theprogressmethod/MVP). The program is two batch stages. The extractor
  \<open>src/excel_to_json_converter.py\<close> reads a workbook with openpyxl, one sheet per
  person, and writes a JSON document mapping each person's name to the dates of
  the sheet, each with an attendance status (from the fill colour of the date cell)
  and the commitments of that day (from the text of the commitments cell). The
  loader \<open>src/import_scoreboards_to_supabase.py\<close> reads the document and pushes
  users, one pod, one meeting per date, the commitments and the attendance rows to
  a REST datastore; \<open>src/import_commitments_only.py\<close> re-imports only the
  commitments, finding the users already in the store by their names.

  Theories, in import order:
  \<^item> \<open>Prelude\<close>: Python strings as lists of code points (\<open>u\<close> turns a literal
    into one), the string builtins the code calls (\<open>strip\<close>, \<open>split\<close>, \<open>join\<close>,
    \<open>lower\<close>, \<open>upper\<close>, \<open>in\<close>, \<open>str(int)\<close>), dicts as insertion-ordered association
    lists with \<open>pd_set\<close> for \<open>d[k] = v\<close>, and the fold lemmas the components share.
  \<^item> \<open>Workbook\<close>: the openpyxl cells, fills, worksheets and workbooks the
    extractor reads; \<open>Color\<close>: \<open>detect_attendance_from_color\<close> (lines 24-45);
    \<open>Emoji\<close>: \<open>detect_fulfillment_from_emoji\<close>, \<open>clean_commitment_text\<close> and
    \<open>parse_commitments_column\<close> (48-133); \<open>DateParse\<close>: \<open>parse_date_cell\<close> with
    \<open>strptime\<close>'s regular expressions and calendar check (78-108); \<open>Sniffer\<close>:
    \<open>find_data_start_row\<close> and \<open>find_date_and_commitment_columns\<close> (136-173);
    \<open>Converter\<close>: the sheet walker and workbook loop of \<open>convert_excel_to_json\<close>
    (176-229) and the contract of the document it returns.
  \<^item> \<open>Remote\<close>: the interface between the loaders and the datastore. A request is
    a POST of a JSON object or a filtered GET; a server is any function from a
    request and the store's state to a response and the next state; the client
    state \<open>'w net\<close> holds the server state and the trace of requests sent. An
    uncaught Python exception is the left value of a sum type, and a loop whose body
    may raise is \<open>try_fold\<close>.
  \<^item> \<open>Store\<close>: an in-memory datastore with the schema \<open>create_tables\<close> prints
    (loader lines 31-85), refusing rows with unknown columns or missing required
    ones (400) and repeated unique keys (409); and \<open>accept_server\<close>, a trivial
    server for examples.
  \<^item> \<open>Loader\<close>: \<open>parse_name\<close>, \<open>create_users\<close>, \<open>create_default_pod\<close>,
    \<open>create_pod_meetings\<close>, \<open>import_commitments\<close>, \<open>import_attendance\<close> and the
    sequence of \<open>main\<close> as \<open>import_run\<close>, each with its POSTs, GETs, status checks and
    exceptions; \<open>CommitmentsOnly\<close>: \<open>get_user_mapping\<close>, its \<open>import_commitments\<close>
    and \<open>main\<close>.
  \<^item> \<open>RunSteps\<close>: the loader's \<open>main\<close> once more, as an inductive small-step machine
    \<open>run_step\<close> over its phases (users, pod, meetings, commitments, attendance, done).
  \<^item> \<open>Mains\<close>: the entry points: the extractor's \<open>main\<close> (converter lines
    231-268) with its missing-input branch and printed counts, and the loaders'
    \<open>main\<close> with the missing-file branch before the run.

  What the lemmas show. Color, Emoji, DateParse: the functional behaviour of each
  classifier and parser on every branch, the round trip of the date normaliser and
  the shape of its output, the equivalence of the line loop with a filter-map.
  Sniffer: the column search returns the first matching column in scan order, its
  windows and the bounds of the start row. Converter: the document is well formed
  for every well-formed workbook, the workbook loop is a filter over the sheets,
  and the entries of a sheet. Loader: in every run that completes the commitment
  and attendance POSTs are exactly those of reference pipelines over the document;
  a failed pod aborts and an exception stops the run before any row; an accepting
  datastore makes every run over non-blank distinct names complete (liveness);
  the meetings step posts one row per distinct date in order; the row fields; the
  synthesised e-mail collides for "f a b" and "f ab". CommitmentsOnly: its
  commitment loop refines a list specification (\<open>only_items\<close>, \<open>only_rows\<close>); an
  early stop sends only the users query; names written with single spaces survive
  the round trip through first and last name, names with doubled spaces do not.
  RunSteps: the machine is deterministic, agrees with \<open>import_run\<close>, reaches a final
  state from every state, and by rule induction over reachable states the tables
  receive requests in phase order. Mains: the bounds of the printed summary. This
  theory: properties across components, the run of the whole loader against the
  printed schema and the extractor followed by the loader.

  There is no fuel: every loop of the program iterates over a finite list
  (workbook sheets, rows and columns bounded by \<open>max_row\<close>/\<open>max_column\<close>, lines of
  a cell, document entries), so every operation is a total HOL function and
  termination is by structural recursion or a fold. The one termination argument
  left, that \<open>main\<close> runs its phases to an end, is made on the small-step machine
  with the phase rank (5 down to 0) as the measure.

  Not modelled: file input and output (\<open>load_workbook\<close>, \<open>json.dump\<close>,
  \<open>json.load\<close>; the loaders are taken to read back exactly the extractor's
  document, and a file is present or absent), the output paths (the extractor
  writes an absolute path, the loaders read a relative one), printing (including
  \<open>create_tables\<close>, which only prints its SQL) and \<open>traceback\<close>, HTTP headers and \<open>time.sleep\<close>, the clock
  (\<open>datetime.now()\<close> is the constant \<open>JNow\<close>), the SQL text of \<open>create_tables\<close>
  beyond the columns and constraints of its two tables, foreign keys, and the
  behaviour of a real datastore beyond the server interface.
\<close>

subsection \<open>The loader against the printed schema\<close>

lemma store_rejects_meeting:
  "store_server (Post TPodMeetings (meeting_row pod_id d)) s = (\<lparr>status = 400, body = []\<rparr>, s)"
  by (simp add: store_server_def schema_def pod_meetings_schema_def row_fits_def meeting_row_def u_def)

lemma meeting_step_store: "fst (meeting_step store_server pod_id d m n) = Inr m"
  by (simp add: meeting_step_def send_def store_rejects_meeting)

lemma create_pod_meetings_store:
  "(case create_pod_meetings store_server data pod_id n of (Inl e, n') \<Rightarrow> f e n' | (Inr m, n') \<Rightarrow> g m n') =
     g [] (snd (create_pod_meetings store_server data pod_id n))"
proof -
  have "fst (create_pod_meetings store_server data pod_id n) = Inr []"
    using try_fold_keep [of "meeting_step store_server pod_id", OF meeting_step_store]
    by (simp add: create_pod_meetings_def)
  then show ?thesis by (cases "create_pod_meetings store_server data pod_id n") simp
qed

lemma attendance_rows_no_meetings: "attendance_rows data um [] = []"
  by (induction data) (auto simp: attendance_rows_def map_filter_def split: option.splits)

lemma store_jane_run:
  "fst (import_run store_server jane_doc fresh_net) = Completed [(u ''Jane Doe'', JStr (u ''id-0''))] [] 1 0"
  apply (simp add: import_run_def create_users_def user_step_def jane_doc_def parse_jane Let_def)
  apply (simp add: store_simps user_row_def user_email_def py_lower_def py_lower_c_def nat_digits.simps u_def)
  apply (simp add: create_default_pod_def Let_def store_simps pod_row_def pod_name_def nat_digits.simps u_def)
  apply (simp add: create_pod_meetings_store import_commitments_def import_attendance_def post_counted_def
      Let_def store_simps u_def)
  done

subsection \<open>The extractor followed by the loader\<close>

lemma convert_document_keys:
  assumes "distinct (map fst wb)"
  shows "map fst (fst (convert_excel_to_json wb)) = map fst (filter (\<lambda>sh. sheet_result sh \<noteq> None) wb)"
  using convert_fold [OF assms, of "[]"] keys_map_filter_sheet_result [of wb]
  by (simp add: convert_excel_to_json_def)

subsection \<open>Properties across components\<close>

text \<open>
  C3: against the schema that \<open>create_tables\<close> prints, every meeting POST of the
  loader is refused (it names a \<open>meeting_date\<close> column the table does not have and
  leaves out the required \<open>scheduled_date\<close>), so a run that completes has no meeting
  ids, counts no attendance and sends no attendance row.
\<close>

theorem store_run_no_attendance:
  assumes "fst (import_run store_server data n0) = Completed um mm nc na"
  shows "mm = [] \<and> na = 0 \<and>
    filter (is_post_to TMeetingAttendance) (trace (snd (import_run store_server data n0))) =
    filter (is_post_to TMeetingAttendance) (trace n0)"
proof (cases rule: import_run_cases [of store_server data n0])
  case (completed um' mm' nc' na' n3 n4)
  then have eq: "um' = um" "mm' = mm" "na' = na" using assms by simp_all
  obtain pod_id n2 where "fst (create_pod_meetings store_server data pod_id n2) = Inr mm"
    using import_run_meetings [OF assms] by blast
  then have mm: "mm = []"
    using try_fold_keep [of "meeting_step store_server pod_id", OF meeting_step_store]
    by (simp add: create_pod_meetings_def)
  have "filter (is_post_to TMeetingAttendance) (trace n3) = filter (is_post_to TMeetingAttendance) (trace n0)"
    using sends_only_filter [OF completed(2)] by simp
  moreover have "filter (is_post_to TMeetingAttendance) (trace n4) = filter (is_post_to TMeetingAttendance) (trace n3)"
    using import_commitments_sends [of store_server data um n3] completed(4) eq by simp
  ultimately show ?thesis
    using import_attendance_sends [of store_server data um "[]" n4] completed(5) eq mm
    by (simp add: attendance_rows_no_meetings)
qed (use assms in simp_all)

theorem store_run_no_attendance_witness:
  "fst (import_run store_server jane_doc fresh_net) = Completed [(u ''Jane Doe'', JStr (u ''id-0''))] [] 1 0 \<and>
   filter (is_post_to TMeetingAttendance) (trace (snd (import_run store_server jane_doc fresh_net))) = []"
  using store_jane_run store_run_no_attendance [OF store_jane_run] by (simp add: fresh_net_def)

text \<open>
  C31: the rows the loader builds against the printed schema: every attendance row
  names only columns of \<open>meeting_attendance\<close> and leaves out no required one, while
  every meeting row names a column \<open>pod_meetings\<close> does not have.
\<close>

theorem rows_fit_schema:
  "row_fits (the (schema TMeetingAttendance)) (attendance_row mid uid d a) \<and>
   \<not> row_fits (the (schema TPodMeetings)) (meeting_row pod_id d)"
  by (simp add: row_fits_def schema_def pod_meetings_schema_def meeting_attendance_schema_def attendance_row_def meeting_row_def Let_def u_def)

text \<open>
  C8: the extractor followed by the loader: for a workbook with distinct sheet names
  none of them blank, against an accepting datastore, the import of the extracted
  document completes and creates one user per sheet that holds data, in workbook
  order.
\<close>

theorem pipeline_completes:
  assumes "accepting srv" "distinct (map fst wb)" "list_all (\<lambda>(name, ws). \<not> list_all py_isspace name) wb"
  shows "\<exists>um mm nc na. fst (import_run srv (fst (convert_excel_to_json wb)) n0) = Completed um mm nc na \<and>
           map fst um = map fst (filter (\<lambda>sh. sheet_result sh \<noteq> None) wb)"
proof -
  let ?doc = "fst (convert_excel_to_json wb)"
  have k: "map fst ?doc = map fst (filter (\<lambda>sh. sheet_result sh \<noteq> None) wb)"
    using convert_document_keys [OF assms(2)] .
  have d: "distinct (map fst ?doc)"
    using k assms(2) by (simp add: distinct_map_filter)
  have "set (map fst ?doc) \<subseteq> set (map fst wb)" using k by auto
  then have b: "list_all (\<lambda>(name, ud). \<not> list_all py_isspace name) ?doc"
    using assms(3) by (fastforce simp: list_all_iff)
  show ?thesis using import_run_accepting [OF assms(1) d b, of n0] k by auto
qed

theorem pipeline_completes_witness:
  "accepting accept_server \<and> distinct (map fst [(u ''Jane Doe'', sheet_of 3 1 [])]) \<and>
   list_all (\<lambda>(name, ws). \<not> list_all py_isspace name) [(u ''Jane Doe'', sheet_of 3 1 [])] \<and>
   (\<exists>um mm nc na. fst (import_run accept_server (fst (convert_excel_to_json [(u ''Jane Doe'', sheet_of 3 1 [])])) start_net) =
      Completed um mm nc na \<and>
      map fst um = map fst (filter (\<lambda>sh. sheet_result sh \<noteq> None) [(u ''Jane Doe'', sheet_of 3 1 [])]))"
proof -
  have a: "accepting accept_server" by (auto simp: accepting_def accept_server_def u_def split: request.splits)
  have h: "distinct (map fst [(u ''Jane Doe'', sheet_of 3 1 [])])"
    "list_all (\<lambda>(name, ws). \<not> list_all py_isspace name) [(u ''Jane Doe'', sheet_of 3 1 [])]"
    by (simp_all add: u_def py_isspace_def)
  show ?thesis using a h pipeline_completes [OF a h, of start_net] by blast
qed

end
